theory Spec2Isabelle
  imports Main
begin

section \<open>The retry helper (src/src/utils.ts, lines 137-161)\<close>

text \<open>
  \<^verbatim>\<open>
  export function retry<T>(fn: () => Promise<T>, maxRetries: number = 3, delay: number = 1000): Promise<T> {
    return new Promise((resolve, reject) => {
      let attempts = 0;
      const attempt = async () => {
        try {
          const result = await fn();
          resolve(result);
        } catch (error) {
          attempts++;
          if (attempts >= maxRetries) {
            reject(error);
          } else {
            setTimeout(attempt, delay * Math.pow(2, attempts - 1));
          }
        }
      };
      attempt();
    });
  }
  \<close>
  The operation \<open>fn\<close> is a closure whose outcome may change from one invocation to the
  next, so it is modelled by the outcome of each invocation: \<open>fn k\<close> is what the
  invocation made after \<open>k\<close> earlier ones produces, \<open>Inl error\<close> for a rejection (or a
  synchronous throw, which the \<^verbatim>\<open>try\<close> catches alike) and \<open>Inr result\<close> for a fulfilment.
  The counter \<open>calls\<close> is the number of invocations made so far; it is bookkeeping of the
  model and independent of the code's own counter \<open>attempts\<close>.

  Everything the helper does besides settling its promise is recorded in a trace, in
  program order: \<open>Invoke\<close> for a call of \<open>fn\<close>, \<open>Timer ms\<close> for
  \<^verbatim>\<open>setTimeout(attempt, ms)\<close>. The third kind of event, \<open>Rpc name\<close>, is a call of the
  chain client made by a manager outside \<open>retry\<close>; \<open>retry\<close> itself never records one.

  \<open>maxRetries\<close> and \<open>delay\<close> are JavaScript numbers that hold integers (the retry policy
  of the specification: a count of attempts and a number of milliseconds), so they are
  integers here. \<open>attempts\<close> starts at 0 and is only incremented, so it is a natural
  number, and it is at least 1 wherever the power is computed. The trace records the
  number that is handed to \<^verbatim>\<open>setTimeout\<close>, which is the product as the code computes it;
  what the timer of the platform makes of that number is not part of the sources.
\<close>

subsection \<open>The delay, a double\<close>

text \<open>
  The value handed to \<^verbatim>\<open>setTimeout\<close> is computed in double precision. \<^verbatim>\<open>Math.pow(2, e)\<close>
  is the power of two itself for \<open>e\<close> up to 1023 and \<^verbatim>\<open>Infinity\<close> from 1024 on. Multiplying
  a double by a power of two changes its exponent only, so the product with \<open>delay\<close> is
  exact as long as it stays below \<open>2^1024\<close> in magnitude; beyond that it is an infinity,
  with the sign of \<open>delay\<close>. \<^verbatim>\<open>0 * Infinity\<close> is \<^verbatim>\<open>NaN\<close>. The finite values that arise are
  integers. (\<open>delay\<close> is itself a double: an integer that no double holds, such as
  \<open>2^53 + 1\<close>, cannot be passed.)
\<close>

datatype number = Finite int | PosInfinity | NegInfinity | NaN

text \<open>\<^verbatim>\<open>delay * Math.pow(2, e)\<close>\<close>

definition times_pow2 :: "int \<Rightarrow> nat \<Rightarrow> number" where
  "times_pow2 delay e =
     (if e < 1024 \<and> \<bar>delay\<bar> * 2 ^ e < 2 ^ 1024 then Finite (delay * 2 ^ e)
      else if delay = 0 then NaN
      else if 0 < delay then PosInfinity
      else NegInfinity)"

subsection \<open>The loop\<close>

datatype event = Invoke | Timer number | Rpc string

function attempt ::
  "(nat \<Rightarrow> 'e + 'a) \<Rightarrow> int \<Rightarrow> int \<Rightarrow> nat \<Rightarrow> nat \<Rightarrow> event list \<Rightarrow> ('e + 'a) \<times> event list"
where
  "attempt fn maxRetries delay attempts calls trace =
     (case fn calls of
        Inr result \<Rightarrow> (Inr result, trace @ [Invoke])
      | Inl error \<Rightarrow>
          (let attempts' = attempts + 1 in
           if int attempts' \<ge> maxRetries then (Inl error, trace @ [Invoke])
           else attempt fn maxRetries delay attempts' (Suc calls)
                  (trace @ [Invoke, Timer (times_pow2 delay (attempts' - 1))])))"
  by pat_completeness auto
termination
  by (relation "measure (\<lambda>(fn, maxRetries, delay, attempts, calls, trace). nat (maxRetries - int attempts))")
     auto

definition retry :: "(nat \<Rightarrow> 'e + 'a) \<Rightarrow> int \<Rightarrow> int \<Rightarrow> ('e + 'a) \<times> event list" where
  "retry fn maxRetries delay = attempt fn maxRetries delay 0 0 []"

text \<open>Reading a trace: how often the operation was invoked, and the delays scheduled.\<close>

definition invocations :: "event list \<Rightarrow> nat" where
  "invocations trace = length (filter (\<lambda>ev. ev = Invoke) trace)"

fun delays :: "event list \<Rightarrow> number list" where
  "delays [] = []"
| "delays (Invoke # evs) = delays evs"
| "delays (Timer ms # evs) = ms # delays evs"
| "delays (Rpc name # evs) = delays evs"

text \<open>The sum of a list of delays, when all of them are finite.\<close>

fun total_wait :: "number list \<Rightarrow> int option" where
  "total_wait [] = Some 0"
| "total_wait (Finite ms # rest) = map_option (\<lambda>t. ms + t) (total_wait rest)"
| "total_wait (other # rest) = None"

text \<open>
  The trace of \<open>m\<close> failed attempts that are each followed by a timer, when the code's
  counter stood at \<open>a\<close> before the first of them.
\<close>

fun backoff :: "int \<Rightarrow> nat \<Rightarrow> nat \<Rightarrow> event list" where
  "backoff D a 0 = []"
| "backoff D a (Suc m) = [Invoke, Timer (times_pow2 D a)] @ backoff D (Suc a) m"

subsection \<open>Facts about traces\<close>

lemma invocations_append: "invocations (xs @ ys) = invocations xs + invocations ys"
  by (simp add: invocations_def)

lemma delays_append: "delays (xs @ ys) = delays xs @ delays ys"
  by (induction xs rule: delays.induct) simp_all

lemma length_backoff: "length (backoff D a m) = 2 * m"
  by (induction m arbitrary: a) simp_all

lemma invocations_backoff: "invocations (backoff D a m) = m"
  by (induction m arbitrary: a) (simp_all add: invocations_def)

lemma backoff_snoc:
  "backoff D a (Suc m) = backoff D a m @ [Invoke, Timer (times_pow2 D (a + m))]"
proof (induction m arbitrary: a)
  case 0
  show ?case by simp
next
  case (Suc m)
  have "backoff D a (Suc (Suc m)) = [Invoke, Timer (times_pow2 D a)] @ backoff D (Suc a) (Suc m)"
    by (rule backoff.simps(2))
  also have "\<dots> = [Invoke, Timer (times_pow2 D a)]
                      @ (backoff D (Suc a) m @ [Invoke, Timer (times_pow2 D (Suc a + m))])"
    by (simp only: Suc.IH)
  also have "\<dots> = backoff D a (Suc m) @ [Invoke, Timer (times_pow2 D (a + Suc m))]"
    by simp
  finally show ?case .
qed

lemma total_wait_snoc:
  "total_wait (ds @ [Finite ms]) = map_option (\<lambda>t. t + ms) (total_wait ds)"
  by (induction ds rule: total_wait.induct) (simp_all add: option.map_comp comp_def add.assoc)

text \<open>Inside the range of a double the delay is the exact product.\<close>

lemma times_pow2_finite:
  assumes "e < 1024" and "\<bar>D\<bar> * 2 ^ e < 2 ^ 1024"
  shows "times_pow2 D e = Finite (D * 2 ^ e)"
  using assms by (simp add: times_pow2_def)

lemma in_range_mono:
  assumes "\<bar>D\<bar> * 2 ^ e < (2::int) ^ 1024" and "j \<le> e"
  shows "\<bar>D\<bar> * 2 ^ j < (2::int) ^ 1024"
proof -
  have "(2::int) ^ j \<le> 2 ^ e" using assms(2) by (simp add: power_increasing)
  then have "\<bar>D\<bar> * 2 ^ j \<le> \<bar>D\<bar> * 2 ^ e" by (simp add: mult_left_mono)
  with assms(1) show ?thesis by linarith
qed

lemma total_wait_backoff:
  assumes "m \<le> 1024" and "0 < m \<Longrightarrow> \<bar>D\<bar> * 2 ^ (m - 1) < 2 ^ 1024"
  shows "total_wait (delays (backoff D 0 m)) = Some (D * (2 ^ m - 1))"
  using assms
proof (induction m)
  case 0
  show ?case by simp
next
  case (Suc m)
  from Suc.prems have range: "\<bar>D\<bar> * 2 ^ m < 2 ^ 1024" and m: "m < 1024" by simp_all
  have prev: "total_wait (delays (backoff D 0 m)) = Some (D * (2 ^ m - 1))"
  proof (rule Suc.IH)
    show "m \<le> 1024" using m by simp
    show "\<bar>D\<bar> * 2 ^ (m - 1) < 2 ^ 1024" if "0 < m"
      using range by (rule in_range_mono) simp
  qed
  have "delays (backoff D 0 (Suc m)) = delays (backoff D 0 m) @ [Finite (D * 2 ^ m)]"
    by (simp only: backoff_snoc delays_append) (simp add: times_pow2_finite [OF m range])
  then show ?case
    by (simp only: total_wait_snoc prev) (simp add: algebra_simps)
qed

subsection \<open>Running the loop through a series of failures\<close>

text \<open>
  If the next \<open>m\<close> invocations fail and the counter stays below \<open>maxRetries\<close> after
  each of them, the loop goes through \<open>m\<close> rounds of invoke-and-wait and stands before
  the next invocation.
\<close>

lemma attempt_failures:
  assumes "\<forall>j<m. isl (fn (c + j))" and "int (a + m) < N"
  shows "attempt fn N D a c tr = attempt fn N D (a + m) (c + m) (tr @ backoff D a m)"
  using assms
proof (induction m arbitrary: a c tr)
  case 0
  show ?case by simp
next
  case (Suc m)
  from Suc.prems(1) have "isl (fn c)" by (metis add.right_neutral zero_less_Suc)
  then obtain e where e: "fn c = Inl e" by (cases "fn c") simp_all
  from Suc.prems(2) have small: "\<not> N \<le> int (a + 1)" by simp
  have rest: "\<forall>j<m. isl (fn (Suc c + j))"
    using Suc.prems(1) by (metis Suc_less_eq add_Suc_shift)
  have "attempt fn N D a c tr
          = attempt fn N D (Suc a) (Suc c) (tr @ [Invoke, Timer (times_pow2 D a)])"
    using e small by (subst attempt.simps) (simp add: Let_def)
  also have "\<dots> = attempt fn N D (Suc a + m) (Suc c + m)
                     ((tr @ [Invoke, Timer (times_pow2 D a)]) @ backoff D (Suc a) m)"
    using rest Suc.prems(2) by (intro Suc.IH) simp_all
  finally show ?case by simp
qed

lemma attempt_rejects:
  assumes "fn c = Inl e" and "N \<le> int a + 1"
  shows "attempt fn N D a c tr = (Inl e, tr @ [Invoke])"
  using assms by (subst attempt.simps) (simp add: Let_def)

lemma attempt_resolves:
  assumes "fn c = Inr r"
  shows "attempt fn N D a c tr = (Inr r, tr @ [Invoke])"
  using assms by (subst attempt.simps) simp

lemma attempt_trace_prefix:
  "\<exists>suf. snd (attempt fn N D a c tr) = tr @ Invoke # suf"
proof (induction fn N D a c tr rule: attempt.induct)
  case (1 fn maxRetries delay attempts calls trace)
  show ?case
  proof (cases "fn calls")
    case (Inr r)
    then show ?thesis by (subst attempt.simps) simp
  next
    case (Inl e)
    show ?thesis
    proof (cases "maxRetries \<le> int (attempts + 1)")
      case True
      with Inl show ?thesis by (subst attempt.simps) (simp add: Let_def)
    next
      case False
      from "1.IH" [OF Inl refl False]
      obtain suf where "snd (attempt fn maxRetries delay (attempts + 1) (Suc calls)
          (trace @ [Invoke, Timer (times_pow2 delay (attempts + 1 - 1))])) =
          (trace @ [Invoke, Timer (times_pow2 delay (attempts + 1 - 1))]) @ Invoke # suf"
        by blast
      with Inl False show ?thesis by (subst attempt.simps) (simp add: Let_def)
    qed
  qed
qed

text \<open>The promise settles with the outcome of one of the invocations.\<close>

lemma attempt_outcome: "\<exists>k. fst (attempt fn N D a c tr) = fn k"
proof (induction fn N D a c tr rule: attempt.induct)
  case (1 fn maxRetries delay attempts calls trace)
  show ?case
  proof (cases "fn calls")
    case (Inr r)
    then have "fst (attempt fn maxRetries delay attempts calls trace) = fn calls"
      by (subst attempt.simps) simp
    then show ?thesis by blast
  next
    case (Inl e)
    show ?thesis
    proof (cases "maxRetries \<le> int (attempts + 1)")
      case True
      with Inl have "fst (attempt fn maxRetries delay attempts calls trace) = fn calls"
        by (subst attempt.simps) (simp add: Let_def)
      then show ?thesis by blast
    next
      case False
      from "1.IH" [OF Inl refl False]
      obtain k where "fst (attempt fn maxRetries delay (attempts + 1) (Suc calls)
          (trace @ [Invoke, Timer (times_pow2 delay (attempts + 1 - 1))])) = fn k"
        by blast
      with Inl False have "fst (attempt fn maxRetries delay attempts calls trace) = fn k"
        by (subst attempt.simps) (simp add: Let_def)
      then show ?thesis by blast
    qed
  qed
qed

text \<open>
  After \<open>K\<close> failed attempts that were not the last, the trace begins with \<open>K\<close> rounds of
  invoke-and-wait, and attempt \<open>K + 1\<close> follows.
\<close>

lemma retry_rounds:
  assumes "\<forall>j<K. isl (fn j)" and "int K < N"
  shows "\<exists>suf. snd (retry fn N D) = backoff D 0 K @ Invoke # suf"
proof -
  have "retry fn N D = attempt fn N D (0 + K) (0 + K) ([] @ backoff D 0 K)"
    unfolding retry_def using assms by (intro attempt_failures) simp_all
  then show ?thesis
    using attempt_trace_prefix [of fn N D K K "backoff D 0 K"] by auto
qed

lemma retry_timer:
  assumes "\<forall>j<K. isl (fn j)" and "1 \<le> K" and "int K < N"
  shows "2 * K < length (snd (retry fn N D))"
    and "snd (retry fn N D) ! (2 * K - 1) = Timer (times_pow2 D (K - 1))"
    and "snd (retry fn N D) ! (2 * K) = Invoke"
    and "take (2 * (K - 1)) (snd (retry fn N D)) = backoff D 0 (K - 1)"
proof -
  from retry_rounds [OF assms(1,3)]
  obtain suf where tr: "snd (retry fn N D) = backoff D 0 K @ Invoke # suf" by blast
  from assms(2) obtain K' where K: "K = Suc K'" by (cases K) simp_all
  have split: "backoff D 0 K = backoff D 0 K' @ [Invoke, Timer (times_pow2 D K')]"
    unfolding K by (simp only: backoff_snoc) simp
  have tr': "snd (retry fn N D) = backoff D 0 K' @ [Invoke, Timer (times_pow2 D K'), Invoke] @ suf"
    by (simp only: tr split) simp
  show "2 * K < length (snd (retry fn N D))"
    by (simp add: tr length_backoff)
  show "snd (retry fn N D) ! (2 * K - 1) = Timer (times_pow2 D (K - 1))"
    by (simp add: tr' K nth_append length_backoff del: backoff.simps)
  show "snd (retry fn N D) ! (2 * K) = Invoke"
    by (simp add: tr nth_append length_backoff)
  show "take (2 * (K - 1)) (snd (retry fn N D)) = backoff D 0 (K - 1)"
    by (simp add: tr' K length_backoff del: backoff.simps)
qed

subsection \<open>Retry termination\<close>

text \<open>
  Claim C1. For an operation that fails on every invocation and every \<open>maxAttempts N \<ge> 1\<close>,
  \<open>retry\<close> invokes the operation exactly \<open>N\<close> times and then rejects with the very error
  of the \<open>N\<close>-th invocation (\<open>fn (N - 1)\<close>, counting invocations from 0), not a wrapped or
  different one. The trace is \<open>N - 1\<close> rounds of invoke-and-wait followed by the last
  invocation. The base delay plays no part, so the statement holds for every \<open>D\<close>, the
  \<open>D \<ge> 0\<close> of the claim included.
\<close>

theorem retry_always_failing:
  assumes "\<forall>k. isl (fn k)" and "1 \<le> N"
  shows "\<exists>e. fn (nat N - 1) = Inl e \<and> fst (retry fn N D) = Inl e
           \<and> invocations (snd (retry fn N D)) = nat N
           \<and> snd (retry fn N D) = backoff D 0 (nat N - 1) @ [Invoke]"
proof -
  from assms(1) obtain e where e: "fn (nat N - 1) = Inl e"
    by (cases "fn (nat N - 1)") (auto dest: spec [of _ "nat N - 1"])
  have "retry fn N D
          = attempt fn N D (0 + (nat N - 1)) (0 + (nat N - 1)) ([] @ backoff D 0 (nat N - 1))"
    unfolding retry_def using assms by (intro attempt_failures) simp_all
  also have "\<dots> = (Inl e, backoff D 0 (nat N - 1) @ [Invoke])"
    using e assms(2) by (simp add: attempt_rejects)
  finally have run: "retry fn N D = (Inl e, backoff D 0 (nat N - 1) @ [Invoke])" .
  have "invocations (backoff D 0 (nat N - 1) @ [Invoke]) = nat N"
    using assms(2)
    by (simp add: invocations_append invocations_backoff) (simp add: invocations_def)
  with e run show ?thesis by simp
qed

theorem retry_always_failing_witness:
  "fst (retry (\<lambda>k. Inl k :: nat + unit) 3 1000) = Inl 2
     \<and> invocations (snd (retry (\<lambda>k. Inl k :: nat + unit) 3 1000)) = 3
     \<and> snd (retry (\<lambda>k. Inl k :: nat + unit) 3 1000)
         = [Invoke, Timer (Finite 1000), Invoke, Timer (Finite 2000), Invoke]"
  using retry_always_failing [of "\<lambda>k. Inl k :: nat + unit" 3 1000]
  by (simp add: numeral_2_eq_2 invocations_def times_pow2_def)

subsection \<open>Retry short-circuit\<close>

text \<open>
  Claim C2. If the operation succeeds on attempt \<open>K \<le> N\<close> (the \<open>K - 1\<close> invocations
  before it having failed, which is how attempt \<open>K\<close> comes to be made), \<open>retry\<close> resolves
  with that attempt's result after exactly \<open>K\<close> invocations. The trace ends with the
  successful invocation: nothing is invoked and no timer is set after it.
\<close>

theorem retry_short_circuit:
  assumes "\<forall>j<K - 1. isl (fn j)" and "fn (K - 1) = Inr r" and "1 \<le> K" and "int K \<le> N"
  shows "fst (retry fn N D) = Inr r
           \<and> invocations (snd (retry fn N D)) = K
           \<and> snd (retry fn N D) = backoff D 0 (K - 1) @ [Invoke]"
proof -
  have "retry fn N D = attempt fn N D (0 + (K - 1)) (0 + (K - 1)) ([] @ backoff D 0 (K - 1))"
    unfolding retry_def using assms by (intro attempt_failures) simp_all
  also have "\<dots> = (Inr r, backoff D 0 (K - 1) @ [Invoke])"
    using assms(2) by (simp add: attempt_resolves)
  finally have run: "retry fn N D = (Inr r, backoff D 0 (K - 1) @ [Invoke])" .
  have "invocations (backoff D 0 (K - 1) @ [Invoke]) = K"
    using assms(3)
    by (simp add: invocations_append invocations_backoff) (simp add: invocations_def)
  with run show ?thesis by simp
qed

theorem retry_short_circuit_witness:
  "isl ([Inl 0, Inl 1, Inr True] ! 0 :: nat + bool) \<and> isl ([Inl 0, Inl 1, Inr True] ! 1 :: nat + bool)
     \<and> [Inl 0, Inl 1, Inr True] ! 2 = (Inr True :: nat + bool)
     \<and> fst (retry (\<lambda>k. [Inl 0, Inl 1, Inr True :: nat + bool] ! k) 5 1000) = Inr True
     \<and> invocations (snd (retry (\<lambda>k. [Inl 0, Inl 1, Inr True :: nat + bool] ! k) 5 1000)) = 3
     \<and> snd (retry (\<lambda>k. [Inl 0, Inl 1, Inr True :: nat + bool] ! k) 5 1000)
         = [Invoke, Timer (Finite 1000), Invoke, Timer (Finite 2000), Invoke]"
proof -
  have fails: "\<forall>j<3 - 1. isl ([Inl 0, Inl 1, Inr True :: nat + bool] ! j)"
    by (simp add: less_Suc_eq numeral_2_eq_2 numeral_3_eq_3)
  have succeeds: "[Inl 0, Inl 1, Inr True :: nat + bool] ! (3 - 1) = Inr True"
    by simp
  show ?thesis
    using retry_short_circuit [of 3 "\<lambda>k. [Inl 0, Inl 1, Inr True :: nat + bool] ! k" True 5 1000,
        OF fails succeeds]
    by (simp add: invocations_def numeral_2_eq_2 times_pow2_def)
qed

subsection \<open>Backoff schedule\<close>

text \<open>
  Claim C3 says that the delay set after failing attempt \<open>K\<close> is exactly \<open>D * 2^(K-1)\<close>, for
  every \<open>K\<close>. The code computes the product in double precision, and from attempt 1025 on
  \<^verbatim>\<open>Math.pow(2, attempts - 1)\<close> is \<^verbatim>\<open>Infinity\<close>: with \<open>D = 1\<close> and 1026 permitted attempts the
  timer set after the failing attempt 1025 (the event at position \<open>2 * 1025 - 1\<close> of the
  trace) is \<^verbatim>\<open>Infinity\<close>, not \<open>2^1024\<close>.
\<close>

theorem retry_backoff_overflows:
  "snd (retry (\<lambda>k. Inl k :: nat + unit) 1026 1) ! (2 * 1025 - 1) = Timer PosInfinity
   \<and> snd (retry (\<lambda>k. Inl k :: nat + unit) 1026 1) ! (2 * 1025 - 1)
       \<noteq> Timer (Finite (1 * 2 ^ (1025 - 1)))"
proof -
  have fails: "\<forall>j<1025. isl (Inl j :: nat + unit)"
    by simp
  have "snd (retry (\<lambda>k. Inl k :: nat + unit) 1026 1) ! (2 * 1025 - 1)
          = Timer (times_pow2 1 (1025 - 1))"
    by (rule retry_timer(2) [OF fails]) simp_all
  then show ?thesis by (simp add: times_pow2_def)
qed

text \<open>
  Claim C3, amended. Let the base delay \<open>D\<close> be a whole number of milliseconds with
  \<open>0 \<le> D \<le> 2^53\<close> (every such number is a double). If attempt \<open>K \<ge> 1\<close> fails (as the
  attempts before it did) and is not the last permitted attempt (\<open>K < N\<close>), and the product
  \<open>D * 2^(K-1)\<close> is in the range of a double (\<open>K \<le> 1024\<close> and \<open>D * 2^(K-1) < 2^1024\<close>), then
  \<open>retry\<close> sets a timer of exactly \<open>D * 2^(K-1)\<close> milliseconds after it, and attempt \<open>K+1\<close>
  is what follows that timer. Attempt \<open>K\<close> stands at position \<open>2 * (K - 1)\<close> of the trace;
  the timers set before it are all finite and add up to \<open>D * (2^(K-1) - 1)\<close>. With
  \<open>D = 1000\<close>: 1000 before attempt 2, 2000 before attempt 3.
\<close>

theorem retry_backoff_schedule:
  assumes "\<forall>j<K. isl (fn j)" and "1 \<le> K" and "int K < N"
    and "0 \<le> D" and "K \<le> 1024" and "D * 2 ^ (K - 1) < 2 ^ 1024" and "D \<le> 2 ^ 53"
  shows "2 * K < length (snd (retry fn N D))
           \<and> snd (retry fn N D) ! (2 * K - 1) = Timer (Finite (D * 2 ^ (K - 1)))
           \<and> snd (retry fn N D) ! (2 * K) = Invoke
           \<and> total_wait (delays (take (2 * (K - 1)) (snd (retry fn N D))))
               = Some (D * (2 ^ (K - 1) - 1))"
proof -
  note timer = retry_timer [OF assms(1,2,3)]
  from assms(4,6) have range: "\<bar>D\<bar> * 2 ^ (K - 1) < 2 ^ 1024" by simp
  from assms(2,5) have e: "K - 1 < 1024" by simp
  have "snd (retry fn N D) ! (2 * K - 1) = Timer (Finite (D * 2 ^ (K - 1)))"
    by (simp only: timer(2) times_pow2_finite [OF e range])
  moreover have "total_wait (delays (take (2 * (K - 1)) (snd (retry fn N D))))
                   = Some (D * (2 ^ (K - 1) - 1))"
  proof -
    have "total_wait (delays (backoff D 0 (K - 1))) = Some (D * (2 ^ (K - 1) - 1))"
    proof (rule total_wait_backoff)
      show "K - 1 \<le> 1024" using e by simp
      show "\<bar>D\<bar> * 2 ^ (K - 1 - 1) < 2 ^ 1024" if "0 < K - 1"
        using range by (rule in_range_mono) simp
    qed
    then show ?thesis by (simp only: timer(4))
  qed
  ultimately show ?thesis using timer(1,3) by blast
qed

theorem retry_backoff_schedule_witness:
  "2 * 2 < length (snd (retry (\<lambda>k. Inl k :: nat + unit) 3 1000))
     \<and> snd (retry (\<lambda>k. Inl k :: nat + unit) 3 1000) ! 3 = Timer (Finite 2000)
     \<and> snd (retry (\<lambda>k. Inl k :: nat + unit) 3 1000) ! 4 = Invoke
     \<and> total_wait (delays (take 2 (snd (retry (\<lambda>k. Inl k :: nat + unit) 3 1000)))) = Some 1000"
proof -
  have fails: "\<forall>j<2. isl (Inl j :: nat + unit)"
    by simp
  show ?thesis
    using retry_backoff_schedule [of 2 "\<lambda>k. Inl k :: nat + unit" 3 1000, OF fails]
    by simp
qed

subsection \<open>An attempt cap of one or less\<close>

text \<open>
  Claim C10. The cap is only looked at after a failure, so with \<open>maxRetries \<le> 1\<close> (zero
  and negative values included) the operation is still invoked exactly once; the promise
  settles with the outcome of that one invocation, a first failure being rejected at once
  with its own error, and no timer is set.
\<close>

theorem retry_at_most_one_attempt:
  assumes "N \<le> 1"
  shows "retry fn N D = (fn 0, [Invoke])"
proof (cases "fn 0")
  case (Inl e)
  with assms show ?thesis unfolding retry_def by (simp add: attempt_rejects)
next
  case (Inr r)
  then show ?thesis unfolding retry_def by (simp add: attempt_resolves)
qed

theorem retry_at_most_one_attempt_witness:
  "retry (\<lambda>k. Inl k :: nat + unit) 0 1000 = (Inl 0, [Invoke])
     \<and> invocations (snd (retry (\<lambda>k. Inl k :: nat + unit) 0 1000)) = 1
     \<and> delays (snd (retry (\<lambda>k. Inl k :: nat + unit) 0 1000)) = []"
  using retry_at_most_one_attempt [of 0 "\<lambda>k. Inl k :: nat + unit" 1000]
  by (simp add: invocations_def)

section \<open>The error taxonomy (src/src/errors.ts)\<close>

text \<open>
  A thrown value is an object with a class, a message, a code and a data payload.
  \<^verbatim>\<open>PolygonError\<close> extends the built-in \<^verbatim>\<open>Error\<close> and has seven subclasses; a plain
  \<^verbatim>\<open>Error\<close> (what \<^verbatim>\<open>throw new Error(...)\<close> and the chain library raise) has no code of
  the taxonomy. \<^verbatim>\<open>TypeError\<close> and \<^verbatim>\<open>SyntaxError\<close> are the built-in classes of the errors
  that the runtime itself raises. The payload is \<^verbatim>\<open>undefined\<close>, an object of string
  fields, or, where a manager passes the error it caught as \<open>data\<close>, that error.
\<close>

datatype js_class =
    Error_class
  | TypeError_class
  | SyntaxError_class
  | PolygonError_class
  | InsufficientBalanceError_class
  | TransactionFailedError_class
  | LicenseNotFoundError_class
  | NFTNotFoundError_class
  | InvalidAmountError_class
  | NetworkError_class
  | ContractError_class

datatype exn = Exn (cls: js_class) (message: string) (code: "string option") (data: payload)
and payload = Undefined | Object "(string \<times> string) list" | Caught exn

definition Error :: "string \<Rightarrow> exn" where
  "Error msg = Exn Error_class msg None Undefined"

definition TypeError :: "string \<Rightarrow> exn" where
  "TypeError msg = Exn TypeError_class msg None Undefined"

definition SyntaxError :: "string \<Rightarrow> exn" where
  "SyntaxError msg = Exn SyntaxError_class msg None Undefined"

definition PolygonError :: "string \<Rightarrow> string \<Rightarrow> payload \<Rightarrow> exn" where
  "PolygonError msg c d = Exn PolygonError_class msg (Some c) d"

definition InsufficientBalanceError :: "string \<Rightarrow> string \<Rightarrow> exn" where
  "InsufficientBalanceError required available =
     Exn InsufficientBalanceError_class
       (''Insufficient balance. Required: '' @ required @ '', Available: '' @ available)
       (Some ''INSUFFICIENT_BALANCE'')
       (Object [(''required'', required), (''available'', available)])"

definition TransactionFailedError :: "string \<Rightarrow> string \<Rightarrow> exn" where
  "TransactionFailedError h reason =
     Exn TransactionFailedError_class (''Transaction failed: '' @ reason)
       (Some ''TRANSACTION_FAILED'') (Object [(''hash'', h), (''reason'', reason)])"

definition LicenseNotFoundError :: "string \<Rightarrow> exn" where
  "LicenseNotFoundError licenseId =
     Exn LicenseNotFoundError_class (''License not found: '' @ licenseId)
       (Some ''LICENSE_NOT_FOUND'') (Object [(''licenseId'', licenseId)])"

definition NFTNotFoundError :: "string \<Rightarrow> exn" where
  "NFTNotFoundError tokenId =
     Exn NFTNotFoundError_class (''NFT not found: '' @ tokenId)
       (Some ''NFT_NOT_FOUND'') (Object [(''tokenId'', tokenId)])"

definition InvalidAmountError :: "string \<Rightarrow> exn" where
  "InvalidAmountError amount =
     Exn InvalidAmountError_class (''Invalid amount: '' @ amount)
       (Some ''INVALID_AMOUNT'') (Object [(''amount'', amount)])"

definition NetworkError :: "string \<Rightarrow> exn" where
  "NetworkError msg =
     Exn NetworkError_class (''Network error: '' @ msg)
       (Some ''NETWORK_ERROR'') (Object [(''message'', msg)])"

definition ContractError :: "string \<Rightarrow> string \<Rightarrow> exn" where
  "ContractError method reason =
     Exn ContractError_class (''Contract error in '' @ method @ '': '' @ reason)
       (Some ''CONTRACT_ERROR'') (Object [(''method'', method), (''reason'', reason)])"

text \<open>
  \<^verbatim>\<open>error instanceof PolygonError\<close> holds for the class and each of its subclasses, and for
  no built-in class.
\<close>

definition instanceof_PolygonError :: "exn \<Rightarrow> bool" where
  "instanceof_PolygonError e =
     (case cls e of
        Error_class \<Rightarrow> False
      | TypeError_class \<Rightarrow> False
      | SyntaxError_class \<Rightarrow> False
      | PolygonError_class \<Rightarrow> True
      | InsufficientBalanceError_class \<Rightarrow> True
      | TransactionFailedError_class \<Rightarrow> True
      | LicenseNotFoundError_class \<Rightarrow> True
      | NFTNotFoundError_class \<Rightarrow> True
      | InvalidAmountError_class \<Rightarrow> True
      | NetworkError_class \<Rightarrow> True
      | ContractError_class \<Rightarrow> True)"

definition instanceof_InvalidAmountError :: "exn \<Rightarrow> bool" where
  "instanceof_InvalidAmountError e = (cls e = InvalidAmountError_class)"

text \<open>
  An error that the \<^verbatim>\<open>ethers\<close> library raises, or the chain through it. The library does
  not know the classes above: what it throws is an \<^verbatim>\<open>Error\<close> with a message and, where it
  sets one, a code of its own (such as \<^verbatim>\<open>CALL_EXCEPTION\<close>), and never a \<^verbatim>\<open>PolygonError\<close>.
\<close>

datatype library_error = LibraryError string "string option"

fun raised :: "library_error \<Rightarrow> exn" where
  "raised (LibraryError msg c) = Exn Error_class msg c Undefined"

text \<open>The outcome of a call into the library, as the caller of the call sees it.\<close>

definition from_library :: "library_error + 'a \<Rightarrow> exn + 'a" where
  "from_library outcome = (case outcome of Inl e \<Rightarrow> Inl (raised e) | Inr x \<Rightarrow> Inr x)"

section \<open>Unit conversion (src/src/utils.ts, lines 37-43)\<close>

text \<open>
  \<^verbatim>\<open>
  export function parseUnits(value: string, decimals: number = 18): string {
    return ethers.utils.parseUnits(value, decimals).toString();
  }
  export function formatUnits(value: string | number, decimals: number = 18): string {
    return ethers.utils.formatUnits(value, decimals);
  }
  \<close>
  Both functions hand the work to the \<^verbatim>\<open>ethers\<close> library, which is not part of the
  sources. What the library does is modelled from the specification (section 4.3 and
  testable properties 4 and 9); where the specification is silent (the sign, a missing
  whole or fractional part, how many fractional digits are kept), the model does what
  version 5 of the library does.
\<close>

subsection \<open>Decimal digits\<close>

text \<open>
  Modelled from the spec: the decimal representation of a base-unit integer (``a
  non-negative integer value represented as a string of decimal digits''), as
  \<^verbatim>\<open>BigNumber.toString\<close> prints it and \<^verbatim>\<open>BigNumber.from\<close> reads it. The library's
  big-number class is missing from the sources.
\<close>

definition digit_char :: "nat \<Rightarrow> char" where
  "digit_char d = ''0123456789'' ! d"

definition digit_val :: "char \<Rightarrow> nat" where
  "digit_val c = of_char c - 48"

definition is_digit :: "char \<Rightarrow> bool" where
  "is_digit c = (48 \<le> (of_char c :: nat) \<and> (of_char c :: nat) \<le> 57)"

function toString :: "nat \<Rightarrow> string" where
  "toString n = (if n < 10 then [digit_char n] else toString (n div 10) @ [digit_char (n mod 10)])"
  by pat_completeness auto
termination
  by (relation "measure (\<lambda>n. n)") auto

declare toString.simps [simp del]

definition digits_val :: "string \<Rightarrow> nat" where
  "digits_val s = foldl (\<lambda>acc c. 10 * acc + digit_val c) 0 s"

text \<open>
  Modelled from the spec: \<^verbatim>\<open>BigNumber.toString()\<close>, missing from the sources; a minus
  sign and the digits of the magnitude.
\<close>

definition BigNumber_toString :: "int \<Rightarrow> string" where
  "BigNumber_toString i = (if i < 0 then ''-'' @ toString (nat (- i)) else toString (nat i))"

text \<open>\<^verbatim>\<open>negative = (value.substring(0, 1) === "-"); if (negative) value = value.substring(1)\<close>\<close>

definition strip_minus :: "string \<Rightarrow> bool \<times> string" where
  "strip_minus s = (case s of [] \<Rightarrow> (False, [])
                    | c # cs \<Rightarrow> if c = CHR ''-'' then (True, cs) else (False, s))"

text \<open>
  Modelled from the spec: \<^verbatim>\<open>BigNumber.from(string)\<close>, missing from the sources. It
  reads an optional minus sign and one or more decimal digits and fails on anything else.
  (The library also reads hexadecimal strings, which the specification's amounts never
  are; the model rejects them.)
\<close>

definition BigNumber_from :: "string \<Rightarrow> exn + int" where
  "BigNumber_from s =
     (let (negative, ds) = strip_minus s in
      if ds \<noteq> [] \<and> list_all is_digit ds
      then Inr (if negative then - int (digits_val ds) else int (digits_val ds))
      else Inl (Error ''invalid BigNumber string''))"

subsection \<open>Formatting and parsing fixed-point amounts\<close>

text \<open>\<^verbatim>\<open>value.split(".")\<close>: the pieces between separators, one more than there are separators.\<close>

fun split_on :: "char \<Rightarrow> string \<Rightarrow> string list" where
  "split_on sep [] = [[]]"
| "split_on sep (c # cs) =
     (if c = sep then [] # split_on sep cs
      else (case split_on sep cs of [] \<Rightarrow> [[c]] | w # ws \<Rightarrow> (c # w) # ws))"

text \<open>Dropping the trailing zeros of a string.\<close>

definition trim_zeros :: "string \<Rightarrow> string" where
  "trim_zeros s = rev (dropWhile (\<lambda>c. c = CHR ''0'') (rev s))"

text \<open>
  The fraction as printed: trailing zeros dropped, but one digit always kept (``the
  minimal decimal representation'', with \<open>1.0\<close> for one whole unit).
\<close>

definition strip_fraction :: "string \<Rightarrow> string" where
  "strip_fraction s = (if trim_zeros s = [] then ''0'' else trim_zeros s)"

definition pad_start :: "nat \<Rightarrow> string \<Rightarrow> string" where
  "pad_start n s = replicate (n - length s) (CHR ''0'') @ s"

definition pad_end :: "nat \<Rightarrow> string \<Rightarrow> string" where
  "pad_end n s = s @ replicate (n - length s) (CHR ''0'')"

text \<open>
  Modelled from the spec: the library's \<^verbatim>\<open>formatFixed\<close>, missing from the sources:
  ``inverse of parseUnits, produces the minimal decimal representation''. The integer is
  split at \<open>10^decimals\<close>; the fraction is left-padded to \<open>decimals\<close> digits and its
  trailing zeros are dropped; with \<open>decimals = 0\<close> only the whole part is printed. The
  library accepts scales up to 256.
\<close>

definition formatFixed :: "int \<Rightarrow> nat \<Rightarrow> exn + string" where
  "formatFixed v decimals =
     (if decimals > 256 then Inl (Error ''invalid decimal size'')
      else
        let multiplier = 10 ^ decimals;
            negative = (v < 0);
            a = nat \<bar>v\<bar>;
            fraction = strip_fraction (pad_start decimals (toString (a mod multiplier)));
            whole = toString (a div multiplier);
            r = (if decimals = 0 then whole else whole @ ''.'' @ fraction)
        in Inr (if negative then ''-'' @ r else r))"

text \<open>The pattern \<^verbatim>\<open>/^-?[0-9.]+$/\<close>.\<close>

definition matches_decimal :: "string \<Rightarrow> bool" where
  "matches_decimal s =
     (let body = snd (strip_minus s)
      in body \<noteq> [] \<and> list_all (\<lambda>c. is_digit c \<or> c = CHR ''.'') body)"

text \<open>
  Modelled from the spec: the library's \<^verbatim>\<open>parseFixed\<close>, missing from the sources:
  ``converts a human decimal amount to its base-unit integer representation by scaling by
  \<open>10^decimals\<close>, exact (no floating point), fails on malformed decimal input''. Malformed
  is: characters other than digits and dots after an optional sign, a lone dot, more than
  one dot, and more significant fractional digits than \<open>decimals\<close>. A missing whole or
  fractional part counts as zero.
\<close>

definition parseFixed :: "string \<Rightarrow> nat \<Rightarrow> exn + int" where
  "parseFixed s decimals =
     (if decimals > 256 then Inl (Error ''invalid decimal size'')
      else if \<not> matches_decimal s then Inl (Error ''invalid decimal value'')
      else
        let (negative, v) = strip_minus s in
        if v = ''.'' then Inl (Error ''missing value'')
        else
          let comps = split_on (CHR ''.'') v in
          if length comps > 2 then Inl (Error ''too many decimal points'')
          else
            let whole0 = (case comps of [] \<Rightarrow> [] | w # _ \<Rightarrow> w);
                fraction0 = (case comps of [_, f] \<Rightarrow> f | _ \<Rightarrow> []);
                whole = (if whole0 = [] then ''0'' else whole0);
                fraction1 = (if fraction0 = [] then ''0'' else fraction0);
                fraction2 = trim_zeros fraction1
            in
              if length fraction2 > decimals
              then Inl (Error ''fractional component exceeds decimals'')
              else
                let fraction3 = (if fraction2 = [] then ''0'' else fraction2);
                    fraction = pad_end decimals fraction3;
                    wei = int (digits_val whole) * 10 ^ decimals + int (digits_val fraction)
                in Inr (if negative then - wei else wei))"

text \<open>
  Modelled from the spec: \<^verbatim>\<open>ethers.utils.formatUnits\<close> with a numeric scale, missing
  from the sources: the value is read as a big number and formatted.
\<close>

definition ethers_formatUnits :: "string \<Rightarrow> nat \<Rightarrow> exn + string" where
  "ethers_formatUnits v unitName =
     (case BigNumber_from v of Inl e \<Rightarrow> Inl e | Inr n \<Rightarrow> formatFixed n unitName)"

text \<open>
  Modelled from the spec: \<^verbatim>\<open>ethers.utils.parseUnits\<close> with a numeric scale, missing
  from the sources.
\<close>

definition ethers_parseUnits :: "string \<Rightarrow> nat \<Rightarrow> exn + int" where
  "ethers_parseUnits v unitName = parseFixed v unitName"

text \<open>
  The two functions of \<^verbatim>\<open>utils.ts\<close>. A thrown library error is the \<open>Inl\<close> result. The
  \<open>value\<close> of \<open>formatUnits\<close> is taken as a string, which is what the claim and the callers
  in the managers pass.
\<close>

definition parseUnits :: "string \<Rightarrow> nat \<Rightarrow> exn + string" where
  "parseUnits v decimals =
     (case ethers_parseUnits v decimals of Inl e \<Rightarrow> Inl e | Inr n \<Rightarrow> Inr (BigNumber_toString n))"

definition formatUnits :: "string \<Rightarrow> nat \<Rightarrow> exn + string" where
  "formatUnits v decimals = ethers_formatUnits v decimals"

subsection \<open>Facts about digits and strings\<close>

lemma digit_cases: "d < 10 \<Longrightarrow> d \<in> {0, 1, 2, 3, 4, 5, 6, 7, 8, 9::nat}"
  by auto

lemma digit_val_digit_char: "d < 10 \<Longrightarrow> digit_val (digit_char d) = d"
  by (drule digit_cases) (auto simp: digit_val_def digit_char_def)

lemma is_digit_digit_char: "d < 10 \<Longrightarrow> is_digit (digit_char d)"
  by (drule digit_cases) (auto simp: is_digit_def digit_char_def)

lemma is_digit_not_dot: "is_digit c \<Longrightarrow> c \<noteq> CHR ''.''"
  by (auto simp: is_digit_def)

lemma is_digit_not_minus: "is_digit c \<Longrightarrow> c \<noteq> CHR ''-''"
  by (auto simp: is_digit_def)

lemma is_digit_zero: "is_digit (CHR ''0'')"
  by (simp add: is_digit_def)

lemma digit_val_zero: "digit_val (CHR ''0'') = 0"
  by (simp add: digit_val_def)

lemma toString_digits: "list_all is_digit (toString n)"
proof (induction n rule: toString.induct)
  case (1 n)
  show ?case
  proof (cases "n < 10")
    case True
    then show ?thesis by (subst toString.simps) (simp add: is_digit_digit_char)
  next
    case False
    with "1.IH" show ?thesis by (subst toString.simps) (simp add: is_digit_digit_char)
  qed
qed

lemma toString_nonempty: "toString n \<noteq> []"
  by (subst toString.simps) simp

lemma digits_val_snoc: "digits_val (s @ [c]) = 10 * digits_val s + digit_val c"
  by (simp add: digits_val_def)

lemma digits_val_toString: "digits_val (toString n) = n"
proof (induction n rule: toString.induct)
  case (1 n)
  show ?case
  proof (cases "n < 10")
    case True
    then show ?thesis
      by (subst toString.simps) (simp add: digits_val_def digit_val_digit_char)
  next
    case False
    with "1.IH" show ?thesis
      by (subst toString.simps) (simp add: digits_val_snoc digit_val_digit_char)
  qed
qed

lemma length_toString: "n < 10 ^ d \<Longrightarrow> 0 < d \<Longrightarrow> length (toString n) \<le> d"
proof (induction n arbitrary: d rule: toString.induct)
  case (1 n)
  show ?case
  proof (cases "n < 10")
    case True
    with "1.prems" show ?thesis by (subst toString.simps) simp
  next
    case False
    from "1.prems" obtain d' where d: "d = Suc d'" by (cases d) simp_all
    from False "1.prems" d have "0 < d'" by (cases d') simp_all
    moreover from "1.prems" d have "n div 10 < 10 ^ d'" by (simp add: less_mult_imp_div_less mult.commute)
    ultimately have "length (toString (n div 10)) \<le> d'" using "1.IH" False by simp
    with False d show ?thesis by (subst toString.simps) simp
  qed
qed

lemma digits_val_zeros_append: "digits_val (replicate k (CHR ''0'') @ s) = digits_val s"
proof (induction k)
  case 0
  show ?case by simp
next
  case (Suc k)
  have "digits_val (CHR ''0'' # t) = digits_val t" for t
    by (simp add: digits_val_def digit_val_zero)
  with Suc show ?case by simp
qed

lemma split_on_no_sep: "sep \<notin> set a \<Longrightarrow> split_on sep a = [a]"
  by (induction a) auto

lemma split_on_one_sep:
  "sep \<notin> set a \<Longrightarrow> sep \<notin> set b \<Longrightarrow> split_on sep (a @ sep # b) = [a, b]"
  by (induction a) (auto simp: split_on_no_sep)

lemma trim_zeros_decomp: "s = trim_zeros s @ replicate (length s - length (trim_zeros s)) (CHR ''0'')"
proof -
  let ?P = "\<lambda>c. c = CHR ''0''"
  have tk: "takeWhile ?P (rev s) = replicate (length (takeWhile ?P (rev s))) (CHR ''0'')"
    by (rule replicate_length_same [symmetric]) (auto dest: set_takeWhileD)
  have "rev s = takeWhile ?P (rev s) @ dropWhile ?P (rev s)" by simp
  then have "s = rev (dropWhile ?P (rev s)) @ rev (takeWhile ?P (rev s))"
    by (metis rev_append rev_rev_ident)
  also have "rev (takeWhile ?P (rev s)) = replicate (length (takeWhile ?P (rev s))) (CHR ''0'')"
    by (subst tk) simp
  also have "length (takeWhile ?P (rev s)) = length s - length (trim_zeros s)"
  proof -
    have "length (rev s) = length (takeWhile ?P (rev s)) + length (dropWhile ?P (rev s))"
      by (metis length_append takeWhile_dropWhile_id)
    then show ?thesis by (simp add: trim_zeros_def)
  qed
  finally show ?thesis by (simp add: trim_zeros_def)
qed

lemma trim_zeros_idem: "trim_zeros (trim_zeros s) = trim_zeros s"
  by (simp add: trim_zeros_def)

lemma length_trim_zeros: "length (trim_zeros s) \<le> length s"
  by (simp add: trim_zeros_def length_dropWhile_le order_trans [OF length_dropWhile_le])

lemma trim_zeros_digits: "list_all is_digit s \<Longrightarrow> list_all is_digit (trim_zeros s)"
  by (auto simp: trim_zeros_def list_all_iff dest: set_dropWhileD)

lemma trim_zeros_zero: "trim_zeros ''0'' = []"
  by (simp add: trim_zeros_def)

text \<open>
  Trimming, defaulting and right-padding the fraction that \<open>formatFixed\<close> printed gives
  back the padded digits it was printed from.
\<close>

lemma fraction_roundtrip:
  assumes "length p = d" and "0 < d"
  shows "trim_zeros (strip_fraction p) = [] \<Longrightarrow> pad_end d ''0'' = p"
    and "trim_zeros (strip_fraction p) \<noteq> [] \<Longrightarrow> pad_end d (trim_zeros (strip_fraction p)) = p"
    and "length (trim_zeros (strip_fraction p)) \<le> d"
    and "strip_fraction p \<noteq> []"
proof -
  show "strip_fraction p \<noteq> []" by (simp add: strip_fraction_def)
  show "length (trim_zeros (strip_fraction p)) \<le> d"
    using assms length_trim_zeros [of p]
    by (simp add: strip_fraction_def trim_zeros_zero trim_zeros_idem)
  have all: "pad_end d (if trim_zeros (strip_fraction p) = [] then ''0''
                         else trim_zeros (strip_fraction p)) = p"
  proof (cases "trim_zeros p = []")
    case True
    with trim_zeros_decomp [of p] assms have p: "p = replicate d (CHR ''0'')" by simp
    from assms obtain d' where "d = Suc d'" by (cases d) simp_all
    with True p show ?thesis
      by (simp add: strip_fraction_def trim_zeros_zero pad_end_def)
  next
    case False
    with trim_zeros_decomp [of p] assms show ?thesis
      by (simp add: strip_fraction_def trim_zeros_idem pad_end_def)
  qed
  show "trim_zeros (strip_fraction p) = [] \<Longrightarrow> pad_end d ''0'' = p"
    using all by simp
  show "trim_zeros (strip_fraction p) \<noteq> [] \<Longrightarrow> pad_end d (trim_zeros (strip_fraction p)) = p"
    using all by simp
qed

lemma strip_fraction_digits: "list_all is_digit s \<Longrightarrow> list_all is_digit (strip_fraction s)"
  by (simp add: strip_fraction_def trim_zeros_digits is_digit_zero)

lemma pad_start_digits: "list_all is_digit s \<Longrightarrow> list_all is_digit (pad_start d s)"
  by (auto simp: pad_start_def is_digit_zero list_all_iff)

lemma length_pad_start: "length s \<le> d \<Longrightarrow> length (pad_start d s) = d"
  by (simp add: pad_start_def)

lemma digits_val_pad_start: "digits_val (pad_start d s) = digits_val s"
  by (simp add: pad_start_def digits_val_zeros_append)

lemma strip_minus_digit: "s \<noteq> [] \<Longrightarrow> is_digit (hd s) \<Longrightarrow> strip_minus s = (False, s)"
  by (cases s) (auto simp: strip_minus_def dest: is_digit_not_minus)

lemma BigNumber_from_toString: "BigNumber_from (toString n) = Inr (int n)"
proof -
  have "is_digit (hd (toString n))"
    using toString_digits [of n] toString_nonempty [of n] by (cases "toString n") simp_all
  then have "strip_minus (toString n) = (False, toString n)"
    by (simp add: strip_minus_digit toString_nonempty)
  then show ?thesis
    by (simp add: BigNumber_from_def toString_nonempty toString_digits digits_val_toString)
qed

lemma BigNumber_toString_nat: "BigNumber_toString (int n) = toString n"
  by (simp add: BigNumber_toString_def)

lemma formatFixed_nat:
  assumes "d \<le> 256" and "0 < d"
  shows "formatFixed (int n) d
           = Inr (toString (n div 10 ^ d) @ CHR ''.'' # strip_fraction (pad_start d (toString (n mod 10 ^ d))))"
  using assms by (simp add: formatFixed_def Let_def)

lemma formatFixed_zero_decimals: "formatFixed (int n) 0 = Inr (toString n)"
  by (simp add: formatFixed_def Let_def)

lemma parseFixed_whole:
  assumes "list_all is_digit w" and "w \<noteq> []"
  shows "parseFixed w 0 = Inr (int (digits_val w))"
proof -
  from assms have hd: "is_digit (hd w)" by (cases w) simp_all
  have sm: "strip_minus w = (False, w)" using assms(2) hd by (rule strip_minus_digit)
  have m: "matches_decimal w"
    using assms by (auto simp: matches_decimal_def sm list_all_iff)
  have nodot: "CHR ''.'' \<notin> set w"
    using assms(1) by (auto simp: list_all_iff dest: is_digit_not_dot)
  have sp: "split_on (CHR ''.'') w = [w]" using nodot by (rule split_on_no_sep)
  have ne: "w \<noteq> ''.''" using nodot by auto
  show ?thesis
    using assms(2) ne
    by (simp add: parseFixed_def m sm sp Let_def trim_zeros_zero pad_end_def digits_val_def digit_val_zero)
qed

lemma parseFixed_printed:
  assumes d: "d \<le> 256" "0 < d"
    and w: "list_all is_digit w" "w \<noteq> []"
    and p: "list_all is_digit p" "length p = d"
  shows "parseFixed (w @ CHR ''.'' # strip_fraction p) d
           = Inr (int (digits_val w) * 10 ^ d + int (digits_val p))"
proof -
  let ?f = "strip_fraction p"
  let ?s = "w @ CHR ''.'' # ?f"
  from w have hd: "is_digit (hd ?s)" by (cases w) simp_all
  have sm: "strip_minus ?s = (False, ?s)" by (rule strip_minus_digit) (use hd in simp_all)
  have fd: "list_all is_digit ?f" using p(1) by (rule strip_fraction_digits)
  have m: "matches_decimal ?s"
    using w fd sm by (auto simp: matches_decimal_def list_all_iff)
  have nodot_w: "CHR ''.'' \<notin> set w"
    using w(1) by (auto simp: list_all_iff dest: is_digit_not_dot)
  have nodot_f: "CHR ''.'' \<notin> set ?f"
    using fd by (auto simp: list_all_iff dest: is_digit_not_dot)
  have sp: "split_on (CHR ''.'') ?s = [w, ?f]"
    using split_on_one_sep [OF nodot_w nodot_f] by simp
  have ne: "?s \<noteq> ''.''" using w(2) by (cases w) simp_all
  note fr = fraction_roundtrip [OF p(2) d(2)]
  show ?thesis
    using d(1) w(2) ne fr(3,4)
    by (simp add: parseFixed_def m sm sp Let_def fr(1,2))
qed

subsection \<open>The round trip\<close>

lemma units_roundtrip_general:
  assumes "d \<le> 256"
  shows "\<exists>s. formatUnits (toString n) d = Inr s \<and> parseUnits s d = Inr (toString n)"
proof (cases "d = 0")
  case True
  have "formatUnits (toString n) d = Inr (toString n)"
    by (simp add: True formatUnits_def ethers_formatUnits_def BigNumber_from_toString
        formatFixed_zero_decimals)
  moreover have "parseUnits (toString n) d = Inr (toString n)"
    by (simp add: True parseUnits_def ethers_parseUnits_def parseFixed_whole toString_digits
        toString_nonempty digits_val_toString BigNumber_toString_nat)
  ultimately show ?thesis by blast
next
  case False
  then have pos: "0 < d" by simp
  note le = assms
  let ?w = "toString (n div 10 ^ d)"
  let ?p = "pad_start d (toString (n mod 10 ^ d))"
  have len: "length ?p = d"
    by (rule length_pad_start) (rule length_toString, simp_all add: pos)
  have pd: "list_all is_digit ?p"
    by (rule pad_start_digits) (rule toString_digits)
  have fmt: "formatUnits (toString n) d = Inr (?w @ CHR ''.'' # strip_fraction ?p)"
    by (simp add: formatUnits_def ethers_formatUnits_def BigNumber_from_toString
        formatFixed_nat [OF le pos])
  have "parseFixed (?w @ CHR ''.'' # strip_fraction ?p) d
          = Inr (int (digits_val ?w) * 10 ^ d + int (digits_val ?p))"
    using le pos toString_digits toString_nonempty pd len by (rule parseFixed_printed)
  also have "int (digits_val ?w) * 10 ^ d + int (digits_val ?p) = int n"
  proof -
    have "int (digits_val ?w) * 10 ^ d + int (digits_val ?p)
            = int ((n div 10 ^ d) * 10 ^ d + n mod 10 ^ d)"
      by (simp add: digits_val_toString digits_val_pad_start)
    also have "\<dots> = int n" by (simp only: div_mult_mod_eq)
    finally show ?thesis .
  qed
  finally have "parseUnits (?w @ CHR ''.'' # strip_fraction ?p) d = Inr (toString n)"
    by (simp add: parseUnits_def ethers_parseUnits_def BigNumber_toString_nat)
  with fmt show ?thesis by blast
qed

lemma toString_0: "toString 0 = ''0''"
  by (simp add: toString.simps digit_char_def)

lemma toString_1: "toString (Suc 0) = ''1''"
  by (subst toString.simps) (simp add: digit_char_def)

lemma toString_one_ether: "toString 1000000000000000000 = ''1000000000000000000''"
  by (simp add: toString.simps digit_char_def)

lemma formatUnits_one_ether: "formatUnits ''1000000000000000000'' 18 = Inr ''1.0''"
proof -
  have bn: "BigNumber_from ''1000000000000000000'' = Inr 1000000000000000000"
    by (simp add: BigNumber_from_def strip_minus_def is_digit_def digits_val_def digit_val_def)
  have ff: "formatFixed 1000000000000000000 18 = Inr ''1.0''"
    by (simp add: formatFixed_def Let_def toString_0 toString_1 pad_start_def strip_fraction_def
        trim_zeros_def)
  show ?thesis by (simp add: formatUnits_def ethers_formatUnits_def bn ff)
qed

lemma parseUnits_one_ether: "parseUnits ''1.0'' 18 = Inr ''1000000000000000000''"
proof -
  have fr: "digits_val (pad_end 18 ''0'') = 0"
    using digits_val_zeros_append [of 1 "replicate 17 (CHR ''0'')"]
      digits_val_zeros_append [of 17 "[]"]
    by (simp add: pad_end_def digits_val_def)
  have pf: "parseFixed ''1.0'' 18 = Inr 1000000000000000000"
    by (simp add: parseFixed_def matches_decimal_def strip_minus_def is_digit_def Let_def
        trim_zeros_def fr) (simp add: digits_val_def digit_val_def)
  show ?thesis
    by (simp add: parseUnits_def ethers_parseUnits_def pf BigNumber_toString_def toString_one_ether)
qed

text \<open>
  Claim C4. For every non-negative integer \<open>n\<close>, written in decimal as \<open>toString n\<close>, and
  every scale \<open>d\<close> from 0 to 30, formatting succeeds and parsing what was printed gives
  \<open>toString n\<close> back. In particular \<open>formatUnits "1000000000000000000" 18\<close> is \<open>"1.0"\<close> and
  \<open>parseUnits "1.0" 18\<close> is \<open>"1000000000000000000"\<close>.
\<close>

theorem units_roundtrip:
  "(d \<le> 30 \<longrightarrow>
      (\<exists>s. formatUnits (toString n) d = Inr s \<and> parseUnits s d = Inr (toString n)))
   \<and> formatUnits ''1000000000000000000'' 18 = Inr ''1.0''
   \<and> parseUnits ''1.0'' 18 = Inr ''1000000000000000000''"
proof -
  have "\<exists>s. formatUnits (toString n) d = Inr s \<and> parseUnits s d = Inr (toString n)"
    if "d \<le> 30"
    using that by (intro units_roundtrip_general) simp
  then show ?thesis
    using formatUnits_one_ether parseUnits_one_ether by blast
qed

theorem units_roundtrip_witness:
  "formatUnits (toString 1500) 3 = Inr ''1.5'' \<and> parseUnits ''1.5'' 3 = Inr (toString 1500)"
proof -
  have ts: "toString 500 = ''500''"
    by (simp add: toString.simps digit_char_def)
  have fmt: "formatUnits (toString 1500) 3 = Inr ''1.5''"
    by (simp add: formatUnits_def ethers_formatUnits_def BigNumber_from_toString)
       (simp add: formatFixed_def Let_def ts toString_1 pad_start_def strip_fraction_def
          trim_zeros_def)
  from units_roundtrip [of 3 1500]
  obtain s where "formatUnits (toString 1500) 3 = Inr s" and "parseUnits s 3 = Inr (toString 1500)"
    by auto
  with fmt show ?thesis by simp
qed

section \<open>Asynchronous operations\<close>

text \<open>
  A manager operation is an \<^verbatim>\<open>async\<close> method: it ends by returning a value or by
  throwing, and on the way it may call the chain client. Its model is the outcome together
  with the trace of calls made, in program order. \<open>await p k\<close> runs \<open>p\<close> and, if it did not
  throw, continues with \<open>k\<close>; \<open>try_catch body handler\<close> is \<^verbatim>\<open>try { body } catch (error) { handler }\<close>.
  \<open>rpc name outcome\<close> is one call of the chain client: the outcome is decided by the chain
  and is a parameter of the model. \<open>library outcome\<close> is a call into the library that does
  not leave the process but may throw, and \<open>sync outcome\<close> is a call of a function of
  \<^verbatim>\<open>utils.ts\<close> that may throw.
\<close>

type_synonym 'a promise = "(exn + 'a) \<times> event list"

definition resolve :: "'a \<Rightarrow> 'a promise" where
  "resolve x = (Inr x, [])"

definition throw :: "exn \<Rightarrow> 'a promise" where
  "throw e = (Inl e, [])"

definition await :: "'a promise \<Rightarrow> ('a \<Rightarrow> 'b promise) \<Rightarrow> 'b promise" where
  "await p k =
     (case p of
        (Inl e, tr) \<Rightarrow> (Inl e, tr)
      | (Inr x, tr) \<Rightarrow> (case k x of (r, tr') \<Rightarrow> (r, tr @ tr')))"

definition try_catch :: "'a promise \<Rightarrow> (exn \<Rightarrow> 'a promise) \<Rightarrow> 'a promise" where
  "try_catch body handler =
     (case body of
        (Inl e, tr) \<Rightarrow> (case handler e of (r, tr') \<Rightarrow> (r, tr @ tr'))
      | (Inr x, tr) \<Rightarrow> (Inr x, tr))"

definition rpc :: "string \<Rightarrow> library_error + 'a \<Rightarrow> 'a promise" where
  "rpc name outcome = (from_library outcome, [Rpc name])"

definition library :: "library_error + 'a \<Rightarrow> 'a promise" where
  "library outcome = (from_library outcome, [])"

definition sync :: "exn + 'a \<Rightarrow> 'a promise" where
  "sync outcome = (outcome, [])"

lemma try_catch_throw [simp]: "try_catch (throw e) handler = handler e"
  by (simp add: try_catch_def throw_def split: prod.splits)

lemma await_throw [simp]: "await (throw e) k = throw e"
  by (simp add: await_def throw_def)

lemma await_resolve [simp]: "await (resolve x) k = k x"
  by (simp add: await_def resolve_def split: prod.splits)

section \<open>Data types (src/src/types.ts)\<close>

text \<open>
  Field names carry a prefix, since a field name is a constant and several of them
  (\<open>from\<close>, \<open>to\<close>, \<open>value\<close>, \<open>id\<close>, \<open>gasLimit\<close>) are keywords or the names of method
  parameters. An optional field is an \<open>option\<close>; \<^verbatim>\<open>Record<string, any>\<close> is an association
  list.
\<close>

record PolygonConfig =
  cfg_rpcUrl :: string
  cfg_privateKey :: "string option"
  cfg_networkId :: int
  cfg_gasPrice :: "string option"
  cfg_gasLimit :: "nat option"

datatype tx_status = pending | success | failed

record PolygonTransaction =
  pt_hash :: string
  pt_from :: string
  pt_to :: string
  pt_value :: string
  pt_gasUsed :: string
  pt_gasPrice :: string
  pt_status :: tx_status
  pt_blockNumber :: "nat option"
  pt_timestamp :: nat

datatype license_status = active | expired | revoked

record PolygonLicense =
  pl_id :: string
  pl_owner :: string
  pl_productId :: string
  pl_licenseType :: string
  pl_status :: license_status
  pl_createdAt :: nat
  pl_expiresAt :: "nat option"
  pl_metadata :: "(string \<times> string) list"

record PolygonNFT =
  nft_tokenId :: string
  nft_contractAddress :: string
  nft_owner :: string
  nft_metadata :: "(string \<times> string) list"
  nft_royalty_recipient :: string
  nft_royalty_percentage :: nat

record PolygonDeFiPool =
  pool_address :: string
  pool_token0 :: string
  pool_token1 :: string
  pool_reserve0 :: string
  pool_reserve1 :: string
  pool_totalSupply :: string
  pool_fee :: nat

section \<open>The DeFi manager (src/src/PolygonDeFiManager.ts)\<close>

text \<open>
  Every method has the shape
  \<^verbatim>\<open>
  async getPools(): Promise<PolygonDeFiPool[]> {
    try {
      throw new Error('Not implemented - requires Polygon-specific implementation');
    } catch (error) {
      throw new PolygonError(`Failed to get pools: ${error.message}`, 'GET_POOLS_ERROR');
    }
  }
  \<close>
  and the amount-taking ones check their amounts first:
  \<^verbatim>\<open>
  async swap(tokenIn, tokenOut, amountIn, amountOutMin) {
    try {
      if (!amountIn || amountIn === '0') { throw new InvalidAmountError(amountIn); }
      if (!amountOutMin || amountOutMin === '0') { throw new InvalidAmountError(amountOutMin); }
      throw new Error('Not implemented - requires Polygon-specific implementation');
    } catch (error) {
      if (error instanceof InvalidAmountError) { throw error; }
      throw new PolygonError(`Failed to swap: ${error.message}`, 'SWAP_ERROR');
    }
  }
  \<close>
  For a string, \<^verbatim>\<open>!amount\<close> is true exactly for the empty string.

  Each of the three managers keeps the configuration it was built with,
  \<^verbatim>\<open>
  constructor(config: PolygonConfig) { this.config = config; }
  updateConfig(newConfig: PolygonConfig): void { this.config = newConfig; }
  \<close>
  and none of its other methods reads it, so those do not take the manager as an argument.
  \<open>updateConfig\<close> is synchronous and has nothing in it that could throw.
\<close>

record stub_manager =
  stub_config :: PolygonConfig

definition new_PolygonDeFiManager :: "PolygonConfig \<Rightarrow> stub_manager" where
  "new_PolygonDeFiManager cfg = \<lparr> stub_config = cfg \<rparr>"

definition PolygonDeFiManager_updateConfig :: "stub_manager \<Rightarrow> PolygonConfig \<Rightarrow> stub_manager" where
  "PolygonDeFiManager_updateConfig this newConfig = this \<lparr> stub_config := newConfig \<rparr>"

definition getPools :: "PolygonDeFiPool list promise" where
  "getPools =
     try_catch (throw (Error ''Not implemented - requires Polygon-specific implementation''))
       (\<lambda>error. throw (PolygonError (''Failed to get pools: '' @ message error) ''GET_POOLS_ERROR'' Undefined))"

definition getPool :: "string \<Rightarrow> string \<Rightarrow> PolygonDeFiPool promise" where
  "getPool tokenA tokenB =
     try_catch (throw (Error ''Not implemented - requires Polygon-specific implementation''))
       (\<lambda>error. throw (PolygonError (''Failed to get pool: '' @ message error) ''GET_POOL_ERROR'' Undefined))"

definition addLiquidity :: "string \<Rightarrow> string \<Rightarrow> string \<Rightarrow> string \<Rightarrow> PolygonTransaction promise" where
  "addLiquidity tokenA tokenB amountA amountB =
     try_catch
       (if amountA = [] \<or> amountA = ''0'' \<or> amountB = [] \<or> amountB = ''0''
        then throw (InvalidAmountError (amountA @ ''-'' @ amountB))
        else throw (Error ''Not implemented - requires Polygon-specific implementation''))
       (\<lambda>error. if instanceof_InvalidAmountError error then throw error
                else throw (PolygonError (''Failed to add liquidity: '' @ message error)
                              ''ADD_LIQUIDITY_ERROR'' Undefined))"

definition removeLiquidity :: "string \<Rightarrow> string \<Rightarrow> string \<Rightarrow> PolygonTransaction promise" where
  "removeLiquidity tokenA tokenB lpTokenAmount =
     try_catch
       (if lpTokenAmount = [] \<or> lpTokenAmount = ''0''
        then throw (InvalidAmountError lpTokenAmount)
        else throw (Error ''Not implemented - requires Polygon-specific implementation''))
       (\<lambda>error. if instanceof_InvalidAmountError error then throw error
                else throw (PolygonError (''Failed to remove liquidity: '' @ message error)
                              ''REMOVE_LIQUIDITY_ERROR'' Undefined))"

definition swap :: "string \<Rightarrow> string \<Rightarrow> string \<Rightarrow> string \<Rightarrow> PolygonTransaction promise" where
  "swap tokenIn tokenOut amountIn amountOutMin =
     try_catch
       (if amountIn = [] \<or> amountIn = ''0''
        then throw (InvalidAmountError amountIn)
        else if amountOutMin = [] \<or> amountOutMin = ''0''
        then throw (InvalidAmountError amountOutMin)
        else throw (Error ''Not implemented - requires Polygon-specific implementation''))
       (\<lambda>error. if instanceof_InvalidAmountError error then throw error
                else throw (PolygonError (''Failed to swap: '' @ message error)
                              ''SWAP_ERROR'' Undefined))"

definition getQuote :: "string \<Rightarrow> string \<Rightarrow> string \<Rightarrow> (string \<times> int) promise" where
  "getQuote tokenIn tokenOut amountIn =
     try_catch
       (if amountIn = [] \<or> amountIn = ''0''
        then throw (InvalidAmountError amountIn)
        else throw (Error ''Not implemented - requires Polygon-specific implementation''))
       (\<lambda>error. if instanceof_InvalidAmountError error then throw error
                else throw (PolygonError (''Failed to get quote: '' @ message error)
                              ''QUOTE_ERROR'' Undefined))"

definition getReserves :: "string \<Rightarrow> string \<Rightarrow> (string \<times> string) promise" where
  "getReserves tokenA tokenB =
     try_catch (throw (Error ''Not implemented - requires Polygon-specific implementation''))
       (\<lambda>error. throw (PolygonError (''Failed to get reserves: '' @ message error) ''RESERVES_ERROR'' Undefined))"

definition getPrice :: "string \<Rightarrow> string \<Rightarrow> string promise" where
  "getPrice tokenA tokenB =
     try_catch (throw (Error ''Not implemented - requires Polygon-specific implementation''))
       (\<lambda>error. throw (PolygonError (''Failed to get price: '' @ message error) ''PRICE_ERROR'' Undefined))"

definition getLiquidity :: "string \<Rightarrow> string \<Rightarrow> string promise" where
  "getLiquidity tokenA tokenB =
     try_catch (throw (Error ''Not implemented - requires Polygon-specific implementation''))
       (\<lambda>error. throw (PolygonError (''Failed to get liquidity: '' @ message error) ''LIQUIDITY_ERROR'' Undefined))"

section \<open>The license manager (src/src/PolygonLicenseManager.ts)\<close>

text \<open>
  The same shape. \<open>getLicense\<close> answers every failure with \<open>LicenseNotFoundError\<close>;
  \<open>extendLicense\<close> checks \<^verbatim>\<open>additionalTime <= 0\<close> first and reports the number printed
  by \<^verbatim>\<open>toString()\<close>.

  \<open>additionalTime\<close> is a JavaScript number. It is taken here as an integer (what a count
  of seconds is); a fractional number is not modelled. \<open>Number_toString\<close> is
  \<^verbatim>\<open>Number.prototype.toString\<close> for the integers below \<open>10^21\<close> in magnitude, where it
  prints the sign and the decimal digits. From \<open>10^21\<close> on JavaScript prints the exponent
  form (\<^verbatim>\<open>1e+21\<close>), which the definition does not follow; only the text inside the
  message and the payload of the \<open>InvalidAmountError\<close> depends on it.
\<close>

definition Number_toString :: "int \<Rightarrow> string" where
  "Number_toString i = (if i < 0 then ''-'' @ toString (nat (- i)) else toString (nat i))"

definition new_PolygonLicenseManager :: "PolygonConfig \<Rightarrow> stub_manager" where
  "new_PolygonLicenseManager cfg = \<lparr> stub_config = cfg \<rparr>"

definition PolygonLicenseManager_updateConfig ::
  "stub_manager \<Rightarrow> PolygonConfig \<Rightarrow> stub_manager" where
  "PolygonLicenseManager_updateConfig this newConfig = this \<lparr> stub_config := newConfig \<rparr>"

definition createLicense :: "string \<Rightarrow> string \<Rightarrow> (string \<times> string) list \<Rightarrow> PolygonTransaction promise" where
  "createLicense productId licenseType metadata =
     try_catch (throw (Error ''Not implemented - requires Polygon-specific implementation''))
       (\<lambda>error. throw (PolygonError (''Failed to create license: '' @ message error) ''CREATE_LICENSE_ERROR'' Undefined))"

definition getLicense :: "string \<Rightarrow> PolygonLicense promise" where
  "getLicense licenseId =
     try_catch (throw (Error ''Not implemented - requires Polygon-specific implementation''))
       (\<lambda>error. throw (LicenseNotFoundError licenseId))"

definition updateLicense :: "string \<Rightarrow> (string \<times> string) list \<Rightarrow> PolygonTransaction promise" where
  "updateLicense licenseId updates =
     try_catch (throw (Error ''Not implemented - requires Polygon-specific implementation''))
       (\<lambda>error. throw (PolygonError (''Failed to update license: '' @ message error) ''UPDATE_LICENSE_ERROR'' Undefined))"

definition revokeLicense :: "string \<Rightarrow> PolygonTransaction promise" where
  "revokeLicense licenseId =
     try_catch (throw (Error ''Not implemented - requires Polygon-specific implementation''))
       (\<lambda>error. throw (PolygonError (''Failed to revoke license: '' @ message error) ''REVOKE_LICENSE_ERROR'' Undefined))"

definition getLicensesByOwner :: "string \<Rightarrow> PolygonLicense list promise" where
  "getLicensesByOwner ownerAddress =
     try_catch (throw (Error ''Not implemented - requires Polygon-specific implementation''))
       (\<lambda>error. throw (PolygonError (''Failed to get licenses by owner: '' @ message error) ''GET_LICENSES_ERROR'' Undefined))"

definition getLicenseCount :: "nat promise" where
  "getLicenseCount =
     try_catch (throw (Error ''Not implemented - requires Polygon-specific implementation''))
       (\<lambda>error. throw (PolygonError (''Failed to get license count: '' @ message error) ''LICENSE_COUNT_ERROR'' Undefined))"

definition isLicenseValid :: "string \<Rightarrow> bool promise" where
  "isLicenseValid licenseId =
     try_catch (throw (Error ''Not implemented - requires Polygon-specific implementation''))
       (\<lambda>error. throw (PolygonError (''Failed to check license validity: '' @ message error) ''LICENSE_VALIDITY_ERROR'' Undefined))"

definition extendLicense :: "string \<Rightarrow> int \<Rightarrow> PolygonTransaction promise" where
  "extendLicense licenseId additionalTime =
     try_catch
       (if additionalTime \<le> 0
        then throw (InvalidAmountError (Number_toString additionalTime))
        else throw (Error ''Not implemented - requires Polygon-specific implementation''))
       (\<lambda>error. if instanceof_InvalidAmountError error then throw error
                else throw (PolygonError (''Failed to extend license: '' @ message error)
                              ''EXTEND_LICENSE_ERROR'' Undefined))"

section \<open>The NFT manager (src/src/PolygonNFTManager.ts, lines 1-134)\<close>

text \<open>
  The same shape; \<open>getNFT\<close> answers every failure with \<open>NFTNotFoundError\<close>. The methods
  \<open>transfer\<close> and \<open>approve\<close> are named \<open>nft_transfer\<close> and \<open>nft_approve\<close> here.
\<close>

definition new_PolygonNFTManager :: "PolygonConfig \<Rightarrow> stub_manager" where
  "new_PolygonNFTManager cfg = \<lparr> stub_config = cfg \<rparr>"

definition PolygonNFTManager_updateConfig :: "stub_manager \<Rightarrow> PolygonConfig \<Rightarrow> stub_manager" where
  "PolygonNFTManager_updateConfig this newConfig = this \<lparr> stub_config := newConfig \<rparr>"

definition mint :: "string \<Rightarrow> string \<Rightarrow> (string \<times> string) list \<Rightarrow> PolygonTransaction promise" where
  "mint contractAddress to metadata =
     try_catch (throw (Error ''Not implemented - requires Polygon-specific implementation''))
       (\<lambda>error. throw (PolygonError (''Failed to mint NFT: '' @ message error) ''MINT_ERROR'' Undefined))"

definition getNFT :: "string \<Rightarrow> string \<Rightarrow> PolygonNFT promise" where
  "getNFT tokenId contractAddress =
     try_catch (throw (Error ''Not implemented - requires Polygon-specific implementation''))
       (\<lambda>error. throw (NFTNotFoundError tokenId))"

definition nft_transfer :: "string \<Rightarrow> string \<Rightarrow> string \<Rightarrow> string \<Rightarrow> PolygonTransaction promise" where
  "nft_transfer contractAddress tokenId from to =
     try_catch (throw (Error ''Not implemented - requires Polygon-specific implementation''))
       (\<lambda>error. throw (PolygonError (''Failed to transfer NFT: '' @ message error) ''TRANSFER_ERROR'' Undefined))"

definition getNFTsByOwner :: "string \<Rightarrow> string \<Rightarrow> PolygonNFT list promise" where
  "getNFTsByOwner contractAddress ownerAddress =
     try_catch (throw (Error ''Not implemented - requires Polygon-specific implementation''))
       (\<lambda>error. throw (PolygonError (''Failed to get NFTs by owner: '' @ message error) ''GET_NFTS_ERROR'' Undefined))"

definition getTotalSupply :: "string \<Rightarrow> nat promise" where
  "getTotalSupply contractAddress =
     try_catch (throw (Error ''Not implemented - requires Polygon-specific implementation''))
       (\<lambda>error. throw (PolygonError (''Failed to get total supply: '' @ message error) ''TOTAL_SUPPLY_ERROR'' Undefined))"

definition getOwner :: "string \<Rightarrow> string \<Rightarrow> string promise" where
  "getOwner contractAddress tokenId =
     try_catch (throw (Error ''Not implemented - requires Polygon-specific implementation''))
       (\<lambda>error. throw (PolygonError (''Failed to get owner: '' @ message error) ''OWNER_ERROR'' Undefined))"

definition nft_approve :: "string \<Rightarrow> string \<Rightarrow> string \<Rightarrow> PolygonTransaction promise" where
  "nft_approve contractAddress tokenId to =
     try_catch (throw (Error ''Not implemented - requires Polygon-specific implementation''))
       (\<lambda>error. throw (PolygonError (''Failed to approve NFT: '' @ message error) ''APPROVE_ERROR'' Undefined))"

definition getApproved :: "string \<Rightarrow> string \<Rightarrow> string promise" where
  "getApproved contractAddress tokenId =
     try_catch (throw (Error ''Not implemented - requires Polygon-specific implementation''))
       (\<lambda>error. throw (PolygonError (''Failed to get approved address: '' @ message error) ''GET_APPROVED_ERROR'' Undefined))"

definition setApprovalForAll :: "string \<Rightarrow> string \<Rightarrow> bool \<Rightarrow> PolygonTransaction promise" where
  "setApprovalForAll contractAddress operator approved =
     try_catch (throw (Error ''Not implemented - requires Polygon-specific implementation''))
       (\<lambda>error. throw (PolygonError (''Failed to set approval for all: '' @ message error) ''SET_APPROVAL_FOR_ALL_ERROR'' Undefined))"

definition isApprovedForAll :: "string \<Rightarrow> string \<Rightarrow> string \<Rightarrow> bool promise" where
  "isApprovedForAll contractAddress owner operator =
     try_catch (throw (Error ''Not implemented - requires Polygon-specific implementation''))
       (\<lambda>error. throw (PolygonError (''Failed to check approval for all: '' @ message error) ''IS_APPROVED_FOR_ALL_ERROR'' Undefined))"

definition getTokenURI :: "string \<Rightarrow> string \<Rightarrow> string promise" where
  "getTokenURI contractAddress tokenId =
     try_catch (throw (Error ''Not implemented - requires Polygon-specific implementation''))
       (\<lambda>error. throw (PolygonError (''Failed to get token URI: '' @ message error) ''TOKEN_URI_ERROR'' Undefined))"

definition setTokenURI :: "string \<Rightarrow> string \<Rightarrow> string \<Rightarrow> PolygonTransaction promise" where
  "setTokenURI contractAddress tokenId uri =
     try_catch (throw (Error ''Not implemented - requires Polygon-specific implementation''))
       (\<lambda>error. throw (PolygonError (''Failed to set token URI: '' @ message error) ''SET_TOKEN_URI_ERROR'' Undefined))"

section \<open>What the stub managers report\<close>

text \<open>An operation rejects with a typed error (a \<open>PolygonError\<close>) that carries the code \<open>c\<close>.\<close>

definition rejects_with_code :: "'a promise \<Rightarrow> string \<Rightarrow> bool" where
  "rejects_with_code p c =
     (case fst p of Inl e \<Rightarrow> instanceof_PolygonError e \<and> code e = Some c | Inr x \<Rightarrow> False)"

text \<open>The closed set of codes of section 7 of the specification.\<close>

definition spec_taxonomy :: "string list" where
  "spec_taxonomy =
     [''INVALID_ADDRESS'', ''INVALID_AMOUNT'', ''INSUFFICIENT_BALANCE'', ''SIGNER_REQUIRED'',
      ''TRANSACTION_FAILED'', ''NOT_FOUND'', ''NETWORK_ERROR'', ''CONTRACT_ERROR'',
      ''NOT_IMPLEMENTED'']"

text \<open>
  An amount as the specification defines it: a string of decimal digits; \<open>spec_valid_amount\<close>
  holds when it parses and is not zero.
\<close>

definition spec_valid_amount :: "string \<Rightarrow> bool" where
  "spec_valid_amount s = (s \<noteq> [] \<and> list_all is_digit s \<and> 0 < digits_val s)"

lemma rejects_with_code_throw:
  "rejects_with_code (throw e) c = (instanceof_PolygonError e \<and> code e = Some c)"
  by (simp add: rejects_with_code_def throw_def)

lemma PolygonError_typed [simp]:
  "instanceof_PolygonError (PolygonError msg c d)" "code (PolygonError msg c d) = Some c"
  by (simp_all add: PolygonError_def instanceof_PolygonError_def)

lemma InvalidAmountError_typed [simp]:
  "instanceof_PolygonError (InvalidAmountError a)"
  "instanceof_InvalidAmountError (InvalidAmountError a)"
  "code (InvalidAmountError a) = Some ''INVALID_AMOUNT''"
  by (simp_all add: InvalidAmountError_def instanceof_PolygonError_def
      instanceof_InvalidAmountError_def)

lemma NotFoundError_typed [simp]:
  "instanceof_PolygonError (LicenseNotFoundError licenseId)"
  "code (LicenseNotFoundError licenseId) = Some ''LICENSE_NOT_FOUND''"
  "instanceof_PolygonError (NFTNotFoundError tokenId)"
  "code (NFTNotFoundError tokenId) = Some ''NFT_NOT_FOUND''"
  by (simp_all add: LicenseNotFoundError_def NFTNotFoundError_def instanceof_PolygonError_def)

lemma Error_untyped [simp]:
  "\<not> instanceof_PolygonError (Error msg)" "\<not> instanceof_InvalidAmountError (Error msg)"
  "message (Error msg) = msg" "code (Error msg) = None"
  by (simp_all add: Error_def instanceof_PolygonError_def instanceof_InvalidAmountError_def)

lemma defi_codes:
  "rejects_with_code getPools ''GET_POOLS_ERROR''"
  "rejects_with_code (getPool tokenA tokenB) ''GET_POOL_ERROR''"
  "rejects_with_code (addLiquidity tokenA tokenB amountA amountB)
     (if amountA = [] \<or> amountA = ''0'' \<or> amountB = [] \<or> amountB = ''0''
      then ''INVALID_AMOUNT'' else ''ADD_LIQUIDITY_ERROR'')"
  "rejects_with_code (removeLiquidity tokenA tokenB lpTokenAmount)
     (if lpTokenAmount = [] \<or> lpTokenAmount = ''0''
      then ''INVALID_AMOUNT'' else ''REMOVE_LIQUIDITY_ERROR'')"
  "rejects_with_code (swap tokenIn tokenOut amountIn amountOutMin)
     (if amountIn = [] \<or> amountIn = ''0'' \<or> amountOutMin = [] \<or> amountOutMin = ''0''
      then ''INVALID_AMOUNT'' else ''SWAP_ERROR'')"
  "rejects_with_code (getQuote tokenIn tokenOut amountIn)
     (if amountIn = [] \<or> amountIn = ''0'' then ''INVALID_AMOUNT'' else ''QUOTE_ERROR'')"
  "rejects_with_code (getReserves tokenA tokenB) ''RESERVES_ERROR''"
  "rejects_with_code (getPrice tokenA tokenB) ''PRICE_ERROR''"
  "rejects_with_code (getLiquidity tokenA tokenB) ''LIQUIDITY_ERROR''"
  by (simp_all add: rejects_with_code_throw getPools_def getPool_def addLiquidity_def
      removeLiquidity_def swap_def getQuote_def getReserves_def getPrice_def getLiquidity_def)

lemma license_codes:
  "rejects_with_code (createLicense productId licenseType metadata) ''CREATE_LICENSE_ERROR''"
  "rejects_with_code (getLicense licenseId) ''LICENSE_NOT_FOUND''"
  "rejects_with_code (updateLicense licenseId updates) ''UPDATE_LICENSE_ERROR''"
  "rejects_with_code (revokeLicense licenseId) ''REVOKE_LICENSE_ERROR''"
  "rejects_with_code (getLicensesByOwner ownerAddress) ''GET_LICENSES_ERROR''"
  "rejects_with_code getLicenseCount ''LICENSE_COUNT_ERROR''"
  "rejects_with_code (isLicenseValid licenseId) ''LICENSE_VALIDITY_ERROR''"
  "rejects_with_code (extendLicense licenseId additionalTime)
     (if additionalTime \<le> 0 then ''INVALID_AMOUNT'' else ''EXTEND_LICENSE_ERROR'')"
  by (simp_all add: rejects_with_code_throw createLicense_def getLicense_def updateLicense_def
      revokeLicense_def getLicensesByOwner_def getLicenseCount_def isLicenseValid_def
      extendLicense_def)

lemma nft_codes:
  "rejects_with_code (mint contractAddress to metadata) ''MINT_ERROR''"
  "rejects_with_code (getNFT tokenId contractAddress) ''NFT_NOT_FOUND''"
  "rejects_with_code (nft_transfer contractAddress tokenId from to) ''TRANSFER_ERROR''"
  "rejects_with_code (getNFTsByOwner contractAddress ownerAddress) ''GET_NFTS_ERROR''"
  "rejects_with_code (getTotalSupply contractAddress) ''TOTAL_SUPPLY_ERROR''"
  "rejects_with_code (getOwner contractAddress tokenId) ''OWNER_ERROR''"
  "rejects_with_code (nft_approve contractAddress tokenId to) ''APPROVE_ERROR''"
  "rejects_with_code (getApproved contractAddress tokenId) ''GET_APPROVED_ERROR''"
  "rejects_with_code (setApprovalForAll contractAddress operator approved)
     ''SET_APPROVAL_FOR_ALL_ERROR''"
  "rejects_with_code (isApprovedForAll contractAddress owner operator)
     ''IS_APPROVED_FOR_ALL_ERROR''"
  "rejects_with_code (getTokenURI contractAddress tokenId) ''TOKEN_URI_ERROR''"
  "rejects_with_code (setTokenURI contractAddress tokenId uri) ''SET_TOKEN_URI_ERROR''"
  by (simp_all add: rejects_with_code_throw mint_def getNFT_def nft_transfer_def
      getNFTsByOwner_def getTotalSupply_def getOwner_def nft_approve_def getApproved_def
      setApprovalForAll_def isApprovedForAll_def getTokenURI_def setTokenURI_def)

subsection \<open>Failing fast on an invalid amount\<close>

text \<open>
  Claim C8 says that a zero, empty or unparsable amount is answered with \<open>INVALID_AMOUNT\<close>.
  The guard of the code is \<^verbatim>\<open>!amount || amount === '0'\<close>: it knows the empty string and
  the one-character string \<open>0\<close> and parses nothing. An amount that is not a number, here
  \<open>abc\<close>, passes the guard, and \<open>swap\<close> rejects with \<open>SWAP_ERROR\<close>.
\<close>

theorem swap_unparsable_amount_not_rejected:
  "\<not> spec_valid_amount ''abc''
   \<and> swap ''0xA'' ''0xB'' ''abc'' ''1'' =
       (Inl (PolygonError
          ''Failed to swap: Not implemented - requires Polygon-specific implementation''
          ''SWAP_ERROR'' Undefined), [])
   \<and> \<not> rejects_with_code (swap ''0xA'' ''0xB'' ''abc'' ''1'') ''INVALID_AMOUNT''"
  by (simp add: spec_valid_amount_def is_digit_def swap_def rejects_with_code_throw)
     (simp add: throw_def)

text \<open>
  Claim C8, amended. Each of \<open>addLiquidity\<close>, \<open>removeLiquidity\<close>, \<open>swap\<close> and \<open>getQuote\<close>,
  given an amount that is the empty string or the string \<open>0\<close>, and \<open>extendLicense\<close>, given
  an additional time that is zero or negative, rejects with the \<open>InvalidAmountError\<close> built
  from that amount, whose code is \<open>INVALID_AMOUNT\<close>; the error is the one thrown by the
  guard, not a wrapper around it, and the trace is empty: nothing else was done. (\<open>swap\<close>
  looks at \<open>amountIn\<close> first and at \<open>amountOutMin\<close> only if \<open>amountIn\<close> passed.)
\<close>

theorem invalid_amount_fails_fast:
  "(amountA = [] \<or> amountA = ''0'' \<or> amountB = [] \<or> amountB = ''0'' \<longrightarrow>
      addLiquidity tokenA tokenB amountA amountB
        = (Inl (InvalidAmountError (amountA @ ''-'' @ amountB)), []))
   \<and> (lpTokenAmount = [] \<or> lpTokenAmount = ''0'' \<longrightarrow>
      removeLiquidity tokenA tokenB lpTokenAmount = (Inl (InvalidAmountError lpTokenAmount), []))
   \<and> (amountIn = [] \<or> amountIn = ''0'' \<longrightarrow>
      swap tokenIn tokenOut amountIn amountOutMin = (Inl (InvalidAmountError amountIn), []))
   \<and> (amountIn \<noteq> [] \<and> amountIn \<noteq> ''0'' \<and> (amountOutMin = [] \<or> amountOutMin = ''0'') \<longrightarrow>
      swap tokenIn tokenOut amountIn amountOutMin = (Inl (InvalidAmountError amountOutMin), []))
   \<and> (amountIn = [] \<or> amountIn = ''0'' \<longrightarrow>
      getQuote tokenIn tokenOut amountIn = (Inl (InvalidAmountError amountIn), []))
   \<and> (additionalTime \<le> 0 \<longrightarrow>
      extendLicense licenseId additionalTime
        = (Inl (InvalidAmountError (Number_toString additionalTime)), []))
   \<and> code (InvalidAmountError amount) = Some ''INVALID_AMOUNT''
   \<and> cls (InvalidAmountError amount) = InvalidAmountError_class"
proof -
  have "amountA = [] \<or> amountA = ''0'' \<or> amountB = [] \<or> amountB = ''0'' \<longrightarrow>
      addLiquidity tokenA tokenB amountA amountB
        = (Inl (InvalidAmountError (amountA @ ''-'' @ amountB)), [])"
    by (simp add: addLiquidity_def) (simp add: throw_def)
  moreover have "lpTokenAmount = [] \<or> lpTokenAmount = ''0'' \<longrightarrow>
      removeLiquidity tokenA tokenB lpTokenAmount = (Inl (InvalidAmountError lpTokenAmount), [])"
    by (simp add: removeLiquidity_def) (simp add: throw_def)
  moreover have "amountIn = [] \<or> amountIn = ''0'' \<longrightarrow>
      swap tokenIn tokenOut amountIn amountOutMin = (Inl (InvalidAmountError amountIn), [])"
    by (simp add: swap_def) (simp add: throw_def)
  moreover have "amountIn \<noteq> [] \<and> amountIn \<noteq> ''0'' \<and> (amountOutMin = [] \<or> amountOutMin = ''0'') \<longrightarrow>
      swap tokenIn tokenOut amountIn amountOutMin = (Inl (InvalidAmountError amountOutMin), [])"
    by (simp add: swap_def) (simp add: throw_def)
  moreover have "amountIn = [] \<or> amountIn = ''0'' \<longrightarrow>
      getQuote tokenIn tokenOut amountIn = (Inl (InvalidAmountError amountIn), [])"
    by (simp add: getQuote_def) (simp add: throw_def)
  moreover have "additionalTime \<le> 0 \<longrightarrow>
      extendLicense licenseId additionalTime
        = (Inl (InvalidAmountError (Number_toString additionalTime)), [])"
    by (simp add: extendLicense_def) (simp add: throw_def)
  moreover have "code (InvalidAmountError amount) = Some ''INVALID_AMOUNT''"
    by simp
  moreover have "cls (InvalidAmountError amount) = InvalidAmountError_class"
    by (simp add: InvalidAmountError_def)
  ultimately show ?thesis by blast
qed

theorem invalid_amount_fails_fast_witness:
  "addLiquidity ''0xA'' ''0xB'' [] ''5'' = (Inl (InvalidAmountError ''-5''), [])
   \<and> removeLiquidity ''0xA'' ''0xB'' ''0'' = (Inl (InvalidAmountError ''0''), [])
   \<and> swap ''0xA'' ''0xB'' ''0'' ''7'' = (Inl (InvalidAmountError ''0''), [])
   \<and> getQuote ''0xA'' ''0xB'' ''0'' = (Inl (InvalidAmountError ''0''), [])
   \<and> extendLicense ''L1'' 0 = (Inl (InvalidAmountError ''0''), [])"
  using invalid_amount_fails_fast
    [where amountA = "[]" and amountB = "''5''" and tokenA = "''0xA''" and tokenB = "''0xB''"
       and lpTokenAmount = "''0''" and amountIn = "''0''" and amountOutMin = "''7''"
       and tokenIn = "''0xA''" and tokenOut = "''0xB''" and additionalTime = 0
       and licenseId = "''L1''"]
  by (simp add: Number_toString_def toString_0)

section \<open>The chain client\<close>

text \<open>
  The contract, token and wallet managers forward their work to the \<^verbatim>\<open>ethers\<close> library
  and, through it, to the chain. Neither is part of the sources: what a call answers is
  a parameter of the model, a record with one field for each call the managers make. A
  call that \<open>retry\<close> may repeat takes the number of earlier invocations first, since its
  answer may change from one invocation to the next. A value that the managers only pass
  on (a block, a network, the result of a contract call, a filter) is stood for by a
  string.
\<close>

record TransactionReceipt =
  rc_transactionHash :: string
  rc_from :: string
  rc_to :: "string option"
  rc_gasUsed :: nat
  rc_blockNumber :: nat
  rc_blockHash :: string
  rc_transactionIndex :: nat
  rc_status :: "int option"
  rc_logs :: "string list"
  rc_effectiveGasPrice :: "nat option"

record TransactionResponse =
  tx_hash :: string
  tx_from :: string
  tx_to :: "string option"
  tx_value :: nat
  tx_gasLimit :: nat
  tx_gasPrice :: "nat option"
  tx_wait :: "library_error + TransactionReceipt"

record DeployedContract =
  dc_address :: string
  dc_deployTransaction_hash :: string
  dc_deployTransaction_gasLimit :: "nat option"
  dc_deployTransaction_gasPrice :: "nat option"
  dc_deployed :: "library_error + unit"

text \<open>An \<^verbatim>\<open>ethers.Wallet\<close>; \<^verbatim>\<open>wallet.mnemonic\<close> is null unless the wallet was made from one.\<close>

record Wallet =
  w_address :: string
  w_privateKey :: string
  w_publicKey :: string
  w_mnemonic_phrase :: "string option"

record tx_options =
  opt_value :: "string option"
  opt_gasLimit :: "nat option"
  opt_gasPrice :: "string option"

text \<open>
  An event as \<^verbatim>\<open>queryFilter\<close> returns it. \<^verbatim>\<open>event.args\<close> holds the decoded arguments
  and is missing when the log could not be decoded against the interface of the contract.
  For the \<^verbatim>\<open>Transfer\<close> event of a token the arguments are \<open>from\<close>, \<open>to\<close> and \<open>value\<close>.
\<close>

record LogEvent =
  ev_address :: string
  ev_blockNumber :: nat
  ev_blockHash :: string
  ev_transactionHash :: string
  ev_transactionIndex :: nat
  ev_logIndex :: nat
  ev_removed :: bool
  ev_args :: "string list option"
  ev_topics :: "string list"
  ev_data :: string

record TransferEvent =
  te_args :: "(string \<times> string \<times> nat) option"
  te_transactionHash :: string
  te_blockNumber :: nat
  te_logIndex :: nat

record FeeData =
  fd_gasPrice :: "nat option"
  fd_maxFeePerGas :: "nat option"
  fd_maxPriorityFeePerGas :: "nat option"

record chain =
  Wallet_new :: "string \<Rightarrow> library_error + Wallet"
  Wallet_createRandom :: "library_error + Wallet"
  Wallet_fromMnemonic :: "string \<Rightarrow> string \<Rightarrow> library_error + Wallet"
  ethers_isAddress :: "string \<Rightarrow> library_error + bool"
  ethers_verifyMessage :: "string \<Rightarrow> string \<Rightarrow> library_error + string"
  Contract_new :: "string \<Rightarrow> library_error + unit"
  ContractFactory_new :: "string list \<Rightarrow> string \<Rightarrow> library_error + unit"
  contract_info :: "string \<Rightarrow> library_error + (string \<times> string \<times> nat \<times> nat)"
  contract_name :: "string \<Rightarrow> library_error + string"
  contract_symbol :: "string \<Rightarrow> library_error + string"
  contract_decimals :: "string \<Rightarrow> library_error + nat"
  contract_totalSupply :: "string \<Rightarrow> library_error + nat"
  contract_balanceOf :: "string \<Rightarrow> string \<Rightarrow> library_error + nat"
  contract_allowance :: "string \<Rightarrow> string \<Rightarrow> string \<Rightarrow> library_error + nat"
  contract_transfer ::
    "nat \<Rightarrow> string \<Rightarrow> string \<Rightarrow> string \<Rightarrow> nat option \<Rightarrow> library_error + TransactionResponse"
  contract_approve ::
    "nat \<Rightarrow> string \<Rightarrow> string \<Rightarrow> string \<Rightarrow> nat option \<Rightarrow> library_error + TransactionResponse"
  contract_transferFrom ::
    "nat \<Rightarrow> string \<Rightarrow> string \<Rightarrow> string \<Rightarrow> string \<Rightarrow> nat option
       \<Rightarrow> library_error + TransactionResponse"
  contract_filters :: "string \<Rightarrow> string \<Rightarrow> string list \<Rightarrow> library_error + string"
  contract_queryFilter ::
    "string \<Rightarrow> string \<Rightarrow> nat option \<Rightarrow> nat option \<Rightarrow> library_error + LogEvent list"
  contract_queryFilter_Transfer ::
    "string \<Rightarrow> string \<Rightarrow> nat option \<Rightarrow> nat option \<Rightarrow> library_error + TransferEvent list"
  contract_call :: "string \<Rightarrow> string \<Rightarrow> string list \<Rightarrow> library_error + string"
  provider_estimateGas :: "nat \<Rightarrow> string list \<Rightarrow> library_error + nat"
  provider_estimateGas_request ::
    "string \<Rightarrow> string option \<Rightarrow> int option \<Rightarrow> library_error + nat"
  factory_deploy :: "nat \<Rightarrow> string list \<Rightarrow> nat \<Rightarrow> library_error + DeployedContract"
  contract_estimateGas ::
    "nat \<Rightarrow> string \<Rightarrow> string \<Rightarrow> string list \<Rightarrow> tx_options \<Rightarrow> library_error + nat"
  contract_send ::
    "nat \<Rightarrow> string \<Rightarrow> string \<Rightarrow> string list \<Rightarrow> tx_options \<Rightarrow> nat
       \<Rightarrow> library_error + TransactionResponse"
  provider_getBalance :: "string \<Rightarrow> library_error + nat"
  provider_getCode :: "string \<Rightarrow> library_error + string"
  provider_getStorageAt :: "string \<Rightarrow> string \<Rightarrow> library_error + string"
  provider_getTransactionCount :: "string \<Rightarrow> library_error + nat"
  provider_getTransaction :: "string \<Rightarrow> library_error + TransactionResponse option"
  provider_getTransactionReceipt :: "string \<Rightarrow> library_error + TransactionReceipt option"
  provider_waitForTransaction :: "string \<Rightarrow> nat \<Rightarrow> library_error + TransactionReceipt"
  provider_getBlockNumber :: "library_error + nat"
  provider_getBlock :: "nat \<Rightarrow> library_error + string"
  provider_getNetwork :: "library_error + string"
  provider_getGasPrice :: "library_error + nat"
  provider_getFeeData :: "library_error + FeeData"
  wallet_sendTransaction ::
    "nat \<Rightarrow> string \<Rightarrow> int \<Rightarrow> nat option \<Rightarrow> int option \<Rightarrow> library_error + TransactionResponse"
  wallet_signMessage :: "string \<Rightarrow> library_error + string"
  wallet_signTransaction :: "string \<Rightarrow> library_error + string"
  settling_order :: "nat list"

text \<open>
  Several calls of one contract issued together and joined with \<^verbatim>\<open>Promise.all\<close>; what
  they answer together is one parameter.
\<close>

definition rpc_all :: "string list \<Rightarrow> library_error + 'a \<Rightarrow> 'a promise" where
  "rpc_all names outcome = (from_library outcome, map Rpc names)"

text \<open>
  \<^verbatim>\<open>Promise.all\<close> of three operations of a manager. The three are started one after the
  other, so their calls of the chain client are made in that order. The joined promise
  rejects as soon as one of the three does, with that error, and which one is first is
  decided by the chain: \<open>order\<close> lists the positions (0, 1, 2) in the order in which the
  promises settle, and positions that it leaves out settle afterwards, in the order of the
  arguments.
\<close>

definition rejection :: "'a promise \<Rightarrow> exn option" where
  "rejection p = (case fst p of Inl e \<Rightarrow> Some e | Inr x \<Rightarrow> None)"

fun first_rejection :: "nat list \<Rightarrow> exn option list \<Rightarrow> exn option" where
  "first_rejection [] outcomes =
     (case filter (\<lambda>outcome. outcome \<noteq> None) outcomes of [] \<Rightarrow> None | outcome # rest \<Rightarrow> outcome)"
| "first_rejection (i # order) outcomes =
     (if i < length outcomes \<and> outcomes ! i \<noteq> None then outcomes ! i
      else first_rejection order outcomes)"

definition Promise_all3 ::
  "nat list \<Rightarrow> 'a promise \<Rightarrow> 'b promise \<Rightarrow> 'c promise \<Rightarrow> ('a \<times> 'b \<times> 'c) promise" where
  "Promise_all3 order p1 p2 p3 =
     (let calls = snd p1 @ snd p2 @ snd p3 in
      case first_rejection order [rejection p1, rejection p2, rejection p3] of
        Some e \<Rightarrow> (Inl e, calls)
      | None \<Rightarrow>
          (case fst p1 of
             Inl e \<Rightarrow> (Inl e, calls)
           | Inr x1 \<Rightarrow>
               (case fst p2 of
                  Inl e \<Rightarrow> (Inl e, calls)
                | Inr x2 \<Rightarrow>
                    (case fst p3 of
                       Inl e \<Rightarrow> (Inl e, calls)
                     | Inr x3 \<Rightarrow> (Inr (x1, x2, x3), calls)))))"

text \<open>
  \<^verbatim>\<open>validateAddress\<close> and \<^verbatim>\<open>validatePrivateKey\<close> of \<^verbatim>\<open>utils.ts\<close> (lines 3-18):
  \<^verbatim>\<open>
  try { return ethers.utils.isAddress(address); } catch { return false; }
  try { new ethers.Wallet(privateKey); return true; } catch { return false; }
  \<close>
\<close>

definition validateAddress :: "chain \<Rightarrow> string \<Rightarrow> bool" where
  "validateAddress c address = (case ethers_isAddress c address of Inl e \<Rightarrow> False | Inr b \<Rightarrow> b)"

definition validatePrivateKey :: "chain \<Rightarrow> string \<Rightarrow> bool" where
  "validatePrivateKey c privateKey =
     (case Wallet_new c privateKey of Inl e \<Rightarrow> False | Inr w \<Rightarrow> True)"

text \<open>
  The three managers import a class \<^verbatim>\<open>PolygonNetworkError\<close> from \<^verbatim>\<open>./errors\<close>,
  \<^verbatim>\<open>
  import { PolygonError, PolygonNetworkError, PolygonRPCError } from './errors';
  \<close>
  and \<^verbatim>\<open>errors.ts\<close> exports no such class (nor a \<^verbatim>\<open>PolygonRPCError\<close>, which no method
  uses): in the module as it is compiled and loaded the name reads a property that the
  module object does not have, which is \<^verbatim>\<open>undefined\<close>. Evaluating
  \<^verbatim>\<open>new PolygonNetworkError(message, error)\<close> therefore constructs nothing; the runtime
  raises a \<^verbatim>\<open>TypeError\<close> at that place, and this is what the statement
  \<^verbatim>\<open>throw new PolygonNetworkError(message, error)\<close> ends with, whatever its arguments.
\<close>

definition throw_new_PolygonNetworkError :: "string \<Rightarrow> exn \<Rightarrow> 'a promise" where
  "throw_new_PolygonNetworkError msg originalError =
     throw (TypeError ''PolygonNetworkError is not a constructor'')"

text \<open>
  The catch block that most methods of the three managers end with:
  \<^verbatim>\<open>
  if (error instanceof PolygonError) { throw error; }
  throw new PolygonNetworkError(message, error);
  \<close>
\<close>

definition rethrow_or_wrap :: "string \<Rightarrow> exn \<Rightarrow> 'a promise" where
  "rethrow_or_wrap msg error =
     (if instanceof_PolygonError error then throw error
      else throw_new_PolygonNetworkError msg error)"

text \<open>\<^verbatim>\<open>a || b\<close> on an optional string: \<open>b\<close> when \<open>a\<close> is missing or empty.\<close>

definition or_else :: "string option \<Rightarrow> string \<Rightarrow> string" where
  "or_else a b = (case a of None \<Rightarrow> b | Some s \<Rightarrow> if s = [] then b else s)"

text \<open>
  \<^verbatim>\<open>gasLimit || gasEstimate.mul(120).div(100)\<close>: the caller's limit unless it is missing or
  zero, else the estimate with a buffer of 20 percent.
\<close>

definition gas_or_buffered :: "nat option \<Rightarrow> nat \<Rightarrow> nat" where
  "gas_or_buffered gasLimit gasEstimate =
     (case gasLimit of None \<Rightarrow> gasEstimate * 120 div 100
      | Some g \<Rightarrow> if g = 0 then gasEstimate * 120 div 100 else g)"

text \<open>
  \<^verbatim>\<open>value ? ethers.utils.parseEther(value) : undefined\<close>: nothing for a missing or empty
  text, else the amount parsed at the given scale, which may throw. \<^verbatim>\<open>parseEther\<close> is
  \<^verbatim>\<open>parseUnits\<close> at scale 18, and the unit \<^verbatim>\<open>gwei\<close> is scale 9.
\<close>

definition parsed_if_given :: "string option \<Rightarrow> nat \<Rightarrow> exn + int option" where
  "parsed_if_given v scale =
     (case v of
        None \<Rightarrow> Inr None
      | Some s \<Rightarrow>
          if s = [] then Inr None
          else (case ethers_parseUnits s scale of Inl e \<Rightarrow> Inl e | Inr n \<Rightarrow> Inr (Some n)))"

text \<open>
  The object that the managers return for a transaction. Its fields are those of the
  object literal in the code (which are not those of \<open>PolygonTransaction\<close> in \<^verbatim>\<open>types.ts\<close>).
\<close>

record transaction_object =
  t_hash :: string
  t_from :: string
  t_to :: string
  t_value :: string
  t_gasLimit :: string
  t_gasPrice :: string
  t_gasUsed :: string
  t_blockNumber :: nat
  t_blockHash :: string
  t_transactionIndex :: nat
  t_status :: tx_status
  t_logs :: "string list"
  t_effectiveGasPrice :: string

text \<open>\<^verbatim>\<open>receipt.status === 1 ? 'success' : 'failed'\<close>\<close>

definition status_of :: "int option \<Rightarrow> tx_status" where
  "status_of st = (if st = Some 1 then success else failed)"

text \<open>The object built from a transaction and the receipt that \<^verbatim>\<open>tx.wait()\<close> returned.\<close>

definition confirmed_transaction ::
  "TransactionResponse \<Rightarrow> TransactionReceipt \<Rightarrow> string \<Rightarrow> transaction_object" where
  "confirmed_transaction tx receipt to_default =
     \<lparr> t_hash = tx_hash tx,
       t_from = tx_from tx,
       t_to = or_else (tx_to tx) to_default,
       t_value = toString (tx_value tx),
       t_gasLimit = toString (tx_gasLimit tx),
       t_gasPrice = or_else (map_option toString (tx_gasPrice tx)) ''0'',
       t_gasUsed = toString (rc_gasUsed receipt),
       t_blockNumber = rc_blockNumber receipt,
       t_blockHash = rc_blockHash receipt,
       t_transactionIndex = rc_transactionIndex receipt,
       t_status = status_of (rc_status receipt),
       t_logs = rc_logs receipt,
       t_effectiveGasPrice = or_else (map_option toString (rc_effectiveGasPrice receipt)) ''0'' \<rparr>"

section \<open>The token manager (src/src/PolygonNFTManager.ts, lines 135-516)\<close>

text \<open>
  \<^verbatim>\<open>
  constructor(config: PolygonConfig) {
    this.config = config;
    this.provider = new ethers.providers.JsonRpcProvider(config.rpcUrl);
    if (config.privateKey) {
      this.signer = new ethers.Wallet(config.privateKey, this.provider);
    }
  }
  \<close>
  The contract manager has the same fields and the same constructor, so one record serves
  both. \<^verbatim>\<open>config.privateKey\<close> is falsy when it is missing or empty. The provider is the
  chain client above.
\<close>

record manager =
  config :: PolygonConfig
  signer :: "Wallet option"

definition new_manager :: "chain \<Rightarrow> PolygonConfig \<Rightarrow> exn + manager" where
  "new_manager c cfg =
     (case cfg_privateKey cfg of
        None \<Rightarrow> Inr \<lparr> config = cfg, signer = None \<rparr>
      | Some key \<Rightarrow>
          if key = [] then Inr \<lparr> config = cfg, signer = None \<rparr>
          else (case Wallet_new c key of
                  Inl e \<Rightarrow> Inl (raised e)
                | Inr w \<Rightarrow> Inr \<lparr> config = cfg, signer = Some w \<rparr>))"

definition new_PolygonTokenManager :: "chain \<Rightarrow> PolygonConfig \<Rightarrow> exn + manager" where
  "new_PolygonTokenManager = new_manager"

record PolygonToken =
  tk_address :: string
  tk_name :: string
  tk_symbol :: string
  tk_decimals :: nat
  tk_totalSupply :: string
  tk_type :: string

text \<open>
  \<^verbatim>\<open>
  async getTokenInfo(tokenAddress: string): Promise<PolygonToken> {
    try {
      const validatedAddress = validateAddress(tokenAddress);
      if (!validatedAddress) {
        throw new PolygonError('Invalid token address', 'INVALID_ADDRESS');
      }
      const contract = new ethers.Contract(tokenAddress, [...], this.provider);
      const [name, symbol, decimals, totalSupply] = await Promise.all([
        contract.name(), contract.symbol(), contract.decimals(), contract.totalSupply()]);
      return { address: tokenAddress, name, symbol, decimals: Number(decimals),
               totalSupply: totalSupply.toString(), type: 'ERC20' };
    } catch (error) {
      if (error instanceof PolygonError) { throw error; }
      throw new PolygonNetworkError('Failed to get token info', error);
    }
  }
  \<close>
\<close>

definition getTokenInfo :: "manager \<Rightarrow> chain \<Rightarrow> string \<Rightarrow> PolygonToken promise" where
  "getTokenInfo this c tokenAddress =
     try_catch
       (if \<not> validateAddress c tokenAddress
        then throw (PolygonError ''Invalid token address'' ''INVALID_ADDRESS'' Undefined)
        else
          await (library (Contract_new c tokenAddress)) (\<lambda>contract.
          await (rpc_all [''name'', ''symbol'', ''decimals'', ''totalSupply'']
                   (contract_info c tokenAddress)) (\<lambda>(name, symbol, decimals, totalSupply).
          resolve \<lparr> tk_address = tokenAddress, tk_name = name, tk_symbol = symbol,
                    tk_decimals = decimals, tk_totalSupply = toString totalSupply,
                    tk_type = ''ERC20'' \<rparr>)))
       (rethrow_or_wrap ''Failed to get token info'')"

text \<open>
  \<^verbatim>\<open>
  async getTokenBalance(tokenAddress: string, ownerAddress: string): Promise<string> {
    try {
      const contract = new ethers.Contract(tokenAddress, [...], this.provider);
      const balance = await contract.balanceOf(ownerAddress);
      return balance.toString();
    } catch (error) {
      throw new PolygonNetworkError('Failed to get token balance', error);
    }
  }
  \<close>
  \<open>getTokenAllowance\<close>, \<open>getTokenSupply\<close>, \<open>getTokenDecimals\<close> (which returns
  \<^verbatim>\<open>Number(decimals)\<close>), \<open>getTokenSymbol\<close> and \<open>getTokenName\<close> have this shape, each with its
  contract method and its text.
\<close>

definition getTokenBalance :: "manager \<Rightarrow> chain \<Rightarrow> string \<Rightarrow> string \<Rightarrow> string promise" where
  "getTokenBalance this c tokenAddress ownerAddress =
     try_catch
       (await (library (Contract_new c tokenAddress)) (\<lambda>contract.
        await (rpc ''balanceOf'' (contract_balanceOf c tokenAddress ownerAddress)) (\<lambda>balance.
        resolve (toString balance))))
       (throw_new_PolygonNetworkError ''Failed to get token balance'')"

definition getTokenAllowance ::
  "manager \<Rightarrow> chain \<Rightarrow> string \<Rightarrow> string \<Rightarrow> string \<Rightarrow> string promise" where
  "getTokenAllowance this c tokenAddress ownerAddress spenderAddress =
     try_catch
       (await (library (Contract_new c tokenAddress)) (\<lambda>contract.
        await (rpc ''allowance'' (contract_allowance c tokenAddress ownerAddress spenderAddress))
          (\<lambda>allowance.
        resolve (toString allowance))))
       (throw_new_PolygonNetworkError ''Failed to get token allowance'')"

text \<open>
  \<^verbatim>\<open>
  async transferToken(tokenAddress, toAddress, amount, gasLimit?): Promise<string> {
    try {
      if (!this.signer) {
        throw new PolygonError('Signer required for token transfer', 'SIGNER_REQUIRED');
      }
      const contract = new ethers.Contract(tokenAddress, [...], this.signer);
      const decimals = await contract.decimals();
      const transferAmount = parseUnits(amount, decimals);
      const tx = await retry(async () => {
        return await contract.transfer(toAddress, transferAmount, { gasLimit: gasLimit });
      });
      return tx.hash;
    } catch (error) {
      if (error instanceof PolygonError) { throw error; }
      throw new PolygonNetworkError('Failed to transfer token', error);
    }
  }
  \<close>
  \<open>approveToken\<close> and \<open>transferFromToken\<close> differ in the contract method and the texts.
  \<open>retry\<close> is called with its defaults, three attempts and a base delay of 1000.
\<close>

definition transferToken ::
  "manager \<Rightarrow> chain \<Rightarrow> string \<Rightarrow> string \<Rightarrow> string \<Rightarrow> nat option \<Rightarrow> string promise" where
  "transferToken this c tokenAddress toAddress amount gasLimit =
     try_catch
       (case signer this of
          None \<Rightarrow> throw (PolygonError ''Signer required for token transfer'' ''SIGNER_REQUIRED''
                           Undefined)
        | Some s \<Rightarrow>
            await (library (Contract_new c tokenAddress)) (\<lambda>contract.
            await (rpc ''decimals'' (contract_decimals c tokenAddress)) (\<lambda>decimals.
            await (sync (parseUnits amount decimals)) (\<lambda>transferAmount.
            await (retry (\<lambda>k. from_library
                                 (contract_transfer c k tokenAddress toAddress transferAmount
                                    gasLimit))
                     3 1000) (\<lambda>tx.
            resolve (tx_hash tx))))))
       (rethrow_or_wrap ''Failed to transfer token'')"

definition approveToken ::
  "manager \<Rightarrow> chain \<Rightarrow> string \<Rightarrow> string \<Rightarrow> string \<Rightarrow> nat option \<Rightarrow> string promise" where
  "approveToken this c tokenAddress spenderAddress amount gasLimit =
     try_catch
       (case signer this of
          None \<Rightarrow> throw (PolygonError ''Signer required for token approval'' ''SIGNER_REQUIRED''
                           Undefined)
        | Some s \<Rightarrow>
            await (library (Contract_new c tokenAddress)) (\<lambda>contract.
            await (rpc ''decimals'' (contract_decimals c tokenAddress)) (\<lambda>decimals.
            await (sync (parseUnits amount decimals)) (\<lambda>approveAmount.
            await (retry (\<lambda>k. from_library
                                 (contract_approve c k tokenAddress spenderAddress approveAmount
                                    gasLimit))
                     3 1000) (\<lambda>tx.
            resolve (tx_hash tx))))))
       (rethrow_or_wrap ''Failed to approve token'')"

definition transferFromToken ::
  "manager \<Rightarrow> chain \<Rightarrow> string \<Rightarrow> string \<Rightarrow> string \<Rightarrow> string \<Rightarrow> nat option \<Rightarrow> string promise"
where
  "transferFromToken this c tokenAddress fromAddress toAddress amount gasLimit =
     try_catch
       (case signer this of
          None \<Rightarrow> throw (PolygonError ''Signer required for transferFrom'' ''SIGNER_REQUIRED''
                           Undefined)
        | Some s \<Rightarrow>
            await (library (Contract_new c tokenAddress)) (\<lambda>contract.
            await (rpc ''decimals'' (contract_decimals c tokenAddress)) (\<lambda>decimals.
            await (sync (parseUnits amount decimals)) (\<lambda>transferAmount.
            await (retry (\<lambda>k. from_library
                                 (contract_transferFrom c k tokenAddress fromAddress toAddress
                                    transferAmount gasLimit))
                     3 1000) (\<lambda>tx.
            resolve (tx_hash tx))))))
       (rethrow_or_wrap ''Failed to transferFrom token'')"

text \<open>
  \<^verbatim>\<open>
  async getTokenTransfers(tokenAddress, fromBlock?, toBlock?): Promise<PolygonTokenTransfer[]> {
    try {
      const contract = new ethers.Contract(tokenAddress,
        ['event Transfer(address indexed from, address indexed to, uint256 value)'],
        this.provider);
      const filter = contract.filters.Transfer();
      const events = await contract.queryFilter(filter, fromBlock, toBlock);
      return events.map(event => ({
        from: event.args.from, to: event.args.to, value: event.args.value.toString(),
        transactionHash: event.transactionHash, blockNumber: event.blockNumber,
        logIndex: event.logIndex }));
    } catch (error) {
      throw new PolygonNetworkError('Failed to get token transfers', error);
    }
  }
  \<close>
  \<open>getTokenTransfersByAddress\<close> asks for the filter \<^verbatim>\<open>contract.filters.Transfer(address, address)\<close>
  instead. Reading \<^verbatim>\<open>event.args.from\<close> of an event without arguments is a \<^verbatim>\<open>TypeError\<close>
  of the runtime, raised inside the \<^verbatim>\<open>try\<close>.
\<close>

record PolygonTokenTransfer =
  tt_from :: string
  tt_to :: string
  tt_value :: string
  tt_transactionHash :: string
  tt_blockNumber :: nat
  tt_logIndex :: nat

definition transfer_of :: "TransferEvent \<Rightarrow> exn + PolygonTokenTransfer" where
  "transfer_of event =
     (case te_args event of
        None \<Rightarrow> Inl (TypeError ''Cannot read properties of undefined'')
      | Some (from, to, value) \<Rightarrow>
          Inr \<lparr> tt_from = from, tt_to = to, tt_value = toString value,
                tt_transactionHash = te_transactionHash event,
                tt_blockNumber = te_blockNumber event,
                tt_logIndex = te_logIndex event \<rparr>)"

text \<open>\<^verbatim>\<open>xs.map(f)\<close> for an \<open>f\<close> that may throw: the first throw ends the whole.\<close>

fun map_or_throw :: "('a \<Rightarrow> exn + 'b) \<Rightarrow> 'a list \<Rightarrow> exn + 'b list" where
  "map_or_throw f [] = Inr []"
| "map_or_throw f (x # xs) =
     (case f x of
        Inl e \<Rightarrow> Inl e
      | Inr y \<Rightarrow> (case map_or_throw f xs of Inl e \<Rightarrow> Inl e | Inr ys \<Rightarrow> Inr (y # ys)))"

definition getTokenTransfers ::
  "manager \<Rightarrow> chain \<Rightarrow> string \<Rightarrow> nat option \<Rightarrow> nat option \<Rightarrow> PolygonTokenTransfer list promise"
where
  "getTokenTransfers this c tokenAddress fromBlock toBlock =
     try_catch
       (await (library (Contract_new c tokenAddress)) (\<lambda>contract.
        await (library (contract_filters c tokenAddress ''Transfer'' [])) (\<lambda>event_filter.
        await (rpc ''queryFilter''
                 (contract_queryFilter_Transfer c tokenAddress event_filter fromBlock toBlock))
          (\<lambda>events.
        sync (map_or_throw transfer_of events)))))
       (throw_new_PolygonNetworkError ''Failed to get token transfers'')"

definition getTokenTransfersByAddress ::
  "manager \<Rightarrow> chain \<Rightarrow> string \<Rightarrow> string \<Rightarrow> nat option \<Rightarrow> nat option
     \<Rightarrow> PolygonTokenTransfer list promise" where
  "getTokenTransfersByAddress this c tokenAddress address fromBlock toBlock =
     try_catch
       (await (library (Contract_new c tokenAddress)) (\<lambda>contract.
        await (library (contract_filters c tokenAddress ''Transfer'' [address, address]))
          (\<lambda>event_filter.
        await (rpc ''queryFilter''
                 (contract_queryFilter_Transfer c tokenAddress event_filter fromBlock toBlock))
          (\<lambda>events.
        sync (map_or_throw transfer_of events)))))
       (throw_new_PolygonNetworkError ''Failed to get token transfers by address'')"

text \<open>
  \<^verbatim>\<open>
  async getTokenHolders(tokenAddress, fromBlock?, toBlock?): Promise<{ [address: string]: string }> {
    try {
      const transfers = await this.getTokenTransfers(tokenAddress, fromBlock, toBlock);
      const balances: { [address: string]: bigint } = {};
      for (const transfer of transfers) {
        const value = BigInt(transfer.value);
        if (transfer.from !== '0x0000000000000000000000000000000000000000') {
          balances[transfer.from] = (balances[transfer.from] || 0n) - value;
        }
        if (transfer.to !== '0x0000000000000000000000000000000000000000') {
          balances[transfer.to] = (balances[transfer.to] || 0n) + value;
        }
      }
      const result: { [address: string]: string } = {};
      for (const [address, balance] of Object.entries(balances)) {
        if (balance > 0n) { result[address] = balance.toString(); }
      }
      return result;
    } catch (error) {
      throw new PolygonNetworkError('Failed to get token holders', error);
    }
  }
  \<close>
  An object indexed by addresses is an association list in the order in which the keys
  were first assigned, which is the order of \<^verbatim>\<open>Object.entries\<close> for keys that are not
  numbers. \<^verbatim>\<open>BigInt\<close> of a string reads an optional sign and decimal digits (the empty
  string is zero) and throws a \<^verbatim>\<open>SyntaxError\<close> otherwise; its other notations (blanks
  around the number, the prefixes \<^verbatim>\<open>0x\<close>, \<^verbatim>\<open>0o\<close>, \<^verbatim>\<open>0b\<close>) are not modelled and are
  never met, the strings being those that \<open>getTokenTransfers\<close> printed.
\<close>

definition BigInt :: "string \<Rightarrow> exn + int" where
  "BigInt s =
     (if s = [] then Inr 0
      else if list_all is_digit s then Inr (int (digits_val s))
      else (case s of
              [] \<Rightarrow> Inr 0
            | sign # ds \<Rightarrow>
                if (sign = CHR ''-'' \<or> sign = CHR ''+'') \<and> ds \<noteq> [] \<and> list_all is_digit ds
                then Inr (if sign = CHR ''-'' then - int (digits_val ds) else int (digits_val ds))
                else Inl (SyntaxError ''Cannot convert to a BigInt'')))"

definition balance_or_zero :: "(string \<times> int) list \<Rightarrow> string \<Rightarrow> int" where
  "balance_or_zero balances address = (case map_of balances address of None \<Rightarrow> 0 | Some b \<Rightarrow> b)"

fun assign :: "string \<Rightarrow> int \<Rightarrow> (string \<times> int) list \<Rightarrow> (string \<times> int) list" where
  "assign address b [] = [(address, b)]"
| "assign address b ((address', b') # rest) =
     (if address' = address then (address, b) # rest else (address', b') # assign address b rest)"

definition zero_address :: string where
  "zero_address = ''0x0000000000000000000000000000000000000000''"

fun tally :: "PolygonTokenTransfer list \<Rightarrow> (string \<times> int) list \<Rightarrow> exn + (string \<times> int) list" where
  "tally [] balances = Inr balances"
| "tally (transfer # transfers) balances =
     (case BigInt (tt_value transfer) of
        Inl e \<Rightarrow> Inl e
      | Inr v \<Rightarrow>
          (let balances1 =
                 (if tt_from transfer \<noteq> zero_address
                  then assign (tt_from transfer)
                         (balance_or_zero balances (tt_from transfer) - v) balances
                  else balances);
               balances2 =
                 (if tt_to transfer \<noteq> zero_address
                  then assign (tt_to transfer)
                         (balance_or_zero balances1 (tt_to transfer) + v) balances1
                  else balances1)
           in tally transfers balances2))"

definition holders :: "(string \<times> int) list \<Rightarrow> (string \<times> string) list" where
  "holders balances =
     map (\<lambda>(address, b). (address, toString (nat b))) (filter (\<lambda>(address, b). 0 < b) balances)"

definition getTokenHolders ::
  "manager \<Rightarrow> chain \<Rightarrow> string \<Rightarrow> nat option \<Rightarrow> nat option \<Rightarrow> (string \<times> string) list promise"
where
  "getTokenHolders this c tokenAddress fromBlock toBlock =
     try_catch
       (await (getTokenTransfers this c tokenAddress fromBlock toBlock) (\<lambda>transfers.
        await (sync (tally transfers [])) (\<lambda>balances.
        resolve (holders balances))))
       (throw_new_PolygonNetworkError ''Failed to get token holders'')"

definition getTokenSupply :: "manager \<Rightarrow> chain \<Rightarrow> string \<Rightarrow> string promise" where
  "getTokenSupply this c tokenAddress =
     try_catch
       (await (library (Contract_new c tokenAddress)) (\<lambda>contract.
        await (rpc ''totalSupply'' (contract_totalSupply c tokenAddress)) (\<lambda>totalSupply.
        resolve (toString totalSupply))))
       (throw_new_PolygonNetworkError ''Failed to get token supply'')"

definition getTokenDecimals :: "manager \<Rightarrow> chain \<Rightarrow> string \<Rightarrow> nat promise" where
  "getTokenDecimals this c tokenAddress =
     try_catch
       (await (library (Contract_new c tokenAddress)) (\<lambda>contract.
        await (rpc ''decimals'' (contract_decimals c tokenAddress)) (\<lambda>decimals.
        resolve decimals)))
       (throw_new_PolygonNetworkError ''Failed to get token decimals'')"

text \<open>
  \<^verbatim>\<open>
  async formatTokenAmount(tokenAddress: string, amount: string): Promise<string> {
    try {
      const decimals = await this.getTokenDecimals(tokenAddress);
      return formatUnits(amount, decimals);
    } catch (error) {
      throw new PolygonNetworkError('Failed to format token amount', error);
    }
  }
  \<close>
  and \<open>parseTokenAmount\<close> likewise, with \<^verbatim>\<open>parseUnits\<close>.
\<close>

definition formatTokenAmount :: "manager \<Rightarrow> chain \<Rightarrow> string \<Rightarrow> string \<Rightarrow> string promise" where
  "formatTokenAmount this c tokenAddress amount =
     try_catch
       (await (getTokenDecimals this c tokenAddress) (\<lambda>decimals.
        sync (formatUnits amount decimals)))
       (throw_new_PolygonNetworkError ''Failed to format token amount'')"

definition parseTokenAmount :: "manager \<Rightarrow> chain \<Rightarrow> string \<Rightarrow> string \<Rightarrow> string promise" where
  "parseTokenAmount this c tokenAddress amount =
     try_catch
       (await (getTokenDecimals this c tokenAddress) (\<lambda>decimals.
        sync (parseUnits amount decimals)))
       (throw_new_PolygonNetworkError ''Failed to parse token amount'')"

definition getTokenSymbol :: "manager \<Rightarrow> chain \<Rightarrow> string \<Rightarrow> string promise" where
  "getTokenSymbol this c tokenAddress =
     try_catch
       (await (library (Contract_new c tokenAddress)) (\<lambda>contract.
        rpc ''symbol'' (contract_symbol c tokenAddress)))
       (throw_new_PolygonNetworkError ''Failed to get token symbol'')"

definition getTokenName :: "manager \<Rightarrow> chain \<Rightarrow> string \<Rightarrow> string promise" where
  "getTokenName this c tokenAddress =
     try_catch
       (await (library (Contract_new c tokenAddress)) (\<lambda>contract.
        rpc ''name'' (contract_name c tokenAddress)))
       (throw_new_PolygonNetworkError ''Failed to get token name'')"

text \<open>\<^verbatim>\<open>async disconnect(): Promise<void> { }\<close>, here and in the contract manager.\<close>

definition PolygonTokenManager_disconnect :: "manager \<Rightarrow> unit promise" where
  "PolygonTokenManager_disconnect this = resolve ()"

section \<open>The contract manager (src/src/PolygonContractManager.ts)\<close>

definition new_PolygonContractManager :: "chain \<Rightarrow> PolygonConfig \<Rightarrow> exn + manager" where
  "new_PolygonContractManager = new_manager"

record PolygonContract =
  pc_address :: string
  pc_abi :: "string list"
  pc_bytecode :: string
  pc_deployedAt :: string
  pc_transactionHash :: string
  pc_gasUsed :: string
  pc_gasPrice :: string

text \<open>
  \<^verbatim>\<open>
  async deployContract(bytecode, abi, constructorArgs = [], gasLimit?): Promise<PolygonContract> {
    try {
      if (!this.signer) {
        throw new PolygonError('Signer required for contract deployment', 'SIGNER_REQUIRED');
      }
      const factory = new ethers.ContractFactory(abi, bytecode, this.signer);
      const contract = await retry(async () => {
        const gasEstimate = await factory.getDeployTransaction(...constructorArgs).then(tx =>
          this.provider.estimateGas(tx));
        const deployTx = await factory.deploy(...constructorArgs, {
          gasLimit: gasLimit || gasEstimate.mul(120).div(100) });
        return deployTx;
      });
      await contract.deployed();
      return { address: contract.address, abi: abi, bytecode: bytecode,
        deployedAt: new Date().toISOString(),
        transactionHash: contract.deployTransaction.hash,
        gasUsed: contract.deployTransaction.gasLimit?.toString() || '0',
        gasPrice: contract.deployTransaction.gasPrice?.toString() || '0' };
    } catch (error) {
      if (error instanceof PolygonError) { throw error; }
      throw new PolygonNetworkError('Failed to deploy contract', error);
    }
  }
  \<close>
  The clock read by \<^verbatim>\<open>new Date()\<close> is the parameter \<open>now\<close>.
\<close>

definition deployContract ::
  "manager \<Rightarrow> chain \<Rightarrow> string \<Rightarrow> string \<Rightarrow> string list \<Rightarrow> string list \<Rightarrow> nat option
     \<Rightarrow> PolygonContract promise" where
  "deployContract this c now bytecode abi constructorArgs gasLimit =
     try_catch
       (case signer this of
          None \<Rightarrow> throw (PolygonError ''Signer required for contract deployment''
                           ''SIGNER_REQUIRED'' Undefined)
        | Some s \<Rightarrow>
            await (library (ContractFactory_new c abi bytecode)) (\<lambda>factory.
            await (retry (\<lambda>k. case from_library (provider_estimateGas c k constructorArgs) of
                                 Inl e \<Rightarrow> Inl e
                               | Inr gasEstimate \<Rightarrow>
                                   from_library
                                     (factory_deploy c k constructorArgs
                                        (gas_or_buffered gasLimit gasEstimate)))
                     3 1000) (\<lambda>contract.
            await (rpc ''deployed'' (dc_deployed contract)) (\<lambda>u.
            resolve \<lparr> pc_address = dc_address contract, pc_abi = abi, pc_bytecode = bytecode,
                      pc_deployedAt = now,
                      pc_transactionHash = dc_deployTransaction_hash contract,
                      pc_gasUsed = or_else (map_option toString
                                     (dc_deployTransaction_gasLimit contract)) ''0'',
                      pc_gasPrice = or_else (map_option toString
                                      (dc_deployTransaction_gasPrice contract)) ''0'' \<rparr>))))
       (rethrow_or_wrap ''Failed to deploy contract'')"

text \<open>
  \<^verbatim>\<open>
  async getContract(address: string, abi: any[]): Promise<ethers.Contract> {
    try {
      const validatedAddress = validateAddress(address);
      if (!validatedAddress) {
        throw new PolygonError('Invalid contract address', 'INVALID_ADDRESS');
      }
      return new ethers.Contract(address, abi, this.signer || this.provider);
    } catch (error) {
      if (error instanceof PolygonError) { throw error; }
      throw new PolygonNetworkError('Failed to get contract', error);
    }
  }
  \<close>
  The contract object is stood for by its address.
\<close>

definition getContract :: "manager \<Rightarrow> chain \<Rightarrow> string \<Rightarrow> string list \<Rightarrow> string promise" where
  "getContract this c address abi =
     try_catch
       (if \<not> validateAddress c address
        then throw (PolygonError ''Invalid contract address'' ''INVALID_ADDRESS'' Undefined)
        else await (library (Contract_new c address)) (\<lambda>u. resolve address))
       (rethrow_or_wrap ''Failed to get contract'')"

text \<open>
  \<^verbatim>\<open>
  async callContractMethod(contractAddress, abi, methodName, args = []): Promise<any> {
    try {
      const contract = await this.getContract(contractAddress, abi);
      return await contract[methodName](...args);
    } catch (error) {
      if (error instanceof PolygonError) { throw error; }
      throw new PolygonNetworkError(`Failed to call contract method ${methodName}`, error);
    }
  }
  \<close>
\<close>

definition callContractMethod ::
  "manager \<Rightarrow> chain \<Rightarrow> string \<Rightarrow> string list \<Rightarrow> string \<Rightarrow> string list \<Rightarrow> string promise" where
  "callContractMethod this c contractAddress abi methodName args =
     try_catch
       (await (getContract this c contractAddress abi) (\<lambda>contract.
        rpc methodName (contract_call c contract methodName args)))
       (rethrow_or_wrap (''Failed to call contract method '' @ methodName))"

text \<open>
  \<^verbatim>\<open>
  async sendContractTransaction(contractAddress, abi, methodName, args = [], options = {}) {
    try {
      if (!this.signer) {
        throw new PolygonError('Signer required for contract transactions', 'SIGNER_REQUIRED');
      }
      const contract = await this.getContract(contractAddress, abi);
      const tx = await retry(async () => {
        const gasEstimate = await contract.estimateGas[methodName](...args, options);
        return await contract[methodName](...args, {
          ...options, gasLimit: options.gasLimit || gasEstimate.mul(120).div(100) });
      });
      const receipt = await tx.wait();
      return { hash: tx.hash, from: tx.from, to: tx.to || contractAddress,
        value: tx.value.toString(), gasLimit: tx.gasLimit.toString(),
        gasPrice: tx.gasPrice?.toString() || '0', gasUsed: receipt.gasUsed.toString(),
        blockNumber: receipt.blockNumber, blockHash: receipt.blockHash,
        transactionIndex: receipt.transactionIndex,
        status: receipt.status === 1 ? 'success' : 'failed', logs: receipt.logs,
        effectiveGasPrice: receipt.effectiveGasPrice?.toString() || '0' };
    } catch (error) {
      if (error instanceof PolygonError) { throw error; }
      throw new PolygonNetworkError(`Failed to send contract transaction ${methodName}`, error);
    }
  }
  \<close>
\<close>

definition sendContractTransaction ::
  "manager \<Rightarrow> chain \<Rightarrow> string \<Rightarrow> string list \<Rightarrow> string \<Rightarrow> string list \<Rightarrow> tx_options
     \<Rightarrow> transaction_object promise" where
  "sendContractTransaction this c contractAddress abi methodName args options =
     try_catch
       (case signer this of
          None \<Rightarrow> throw (PolygonError ''Signer required for contract transactions''
                           ''SIGNER_REQUIRED'' Undefined)
        | Some s \<Rightarrow>
            await (getContract this c contractAddress abi) (\<lambda>contract.
            await (retry (\<lambda>k. case from_library
                                      (contract_estimateGas c k contract methodName args options) of
                                 Inl e \<Rightarrow> Inl e
                               | Inr gasEstimate \<Rightarrow>
                                   from_library
                                     (contract_send c k contract methodName args options
                                        (gas_or_buffered (opt_gasLimit options) gasEstimate)))
                     3 1000) (\<lambda>tx.
            await (rpc ''wait'' (tx_wait tx)) (\<lambda>receipt.
            resolve (confirmed_transaction tx receipt contractAddress)))))
       (rethrow_or_wrap (''Failed to send contract transaction '' @ methodName))"

text \<open>
  \<^verbatim>\<open>
  async getContractEvents(contractAddress, abi, eventName, fromBlock?, toBlock?): Promise<any[]> {
    try {
      const contract = await this.getContract(contractAddress, abi);
      const filter = contract.filters[eventName]();
      const events = await contract.queryFilter(filter, fromBlock, toBlock);
      return events.map(event => ({
        address: event.address, blockNumber: event.blockNumber, blockHash: event.blockHash,
        transactionHash: event.transactionHash, transactionIndex: event.transactionIndex,
        logIndex: event.logIndex, removed: event.removed, args: event.args,
        topics: event.topics, data: event.data }));
    } catch (error) {
      if (error instanceof PolygonError) { throw error; }
      throw new PolygonNetworkError(`Failed to get contract events ${eventName}`, error);
    }
  }
  \<close>
\<close>

definition getContractEvents ::
  "manager \<Rightarrow> chain \<Rightarrow> string \<Rightarrow> string list \<Rightarrow> string \<Rightarrow> nat option \<Rightarrow> nat option
     \<Rightarrow> LogEvent list promise" where
  "getContractEvents this c contractAddress abi eventName fromBlock toBlock =
     try_catch
       (await (getContract this c contractAddress abi) (\<lambda>contract.
        await (library (contract_filters c contract eventName [])) (\<lambda>event_filter.
        await (rpc ''queryFilter''
                 (contract_queryFilter c contract event_filter fromBlock toBlock)) (\<lambda>events.
        resolve (map (\<lambda>event.
                   \<lparr> ev_address = ev_address event, ev_blockNumber = ev_blockNumber event,
                     ev_blockHash = ev_blockHash event,
                     ev_transactionHash = ev_transactionHash event,
                     ev_transactionIndex = ev_transactionIndex event,
                     ev_logIndex = ev_logIndex event, ev_removed = ev_removed event,
                     ev_args = ev_args event, ev_topics = ev_topics event,
                     ev_data = ev_data event \<rparr>) events)))))
       (rethrow_or_wrap (''Failed to get contract events '' @ eventName))"

text \<open>
  \<^verbatim>\<open>
  async getContractBalance(address: string): Promise<string> {
    try {
      const balance = await this.provider.getBalance(address);
      return balance.toString();
    } catch (error) {
      throw new PolygonNetworkError('Failed to get contract balance', error);
    }
  }

  async getContractCode(address: string): Promise<string> {
    try {
      return await this.provider.getCode(address);
    } catch (error) {
      throw new PolygonNetworkError('Failed to get contract code', error);
    }
  }

  async isContract(address: string): Promise<boolean> {
    try {
      const code = await this.getContractCode(address);
      return code !== '0x';
    } catch (error) {
      throw new PolygonNetworkError('Failed to check if address is contract', error);
    }
  }
  \<close>
  \<open>getContractStorageAt\<close>, \<open>getTransactionCount\<close>, \<open>getCurrentBlockNumber\<close>, \<open>getBlock\<close>,
  \<open>getNetwork\<close>, \<open>getGasPrice\<close> and \<open>getFeeData\<close> have the shape of \<open>getContractCode\<close> or
  \<open>getContractBalance\<close>, each with its call of the provider and its text. The methods
  \<open>estimateGas\<close>, \<open>getGasPrice\<close>, \<open>getFeeData\<close> and \<open>disconnect\<close> carry the name of the class
  here, the wallet manager having methods of the same names.
\<close>

definition getContractBalance :: "manager \<Rightarrow> chain \<Rightarrow> string \<Rightarrow> string promise" where
  "getContractBalance this c address =
     try_catch
       (await (rpc ''getBalance'' (provider_getBalance c address)) (\<lambda>balance.
        resolve (toString balance)))
       (throw_new_PolygonNetworkError ''Failed to get contract balance'')"

definition getContractCode :: "manager \<Rightarrow> chain \<Rightarrow> string \<Rightarrow> string promise" where
  "getContractCode this c address =
     try_catch (rpc ''getCode'' (provider_getCode c address))
       (throw_new_PolygonNetworkError ''Failed to get contract code'')"

definition isContract :: "manager \<Rightarrow> chain \<Rightarrow> string \<Rightarrow> bool promise" where
  "isContract this c address =
     try_catch
       (await (getContractCode this c address) (\<lambda>code. resolve (code \<noteq> ''0x'')))
       (throw_new_PolygonNetworkError ''Failed to check if address is contract'')"

definition getContractStorageAt :: "manager \<Rightarrow> chain \<Rightarrow> string \<Rightarrow> string \<Rightarrow> string promise" where
  "getContractStorageAt this c address position =
     try_catch (rpc ''getStorageAt'' (provider_getStorageAt c address position))
       (throw_new_PolygonNetworkError ''Failed to get contract storage'')"

text \<open>
  \<^verbatim>\<open>
  async estimateGas(to: string, data: string, value?: string): Promise<string> {
    try {
      const gasEstimate = await this.provider.estimateGas({
        to, data, value: value ? ethers.utils.parseEther(value) : undefined });
      return gasEstimate.toString();
    } catch (error) {
      throw new PolygonNetworkError('Failed to estimate gas', error);
    }
  }
  \<close>
  The parameter \<open>data\<close> is named \<open>calldata\<close> here, \<open>data\<close> being the field of an error.
\<close>

definition PolygonContractManager_estimateGas ::
  "manager \<Rightarrow> chain \<Rightarrow> string \<Rightarrow> string \<Rightarrow> string option \<Rightarrow> string promise" where
  "PolygonContractManager_estimateGas this c to calldata value =
     try_catch
       (await (sync (parsed_if_given value 18)) (\<lambda>wei.
        await (rpc ''estimateGas'' (provider_estimateGas_request c to (Some calldata) wei))
          (\<lambda>gasEstimate.
        resolve (toString gasEstimate))))
       (throw_new_PolygonNetworkError ''Failed to estimate gas'')"

definition getTransactionCount :: "manager \<Rightarrow> chain \<Rightarrow> string \<Rightarrow> nat promise" where
  "getTransactionCount this c address =
     try_catch (rpc ''getTransactionCount'' (provider_getTransactionCount c address))
       (throw_new_PolygonNetworkError ''Failed to get transaction count'')"

text \<open>
  \<^verbatim>\<open>
  async getTransaction(txHash: string): Promise<PolygonTransaction | null> {
    try {
      const tx = await this.provider.getTransaction(txHash);
      if (!tx) return null;
      const receipt = await this.provider.getTransactionReceipt(txHash);
      return { hash: tx.hash, from: tx.from, to: tx.to || '',
        value: tx.value.toString(), gasLimit: tx.gasLimit.toString(),
        gasPrice: tx.gasPrice?.toString() || '0',
        gasUsed: receipt?.gasUsed.toString() || '0',
        blockNumber: receipt?.blockNumber || 0,
        blockHash: receipt?.blockHash || '',
        transactionIndex: receipt?.transactionIndex || 0,
        status: receipt?.status === 1 ? 'success' : 'failed',
        logs: receipt?.logs || [],
        effectiveGasPrice: receipt?.effectiveGasPrice?.toString() || '0' };
    } catch (error) {
      throw new PolygonNetworkError('Failed to get transaction', error);
    }
  }
  \<close>
  The receipt is \<open>None\<close> while the transaction is not mined; \<^verbatim>\<open>receipt?.status\<close> is then
  \<^verbatim>\<open>undefined\<close>, which is not \<^verbatim>\<open>1\<close>.
\<close>

definition looked_up_transaction ::
  "TransactionResponse \<Rightarrow> TransactionReceipt option \<Rightarrow> transaction_object" where
  "looked_up_transaction tx receipt =
     \<lparr> t_hash = tx_hash tx,
       t_from = tx_from tx,
       t_to = or_else (tx_to tx) [],
       t_value = toString (tx_value tx),
       t_gasLimit = toString (tx_gasLimit tx),
       t_gasPrice = or_else (map_option toString (tx_gasPrice tx)) ''0'',
       t_gasUsed = or_else (map_option (\<lambda>r. toString (rc_gasUsed r)) receipt) ''0'',
       t_blockNumber = (case receipt of None \<Rightarrow> 0 | Some r \<Rightarrow> rc_blockNumber r),
       t_blockHash = or_else (map_option rc_blockHash receipt) [],
       t_transactionIndex = (case receipt of None \<Rightarrow> 0 | Some r \<Rightarrow> rc_transactionIndex r),
       t_status = status_of (case receipt of None \<Rightarrow> None | Some r \<Rightarrow> rc_status r),
       t_logs = (case receipt of None \<Rightarrow> [] | Some r \<Rightarrow> rc_logs r),
       t_effectiveGasPrice =
         or_else (case receipt of None \<Rightarrow> None
                  | Some r \<Rightarrow> map_option toString (rc_effectiveGasPrice r)) ''0'' \<rparr>"

definition getTransaction :: "manager \<Rightarrow> chain \<Rightarrow> string \<Rightarrow> transaction_object option promise" where
  "getTransaction this c txHash =
     try_catch
       (await (rpc ''getTransaction'' (provider_getTransaction c txHash)) (\<lambda>tx.
          case tx of
            None \<Rightarrow> resolve None
          | Some tx \<Rightarrow>
              await (rpc ''getTransactionReceipt'' (provider_getTransactionReceipt c txHash))
                (\<lambda>receipt. resolve (Some (looked_up_transaction tx receipt)))))
       (throw_new_PolygonNetworkError ''Failed to get transaction'')"

text \<open>
  \<^verbatim>\<open>
  async waitForTransaction(txHash: string, confirmations: number = 1): Promise<PolygonTransaction> {
    try {
      const receipt = await this.provider.waitForTransaction(txHash, confirmations);
      return { hash: receipt.transactionHash, from: receipt.from, to: receipt.to || '',
        value: '0', gasLimit: '0', gasPrice: '0',
        gasUsed: receipt.gasUsed.toString(), blockNumber: receipt.blockNumber,
        blockHash: receipt.blockHash, transactionIndex: receipt.transactionIndex,
        status: receipt.status === 1 ? 'success' : 'failed', logs: receipt.logs,
        effectiveGasPrice: receipt.effectiveGasPrice?.toString() || '0' };
    } catch (error) {
      throw new PolygonNetworkError('Failed to wait for transaction', error);
    }
  }
  \<close>
  A missing \<open>confirmations\<close> is 1.
\<close>

definition waitForTransaction ::
  "manager \<Rightarrow> chain \<Rightarrow> string \<Rightarrow> nat option \<Rightarrow> transaction_object promise" where
  "waitForTransaction this c txHash confirmations =
     try_catch
       (await (rpc ''waitForTransaction''
                 (provider_waitForTransaction c txHash
                    (case confirmations of None \<Rightarrow> 1 | Some n \<Rightarrow> n))) (\<lambda>receipt.
        resolve
          \<lparr> t_hash = rc_transactionHash receipt,
            t_from = rc_from receipt,
            t_to = or_else (rc_to receipt) [],
            t_value = ''0'',
            t_gasLimit = ''0'',
            t_gasPrice = ''0'',
            t_gasUsed = toString (rc_gasUsed receipt),
            t_blockNumber = rc_blockNumber receipt,
            t_blockHash = rc_blockHash receipt,
            t_transactionIndex = rc_transactionIndex receipt,
            t_status = status_of (rc_status receipt),
            t_logs = rc_logs receipt,
            t_effectiveGasPrice =
              or_else (map_option toString (rc_effectiveGasPrice receipt)) ''0'' \<rparr>))
       (throw_new_PolygonNetworkError ''Failed to wait for transaction'')"

definition getCurrentBlockNumber :: "manager \<Rightarrow> chain \<Rightarrow> nat promise" where
  "getCurrentBlockNumber this c =
     try_catch (rpc ''getBlockNumber'' (provider_getBlockNumber c))
       (throw_new_PolygonNetworkError ''Failed to get current block number'')"

definition getBlock :: "manager \<Rightarrow> chain \<Rightarrow> nat \<Rightarrow> string promise" where
  "getBlock this c blockNumber =
     try_catch (rpc ''getBlock'' (provider_getBlock c blockNumber))
       (throw_new_PolygonNetworkError ''Failed to get block'')"

definition getNetwork :: "manager \<Rightarrow> chain \<Rightarrow> string promise" where
  "getNetwork this c =
     try_catch (rpc ''getNetwork'' (provider_getNetwork c))
       (throw_new_PolygonNetworkError ''Failed to get network'')"

definition PolygonContractManager_getGasPrice :: "manager \<Rightarrow> chain \<Rightarrow> string promise" where
  "PolygonContractManager_getGasPrice this c =
     try_catch
       (await (rpc ''getGasPrice'' (provider_getGasPrice c)) (\<lambda>gasPrice.
        resolve (toString gasPrice)))
       (throw_new_PolygonNetworkError ''Failed to get gas price'')"

definition PolygonContractManager_getFeeData :: "manager \<Rightarrow> chain \<Rightarrow> FeeData promise" where
  "PolygonContractManager_getFeeData this c =
     try_catch (rpc ''getFeeData'' (provider_getFeeData c))
       (throw_new_PolygonNetworkError ''Failed to get fee data'')"

definition PolygonContractManager_disconnect :: "manager \<Rightarrow> unit promise" where
  "PolygonContractManager_disconnect this = resolve ()"

section \<open>The wallet manager (src/unnamed/part_000)\<close>

text \<open>
  The constructor is that of the other two managers, with the field named \<open>wallet\<close>.
\<close>

record wallet_manager =
  wconfig :: PolygonConfig
  wallet :: "Wallet option"

definition new_PolygonWalletManager :: "chain \<Rightarrow> PolygonConfig \<Rightarrow> exn + wallet_manager" where
  "new_PolygonWalletManager c cfg =
     (case cfg_privateKey cfg of
        None \<Rightarrow> Inr \<lparr> wconfig = cfg, wallet = None \<rparr>
      | Some key \<Rightarrow>
          if key = [] then Inr \<lparr> wconfig = cfg, wallet = None \<rparr>
          else (case Wallet_new c key of
                  Inl e \<Rightarrow> Inl (raised e)
                | Inr w \<Rightarrow> Inr \<lparr> wconfig = cfg, wallet = Some w \<rparr>))"

record PolygonWallet =
  pw_address :: string
  pw_privateKey :: string
  pw_mnemonic :: string
  pw_publicKey :: string
  pw_index :: int

text \<open>
  The three methods that make a wallet are synchronous: the outcome is all there is.
  \<^verbatim>\<open>
  createWallet(): PolygonWallet {
    try {
      const wallet = ethers.Wallet.createRandom();
      return { address: wallet.address, privateKey: wallet.privateKey,
        mnemonic: wallet.mnemonic.phrase, publicKey: wallet.publicKey, index: 0 };
    } catch (error) {
      throw new PolygonError('Failed to create wallet', 'WALLET_CREATION_FAILED', error);
    }
  }

  createWalletFromMnemonic(mnemonic: string, index: number = 0): PolygonWallet {
    try {
      const wallet = ethers.Wallet.fromMnemonic(mnemonic, `m/44'/60'/0'/0/${index}`);
      return { address: wallet.address, privateKey: wallet.privateKey, mnemonic: mnemonic,
        publicKey: wallet.publicKey, index: index };
    } catch (error) {
      throw new PolygonError('Failed to create wallet from mnemonic', 'WALLET_CREATION_FAILED', error);
    }
  }

  createWalletFromPrivateKey(privateKey: string): PolygonWallet {
    try {
      const validatedKey = validatePrivateKey(privateKey);
      if (!validatedKey) {
        throw new PolygonError('Invalid private key', 'INVALID_PRIVATE_KEY');
      }
      const wallet = new ethers.Wallet(privateKey);
      return { address: wallet.address, privateKey: wallet.privateKey, mnemonic: '',
        publicKey: wallet.publicKey, index: 0 };
    } catch (error) {
      if (error instanceof PolygonError) { throw error; }
      throw new PolygonError('Failed to create wallet from private key', 'WALLET_CREATION_FAILED', error);
    }
  }
  \<close>
  A missing \<open>index\<close> is 0; the index is an integer and is printed into the path by
  \<open>Number_toString\<close>.
\<close>

definition createWallet :: "wallet_manager \<Rightarrow> chain \<Rightarrow> exn + PolygonWallet" where
  "createWallet this c =
     fst (try_catch
            (await (library (Wallet_createRandom c)) (\<lambda>wallet.
             case w_mnemonic_phrase wallet of
               None \<Rightarrow> throw (TypeError ''Cannot read properties of null'')
             | Some phrase \<Rightarrow>
                 resolve \<lparr> pw_address = w_address wallet, pw_privateKey = w_privateKey wallet,
                           pw_mnemonic = phrase, pw_publicKey = w_publicKey wallet,
                           pw_index = 0 \<rparr>))
            (\<lambda>error. throw (PolygonError ''Failed to create wallet'' ''WALLET_CREATION_FAILED''
                               (Caught error))))"

definition derivation_path :: "int \<Rightarrow> string" where
  "derivation_path index =
     [CHR ''m'', CHR ''/'', CHR ''4'', CHR ''4'', CHR 0x27, CHR ''/'', CHR ''6'', CHR ''0'',
      CHR 0x27, CHR ''/'', CHR ''0'', CHR 0x27, CHR ''/'', CHR ''0'', CHR ''/'']
     @ Number_toString index"

definition createWalletFromMnemonic ::
  "wallet_manager \<Rightarrow> chain \<Rightarrow> string \<Rightarrow> int option \<Rightarrow> exn + PolygonWallet" where
  "createWalletFromMnemonic this c mnemonic index_given =
     (let index = (case index_given of None \<Rightarrow> 0 | Some i \<Rightarrow> i) in
      fst (try_catch
             (await (library (Wallet_fromMnemonic c mnemonic (derivation_path index))) (\<lambda>wallet.
              resolve \<lparr> pw_address = w_address wallet, pw_privateKey = w_privateKey wallet,
                        pw_mnemonic = mnemonic, pw_publicKey = w_publicKey wallet,
                        pw_index = index \<rparr>))
             (\<lambda>error. throw (PolygonError ''Failed to create wallet from mnemonic''
                                ''WALLET_CREATION_FAILED'' (Caught error)))))"

definition createWalletFromPrivateKey ::
  "wallet_manager \<Rightarrow> chain \<Rightarrow> string \<Rightarrow> exn + PolygonWallet" where
  "createWalletFromPrivateKey this c privateKey =
     fst (try_catch
            (if \<not> validatePrivateKey c privateKey
             then throw (PolygonError ''Invalid private key'' ''INVALID_PRIVATE_KEY'' Undefined)
             else
               await (library (Wallet_new c privateKey)) (\<lambda>wallet.
               resolve \<lparr> pw_address = w_address wallet, pw_privateKey = w_privateKey wallet,
                         pw_mnemonic = [], pw_publicKey = w_publicKey wallet,
                         pw_index = 0 \<rparr>))
            (\<lambda>error. if instanceof_PolygonError error then throw error
                     else throw (PolygonError ''Failed to create wallet from private key''
                                   ''WALLET_CREATION_FAILED'' (Caught error))))"

text \<open>
  \<^verbatim>\<open>
  async getWalletBalance(address: string): Promise<string> {
    try {
      const validatedAddress = validateAddress(address);
      if (!validatedAddress) {
        throw new PolygonError('Invalid address', 'INVALID_ADDRESS');
      }
      const balance = await this.provider.getBalance(address);
      return balance.toString();
    } catch (error) {
      if (error instanceof PolygonError) { throw error; }
      throw new PolygonNetworkError('Failed to get wallet balance', error);
    }
  }
  \<close>
  and \<open>getWalletTransactionCount\<close> likewise, with \<^verbatim>\<open>this.provider.getTransactionCount(address)\<close>.
\<close>

definition getWalletBalance :: "wallet_manager \<Rightarrow> chain \<Rightarrow> string \<Rightarrow> string promise" where
  "getWalletBalance this c address =
     try_catch
       (if \<not> validateAddress c address
        then throw (PolygonError ''Invalid address'' ''INVALID_ADDRESS'' Undefined)
        else
          await (rpc ''getBalance'' (provider_getBalance c address)) (\<lambda>balance.
          resolve (toString balance)))
       (rethrow_or_wrap ''Failed to get wallet balance'')"

definition getWalletTransactionCount :: "wallet_manager \<Rightarrow> chain \<Rightarrow> string \<Rightarrow> nat promise" where
  "getWalletTransactionCount this c address =
     try_catch
       (if \<not> validateAddress c address
        then throw (PolygonError ''Invalid address'' ''INVALID_ADDRESS'' Undefined)
        else rpc ''getTransactionCount'' (provider_getTransactionCount c address))
       (rethrow_or_wrap ''Failed to get transaction count'')"

text \<open>
  \<^verbatim>\<open>
  async sendTransaction(to, value, gasLimit?, gasPrice?): Promise<PolygonTransaction> {
    try {
      if (!this.wallet) {
        throw new PolygonError('Wallet not initialized', 'WALLET_NOT_INITIALIZED');
      }
      const validatedTo = validateAddress(to);
      if (!validatedTo) {
        throw new PolygonError('Invalid recipient address', 'INVALID_ADDRESS');
      }
      const tx = await retry(async () => {
        const txRequest = { to, value: ethers.utils.parseEther(value), gasLimit: gasLimit,
          gasPrice: gasPrice ? ethers.utils.parseUnits(gasPrice, 'gwei') : undefined };
        return await this.wallet!.sendTransaction(txRequest);
      });
      const receipt = await tx.wait();
      return { hash: tx.hash, from: tx.from, to: tx.to || '', ... };
    } catch (error) {
      if (error instanceof PolygonError) { throw error; }
      throw new PolygonNetworkError('Failed to send transaction', error);
    }
  }
  \<close>
  \<^verbatim>\<open>parseEther\<close> is \<^verbatim>\<open>parseUnits\<close> at scale 18, and the unit \<^verbatim>\<open>gwei\<close> is scale 9.
\<close>

definition sendTransaction ::
  "wallet_manager \<Rightarrow> chain \<Rightarrow> string \<Rightarrow> string \<Rightarrow> nat option \<Rightarrow> string option
     \<Rightarrow> transaction_object promise" where
  "sendTransaction this c to value gasLimit gasPrice =
     try_catch
       (case wallet this of
          None \<Rightarrow> throw (PolygonError ''Wallet not initialized'' ''WALLET_NOT_INITIALIZED''
                           Undefined)
        | Some w \<Rightarrow>
            if \<not> validateAddress c to
            then throw (PolygonError ''Invalid recipient address'' ''INVALID_ADDRESS'' Undefined)
            else
              await (retry (\<lambda>k. case ethers_parseUnits value 18 of
                                   Inl e \<Rightarrow> Inl e
                                 | Inr wei \<Rightarrow>
                                     (case parsed_if_given gasPrice 9 of
                                        Inl e \<Rightarrow> Inl e
                                      | Inr price \<Rightarrow>
                                          from_library
                                            (wallet_sendTransaction c k to wei gasLimit price)))
                       3 1000) (\<lambda>tx.
              await (rpc ''wait'' (tx_wait tx)) (\<lambda>receipt.
              resolve (confirmed_transaction tx receipt []))))
       (rethrow_or_wrap ''Failed to send transaction'')"

text \<open>
  \<^verbatim>\<open>
  async signMessage(message: string): Promise<string> {
    try {
      if (!this.wallet) {
        throw new PolygonError('Wallet not initialized', 'WALLET_NOT_INITIALIZED');
      }
      return await this.wallet.signMessage(message);
    } catch (error) {
      throw new PolygonError('Failed to sign message', 'SIGNING_FAILED', error);
    }
  }

  async signTransaction(transaction: any): Promise<string> {
    try {
      if (!this.wallet) {
        throw new PolygonError('Wallet not initialized', 'WALLET_NOT_INITIALIZED');
      }
      return await this.wallet.signTransaction(transaction);
    } catch (error) {
      throw new PolygonError('Failed to sign transaction', 'SIGNING_FAILED', error);
    }
  }

  async verifyMessage(message: string, signature: string): Promise<string> {
    try {
      return ethers.utils.verifyMessage(message, signature);
    } catch (error) {
      throw new PolygonError('Failed to verify message', 'VERIFICATION_FAILED', error);
    }
  }
  \<close>
  Signing and verifying need the key only, not the chain. The parameter \<open>message\<close> is
  named \<open>text\<close> here, \<open>message\<close> being the field of an error.
\<close>

definition signMessage :: "wallet_manager \<Rightarrow> chain \<Rightarrow> string \<Rightarrow> string promise" where
  "signMessage this c text =
     try_catch
       (case wallet this of
          None \<Rightarrow> throw (PolygonError ''Wallet not initialized'' ''WALLET_NOT_INITIALIZED''
                           Undefined)
        | Some w \<Rightarrow> library (wallet_signMessage c text))
       (\<lambda>error. throw (PolygonError ''Failed to sign message'' ''SIGNING_FAILED'' (Caught error)))"

definition signTransaction :: "wallet_manager \<Rightarrow> chain \<Rightarrow> string \<Rightarrow> string promise" where
  "signTransaction this c transaction =
     try_catch
       (case wallet this of
          None \<Rightarrow> throw (PolygonError ''Wallet not initialized'' ''WALLET_NOT_INITIALIZED''
                           Undefined)
        | Some w \<Rightarrow> library (wallet_signTransaction c transaction))
       (\<lambda>error. throw (PolygonError ''Failed to sign transaction'' ''SIGNING_FAILED''
                          (Caught error)))"

definition verifyMessage :: "wallet_manager \<Rightarrow> chain \<Rightarrow> string \<Rightarrow> string \<Rightarrow> string promise" where
  "verifyMessage this c text signature =
     try_catch (library (ethers_verifyMessage c text signature))
       (\<lambda>error. throw (PolygonError ''Failed to verify message'' ''VERIFICATION_FAILED''
                          (Caught error)))"

text \<open>
  \<^verbatim>\<open>
  async getWalletInfo(address: string): Promise<{ address; balance; transactionCount; isContract }> {
    try {
      const validatedAddress = validateAddress(address);
      if (!validatedAddress) {
        throw new PolygonError('Invalid address', 'INVALID_ADDRESS');
      }
      const [balance, transactionCount, code] = await Promise.all([
        this.getWalletBalance(address),
        this.getWalletTransactionCount(address),
        this.provider.getCode(address)
      ]);
      return { address, balance, transactionCount, isContract: code !== '0x' };
    } catch (error) {
      if (error instanceof PolygonError) { throw error; }
      throw new PolygonNetworkError('Failed to get wallet info', error);
    }
  }
  \<close>
\<close>

record wallet_info =
  wi_address :: string
  wi_balance :: string
  wi_transactionCount :: nat
  wi_isContract :: bool

definition getWalletInfo :: "wallet_manager \<Rightarrow> chain \<Rightarrow> string \<Rightarrow> wallet_info promise" where
  "getWalletInfo this c address =
     try_catch
       (if \<not> validateAddress c address
        then throw (PolygonError ''Invalid address'' ''INVALID_ADDRESS'' Undefined)
        else
          await (Promise_all3 (settling_order c)
                   (getWalletBalance this c address)
                   (getWalletTransactionCount this c address)
                   (rpc ''getCode'' (provider_getCode c address)))
            (\<lambda>(balance, transactionCount, code).
          resolve \<lparr> wi_address = address, wi_balance = balance,
                    wi_transactionCount = transactionCount,
                    wi_isContract = (code \<noteq> ''0x'') \<rparr>))
       (rethrow_or_wrap ''Failed to get wallet info'')"

text \<open>
  \<^verbatim>\<open>
  async estimateGas(to: string, value?: string, data?: string): Promise<string> {
    try {
      const gasEstimate = await this.provider.estimateGas({
        to, value: value ? ethers.utils.parseEther(value) : undefined, data });
      return gasEstimate.toString();
    } catch (error) {
      throw new PolygonNetworkError('Failed to estimate gas', error);
    }
  }

  async getGasPrice(): Promise<string> {
    try {
      const gasPrice = await this.provider.getGasPrice();
      return gasPrice.toString();
    } catch (error) {
      throw new PolygonNetworkError('Failed to get gas price', error);
    }
  }

  async getFeeData(): Promise<{ gasPrice: string; maxFeePerGas?: string; maxPriorityFeePerGas?: string }> {
    try {
      const feeData = await this.provider.getFeeData();
      return { gasPrice: feeData.gasPrice?.toString() || '0',
        maxFeePerGas: feeData.maxFeePerGas?.toString(),
        maxPriorityFeePerGas: feeData.maxPriorityFeePerGas?.toString() };
    } catch (error) {
      throw new PolygonNetworkError('Failed to get fee data', error);
    }
  }
  \<close>
\<close>

definition PolygonWalletManager_estimateGas ::
  "wallet_manager \<Rightarrow> chain \<Rightarrow> string \<Rightarrow> string option \<Rightarrow> string option \<Rightarrow> string promise" where
  "PolygonWalletManager_estimateGas this c to value calldata =
     try_catch
       (await (sync (parsed_if_given value 18)) (\<lambda>wei.
        await (rpc ''estimateGas'' (provider_estimateGas_request c to calldata wei)) (\<lambda>gasEstimate.
        resolve (toString gasEstimate))))
       (throw_new_PolygonNetworkError ''Failed to estimate gas'')"

definition PolygonWalletManager_getGasPrice :: "wallet_manager \<Rightarrow> chain \<Rightarrow> string promise" where
  "PolygonWalletManager_getGasPrice this c =
     try_catch
       (await (rpc ''getGasPrice'' (provider_getGasPrice c)) (\<lambda>gasPrice.
        resolve (toString gasPrice)))
       (throw_new_PolygonNetworkError ''Failed to get gas price'')"

record fee_strings =
  fs_gasPrice :: string
  fs_maxFeePerGas :: "string option"
  fs_maxPriorityFeePerGas :: "string option"

definition PolygonWalletManager_getFeeData :: "wallet_manager \<Rightarrow> chain \<Rightarrow> fee_strings promise" where
  "PolygonWalletManager_getFeeData this c =
     try_catch
       (await (rpc ''getFeeData'' (provider_getFeeData c)) (\<lambda>feeData.
        resolve \<lparr> fs_gasPrice = or_else (map_option toString (fd_gasPrice feeData)) ''0'',
                  fs_maxFeePerGas = map_option toString (fd_maxFeePerGas feeData),
                  fs_maxPriorityFeePerGas =
                    map_option toString (fd_maxPriorityFeePerGas feeData) \<rparr>))
       (throw_new_PolygonNetworkError ''Failed to get fee data'')"

text \<open>
  \<^verbatim>\<open>
  async getCurrentWallet(): Promise<PolygonWallet | null> {
    if (!this.wallet) { return null; }
    return { address: this.wallet.address, privateKey: this.wallet.privateKey, mnemonic: '',
      publicKey: this.wallet.publicKey, index: 0 };
  }

  async setWallet(privateKey: string): Promise<void> {
    try {
      const validatedKey = validatePrivateKey(privateKey);
      if (!validatedKey) {
        throw new PolygonError('Invalid private key', 'INVALID_PRIVATE_KEY');
      }
      this.wallet = new ethers.Wallet(privateKey, this.provider);
    } catch (error) {
      if (error instanceof PolygonError) { throw error; }
      throw new PolygonError('Failed to set wallet', 'WALLET_SET_FAILED', error);
    }
  }

  async disconnect(): Promise<void> { this.wallet = undefined; }
  \<close>
  \<open>setWallet\<close> and \<open>disconnect\<close> change the manager: they answer with the manager as it is
  afterwards.
\<close>

definition getCurrentWallet :: "wallet_manager \<Rightarrow> PolygonWallet option promise" where
  "getCurrentWallet this =
     (case wallet this of
        None \<Rightarrow> resolve None
      | Some w \<Rightarrow>
          resolve (Some \<lparr> pw_address = w_address w, pw_privateKey = w_privateKey w,
                          pw_mnemonic = [], pw_publicKey = w_publicKey w, pw_index = 0 \<rparr>))"

definition setWallet :: "wallet_manager \<Rightarrow> chain \<Rightarrow> string \<Rightarrow> wallet_manager promise" where
  "setWallet this c privateKey =
     try_catch
       (if \<not> validatePrivateKey c privateKey
        then throw (PolygonError ''Invalid private key'' ''INVALID_PRIVATE_KEY'' Undefined)
        else
          await (library (Wallet_new c privateKey)) (\<lambda>w.
          resolve (this \<lparr> wallet := Some w \<rparr>)))
       (\<lambda>error. if instanceof_PolygonError error then throw error
                else throw (PolygonError ''Failed to set wallet'' ''WALLET_SET_FAILED''
                              (Caught error)))"

definition PolygonWalletManager_disconnect :: "wallet_manager \<Rightarrow> wallet_manager promise" where
  "PolygonWalletManager_disconnect this = resolve (this \<lparr> wallet := None \<rparr>)"

section \<open>Sample inputs\<close>

text \<open>
  A configuration without a private key, a chain client that cannot reach its node, and
  one that knows a transaction which is not mined yet.
\<close>

definition sample_config :: PolygonConfig where
  "sample_config =
     \<lparr> cfg_rpcUrl = ''https://polygon-rpc.com'', cfg_privateKey = None, cfg_networkId = 137,
       cfg_gasPrice = None, cfg_gasLimit = None \<rparr>"

definition no_network :: library_error where
  "no_network = LibraryError ''could not detect network'' (Some ''NETWORK_ERROR'')"

definition unreachable :: chain where
  "unreachable =
     \<lparr> Wallet_new =
         (\<lambda>key. Inr \<lparr> w_address = ''0x01'', w_privateKey = key, w_publicKey = ''0x04'',
                       w_mnemonic_phrase = None \<rparr>),
       Wallet_createRandom =
         Inr \<lparr> w_address = ''0x01'', w_privateKey = ''0x0a'', w_publicKey = ''0x04'',
               w_mnemonic_phrase = Some ''test test test'' \<rparr>,
       Wallet_fromMnemonic =
         (\<lambda>mnemonic path. Inr \<lparr> w_address = ''0x01'', w_privateKey = ''0x0a'',
                                 w_publicKey = ''0x04'', w_mnemonic_phrase = Some mnemonic \<rparr>),
       ethers_isAddress = (\<lambda>address. Inr True),
       ethers_verifyMessage = (\<lambda>text signature. Inr ''0x01''),
       Contract_new = (\<lambda>address. Inr ()),
       ContractFactory_new = (\<lambda>abi bytecode. Inr ()),
       contract_info = (\<lambda>address. Inl no_network),
       contract_name = (\<lambda>address. Inl no_network),
       contract_symbol = (\<lambda>address. Inl no_network),
       contract_decimals = (\<lambda>address. Inl no_network),
       contract_totalSupply = (\<lambda>address. Inl no_network),
       contract_balanceOf = (\<lambda>address owner. Inl no_network),
       contract_allowance = (\<lambda>address owner spender. Inl no_network),
       contract_transfer = (\<lambda>k token to amount gas. Inl no_network),
       contract_approve = (\<lambda>k token spender amount gas. Inl no_network),
       contract_transferFrom = (\<lambda>k token from to amount gas. Inl no_network),
       contract_filters = (\<lambda>address name args. Inr name),
       contract_queryFilter = (\<lambda>address event_filter fromBlock toBlock. Inl no_network),
       contract_queryFilter_Transfer =
         (\<lambda>address event_filter fromBlock toBlock. Inl no_network),
       contract_call = (\<lambda>address method args. Inl no_network),
       provider_estimateGas = (\<lambda>k args. Inl no_network),
       provider_estimateGas_request = (\<lambda>to data wei. Inl no_network),
       factory_deploy = (\<lambda>k args gas. Inl no_network),
       contract_estimateGas = (\<lambda>k contract method args options. Inl no_network),
       contract_send = (\<lambda>k contract method args options gas. Inl no_network),
       provider_getBalance = (\<lambda>address. Inl no_network),
       provider_getCode = (\<lambda>address. Inl no_network),
       provider_getStorageAt = (\<lambda>address position. Inl no_network),
       provider_getTransactionCount = (\<lambda>address. Inl no_network),
       provider_getTransaction = (\<lambda>txHash. Inl no_network),
       provider_getTransactionReceipt = (\<lambda>txHash. Inl no_network),
       provider_waitForTransaction = (\<lambda>txHash confirmations. Inl no_network),
       provider_getBlockNumber = Inl no_network,
       provider_getBlock = (\<lambda>blockNumber. Inl no_network),
       provider_getNetwork = Inl no_network,
       provider_getGasPrice = Inl no_network,
       provider_getFeeData = Inl no_network,
       wallet_sendTransaction = (\<lambda>k to wei gas price. Inl no_network),
       wallet_signMessage = (\<lambda>text. Inr ''0xsignature''),
       wallet_signTransaction = (\<lambda>transaction. Inr ''0xsigned''),
       settling_order = [] \<rparr>"

definition pending_tx :: TransactionResponse where
  "pending_tx =
     \<lparr> tx_hash = ''0xabc'', tx_from = ''0x01'', tx_to = Some ''0x02'', tx_value = 5,
       tx_gasLimit = 21000, tx_gasPrice = Some 30,
       tx_wait = Inl (LibraryError ''timeout'' (Some ''TIMEOUT'')) \<rparr>"

definition pending_chain :: chain where
  "pending_chain =
     unreachable
       \<lparr> provider_getTransaction := (\<lambda>txHash. Inr (Some pending_tx)),
         provider_getTransactionReceipt := (\<lambda>txHash. Inr None) \<rparr>"

section \<open>Errors that pass through, and errors that are wrapped\<close>

lemma rethrow_or_wrap_typed:
  "instanceof_PolygonError e \<Longrightarrow> rethrow_or_wrap msg e = throw e"
  by (simp add: rethrow_or_wrap_def)

text \<open>
  Where the catch block tests \<^verbatim>\<open>instanceof PolygonError\<close>, a typed error raised in the body
  reaches the caller as it is.
\<close>

lemma try_catch_rethrow_or_wrap:
  assumes "fst body = Inl e" and "instanceof_PolygonError e"
  shows "fst (try_catch body (rethrow_or_wrap msg)) = Inl e"
  using assms
  by (cases body) (simp add: try_catch_def rethrow_or_wrap_typed throw_def)

lemma getTokenInfo_invalid_address:
  assumes "\<not> validateAddress c tokenAddress"
  shows "getTokenInfo this c tokenAddress
           = (Inl (PolygonError ''Invalid token address'' ''INVALID_ADDRESS'' Undefined), [])"
  using assms by (simp add: getTokenInfo_def rethrow_or_wrap_typed) (simp add: throw_def)

text \<open>
  Claim C6 says that every public manager operation surfaces a typed error raised by an
  internal step unchanged. The code does so where the catch block tests
  \<^verbatim>\<open>instanceof PolygonError\<close>, as in \<open>getTokenInfo\<close> above and in \<open>sendTransaction\<close> of the
  wallet manager. \<open>signMessage\<close> and \<open>signTransaction\<close> of the same wallet manager have no
  such test. On a manager without a wallet the body of each throws the typed error
  \<open>WALLET_NOT_INITIALIZED\<close>, the very error that \<open>sendTransaction\<close> hands to its caller
  unchanged, and the caller of \<open>signMessage\<close> or \<open>signTransaction\<close> receives a new error
  with the code \<open>SIGNING_FAILED\<close> and another message, the original being its payload.
\<close>

theorem signing_wraps_typed_error:
  "new_PolygonWalletManager unreachable sample_config
     = Inr \<lparr> wconfig = sample_config, wallet = None \<rparr>
   \<and> instanceof_PolygonError
        (PolygonError ''Wallet not initialized'' ''WALLET_NOT_INITIALIZED'' Undefined)
   \<and> signMessage \<lparr> wconfig = sample_config, wallet = None \<rparr> unreachable ''hello''
       = (Inl (PolygonError ''Failed to sign message'' ''SIGNING_FAILED''
                 (Caught (PolygonError ''Wallet not initialized'' ''WALLET_NOT_INITIALIZED''
                            Undefined))), [])
   \<and> PolygonError ''Failed to sign message'' ''SIGNING_FAILED''
         (Caught (PolygonError ''Wallet not initialized'' ''WALLET_NOT_INITIALIZED'' Undefined))
       \<noteq> PolygonError ''Wallet not initialized'' ''WALLET_NOT_INITIALIZED'' Undefined
   \<and> signTransaction \<lparr> wconfig = sample_config, wallet = None \<rparr> unreachable ''0x02f8''
       = (Inl (PolygonError ''Failed to sign transaction'' ''SIGNING_FAILED''
                 (Caught (PolygonError ''Wallet not initialized'' ''WALLET_NOT_INITIALIZED''
                            Undefined))), [])
   \<and> PolygonError ''Failed to sign transaction'' ''SIGNING_FAILED''
         (Caught (PolygonError ''Wallet not initialized'' ''WALLET_NOT_INITIALIZED'' Undefined))
       \<noteq> PolygonError ''Wallet not initialized'' ''WALLET_NOT_INITIALIZED'' Undefined
   \<and> sendTransaction \<lparr> wconfig = sample_config, wallet = None \<rparr> unreachable ''0x01'' ''1.0''
         None None
       = (Inl (PolygonError ''Wallet not initialized'' ''WALLET_NOT_INITIALIZED'' Undefined), [])"
proof -
  have ctor: "new_PolygonWalletManager unreachable sample_config
                = Inr \<lparr> wconfig = sample_config, wallet = None \<rparr>"
    by (simp add: new_PolygonWalletManager_def sample_config_def)
  have typed: "instanceof_PolygonError
                 (PolygonError ''Wallet not initialized'' ''WALLET_NOT_INITIALIZED'' Undefined)"
    by simp
  have sign: "signMessage \<lparr> wconfig = sample_config, wallet = None \<rparr> unreachable ''hello''
       = (Inl (PolygonError ''Failed to sign message'' ''SIGNING_FAILED''
                 (Caught (PolygonError ''Wallet not initialized'' ''WALLET_NOT_INITIALIZED''
                            Undefined))), [])"
    by (simp add: signMessage_def) (simp add: throw_def)
  have differ: "PolygonError ''Failed to sign message'' ''SIGNING_FAILED''
         (Caught (PolygonError ''Wallet not initialized'' ''WALLET_NOT_INITIALIZED'' Undefined))
       \<noteq> PolygonError ''Wallet not initialized'' ''WALLET_NOT_INITIALIZED'' Undefined"
    by (simp add: PolygonError_def)
  have signTx: "signTransaction \<lparr> wconfig = sample_config, wallet = None \<rparr> unreachable ''0x02f8''
       = (Inl (PolygonError ''Failed to sign transaction'' ''SIGNING_FAILED''
                 (Caught (PolygonError ''Wallet not initialized'' ''WALLET_NOT_INITIALIZED''
                            Undefined))), [])"
    by (simp add: signTransaction_def) (simp add: throw_def)
  have differTx: "PolygonError ''Failed to sign transaction'' ''SIGNING_FAILED''
         (Caught (PolygonError ''Wallet not initialized'' ''WALLET_NOT_INITIALIZED'' Undefined))
       \<noteq> PolygonError ''Wallet not initialized'' ''WALLET_NOT_INITIALIZED'' Undefined"
    by (simp add: PolygonError_def)
  have send: "sendTransaction \<lparr> wconfig = sample_config, wallet = None \<rparr> unreachable ''0x01''
         ''1.0'' None None
       = (Inl (PolygonError ''Wallet not initialized'' ''WALLET_NOT_INITIALIZED'' Undefined), [])"
    by (simp add: sendTransaction_def rethrow_or_wrap_typed) (simp add: throw_def)
  from ctor typed sign differ signTx differTx send show ?thesis by blast
qed

section \<open>The signer requirement\<close>

text \<open>
  Claim C7 says that every state-mutating operation of a manager without a private key
  fails with \<open>SIGNER_REQUIRED\<close>. The wallet manager's \<open>sendTransaction\<close> fails with
  \<open>WALLET_NOT_INITIALIZED\<close> instead, the code this class uses throughout for a missing
  wallet.
\<close>

theorem sendTransaction_without_key_not_signer_required:
  "cfg_privateKey sample_config = None
   \<and> new_PolygonWalletManager unreachable sample_config
       = Inr \<lparr> wconfig = sample_config, wallet = None \<rparr>
   \<and> sendTransaction \<lparr> wconfig = sample_config, wallet = None \<rparr> unreachable
         ''0x0000000000000000000000000000000000000001'' ''1.0'' None None
       = (Inl (PolygonError ''Wallet not initialized'' ''WALLET_NOT_INITIALIZED'' Undefined), [])
   \<and> \<not> rejects_with_code
         (sendTransaction \<lparr> wconfig = sample_config, wallet = None \<rparr> unreachable
            ''0x0000000000000000000000000000000000000001'' ''1.0'' None None)
         ''SIGNER_REQUIRED''"
  by (simp add: new_PolygonWalletManager_def sample_config_def sendTransaction_def
        rethrow_or_wrap_typed rejects_with_code_throw)
     (simp add: throw_def)

text \<open>
  Claim C7, amended. A manager built from a configuration without a private key has no
  signing identity, and on it: token transfer, token approval, \<open>transferFrom\<close>, contract
  deployment and contract transaction fail with a \<open>PolygonError\<close> of code \<open>SIGNER_REQUIRED\<close>;
  sending a native transaction fails with a \<open>PolygonError\<close> of code
  \<open>WALLET_NOT_INITIALIZED\<close>. In each case the trace is empty: the operation fails before
  any call of the chain client, whatever the chain would have answered.
\<close>

theorem no_signing_identity_fails_first:
  assumes "cfg_privateKey cfg = None"
  shows "new_PolygonTokenManager c cfg = Inr \<lparr> config = cfg, signer = None \<rparr>
     \<and> new_PolygonContractManager c cfg = Inr \<lparr> config = cfg, signer = None \<rparr>
     \<and> new_PolygonWalletManager c cfg = Inr \<lparr> wconfig = cfg, wallet = None \<rparr>
     \<and> transferToken \<lparr> config = cfg, signer = None \<rparr> c tokenAddress toAddress amount gasLimit
         = (Inl (PolygonError ''Signer required for token transfer'' ''SIGNER_REQUIRED''
                   Undefined), [])
     \<and> approveToken \<lparr> config = cfg, signer = None \<rparr> c tokenAddress spenderAddress amount gasLimit
         = (Inl (PolygonError ''Signer required for token approval'' ''SIGNER_REQUIRED''
                   Undefined), [])
     \<and> transferFromToken \<lparr> config = cfg, signer = None \<rparr> c tokenAddress fromAddress toAddress
           amount gasLimit
         = (Inl (PolygonError ''Signer required for transferFrom'' ''SIGNER_REQUIRED''
                   Undefined), [])
     \<and> deployContract \<lparr> config = cfg, signer = None \<rparr> c now bytecode abi constructorArgs gasLimit
         = (Inl (PolygonError ''Signer required for contract deployment'' ''SIGNER_REQUIRED''
                   Undefined), [])
     \<and> sendContractTransaction \<lparr> config = cfg, signer = None \<rparr> c contractAddress abi methodName
           args options
         = (Inl (PolygonError ''Signer required for contract transactions'' ''SIGNER_REQUIRED''
                   Undefined), [])
     \<and> sendTransaction \<lparr> wconfig = cfg, wallet = None \<rparr> c to value gasLimit gasPrice
         = (Inl (PolygonError ''Wallet not initialized'' ''WALLET_NOT_INITIALIZED''
                   Undefined), [])"
proof -
  have ctor: "new_manager c cfg = Inr \<lparr> config = cfg, signer = None \<rparr>"
    using assms by (simp add: new_manager_def)
  have wctor: "new_PolygonWalletManager c cfg = Inr \<lparr> wconfig = cfg, wallet = None \<rparr>"
    using assms by (simp add: new_PolygonWalletManager_def)
  have t1: "transferToken \<lparr> config = cfg, signer = None \<rparr> c tokenAddress toAddress amount gasLimit
         = (Inl (PolygonError ''Signer required for token transfer'' ''SIGNER_REQUIRED''
                   Undefined), [])"
    by (simp add: transferToken_def rethrow_or_wrap_typed) (simp add: throw_def)
  have t2: "approveToken \<lparr> config = cfg, signer = None \<rparr> c tokenAddress spenderAddress amount
           gasLimit
         = (Inl (PolygonError ''Signer required for token approval'' ''SIGNER_REQUIRED''
                   Undefined), [])"
    by (simp add: approveToken_def rethrow_or_wrap_typed) (simp add: throw_def)
  have t3: "transferFromToken \<lparr> config = cfg, signer = None \<rparr> c tokenAddress fromAddress toAddress
           amount gasLimit
         = (Inl (PolygonError ''Signer required for transferFrom'' ''SIGNER_REQUIRED''
                   Undefined), [])"
    by (simp add: transferFromToken_def rethrow_or_wrap_typed) (simp add: throw_def)
  have t4: "deployContract \<lparr> config = cfg, signer = None \<rparr> c now bytecode abi constructorArgs
           gasLimit
         = (Inl (PolygonError ''Signer required for contract deployment'' ''SIGNER_REQUIRED''
                   Undefined), [])"
    by (simp add: deployContract_def rethrow_or_wrap_typed) (simp add: throw_def)
  have t5: "sendContractTransaction \<lparr> config = cfg, signer = None \<rparr> c contractAddress abi
           methodName args options
         = (Inl (PolygonError ''Signer required for contract transactions'' ''SIGNER_REQUIRED''
                   Undefined), [])"
    by (simp add: sendContractTransaction_def rethrow_or_wrap_typed) (simp add: throw_def)
  have t6: "sendTransaction \<lparr> wconfig = cfg, wallet = None \<rparr> c to value gasLimit gasPrice
         = (Inl (PolygonError ''Wallet not initialized'' ''WALLET_NOT_INITIALIZED''
                   Undefined), [])"
    by (simp add: sendTransaction_def rethrow_or_wrap_typed) (simp add: throw_def)
  from ctor wctor t1 t2 t3 t4 t5 t6 show ?thesis
    unfolding new_PolygonTokenManager_def new_PolygonContractManager_def by blast
qed

theorem no_signing_identity_fails_first_witness:
  "new_PolygonTokenManager unreachable sample_config
     = Inr \<lparr> config = sample_config, signer = None \<rparr>
   \<and> transferToken \<lparr> config = sample_config, signer = None \<rparr> unreachable ''0xToken'' ''0xTo''
        ''1.5'' None
       = (Inl (PolygonError ''Signer required for token transfer'' ''SIGNER_REQUIRED''
                 Undefined), [])
   \<and> deployContract \<lparr> config = sample_config, signer = None \<rparr> unreachable
        ''2026-01-01T00:00:00.000Z'' ''0x6080'' [] [] None
       = (Inl (PolygonError ''Signer required for contract deployment'' ''SIGNER_REQUIRED''
                 Undefined), [])
   \<and> sendTransaction \<lparr> wconfig = sample_config, wallet = None \<rparr> unreachable ''0xTo'' ''1.0''
        None None
       = (Inl (PolygonError ''Wallet not initialized'' ''WALLET_NOT_INITIALIZED''
                 Undefined), [])"
proof -
  have nokey: "cfg_privateKey sample_config = None"
    by (simp add: sample_config_def)
  show ?thesis
    using no_signing_identity_fails_first [OF nokey, where c = unreachable
        and tokenAddress = "''0xToken''" and toAddress = "''0xTo''" and amount = "''1.5''"
        and gasLimit = None and now = "''2026-01-01T00:00:00.000Z''" and bytecode = "''0x6080''"
        and abi = "[]" and constructorArgs = "[]" and to = "''0xTo''" and gasPrice = None]
    by simp
qed

section \<open>The status of a looked-up transaction\<close>

text \<open>
  What \<open>getTransaction\<close> reports for a transaction the node knows: \<open>success\<close> for a receipt
  with status 1, \<open>failed\<close> for every other receipt, and \<open>failed\<close> as well when there is
  no receipt.
\<close>

lemma getTransaction_status:
  assumes "provider_getTransaction c txHash = Inr (Some tx)"
    and "provider_getTransactionReceipt c txHash = Inr receipt"
  shows "getTransaction this c txHash
           = (Inr (Some (looked_up_transaction tx receipt)),
              [Rpc ''getTransaction'', Rpc ''getTransactionReceipt''])"
    and "t_status (looked_up_transaction tx receipt)
           = (case receipt of
                None \<Rightarrow> failed
              | Some r \<Rightarrow> if rc_status r = Some 1 then success else failed)"
  using assms
  by (simp_all add: getTransaction_def try_catch_def await_def rpc_def from_library_def
      resolve_def looked_up_transaction_def status_of_def split: option.splits)

text \<open>
  Claim C9 says that an absent receipt maps to \<open>pending\<close>. For a transaction that is known
  but not mined, \<open>getTransaction\<close> reports \<open>failed\<close>; no path of the code yields \<open>pending\<close>,
  though the status type has it.
\<close>

theorem getTransaction_pending_reported_failed:
  "provider_getTransaction pending_chain ''0xabc'' = Inr (Some pending_tx)
   \<and> provider_getTransactionReceipt pending_chain ''0xabc'' = Inr None
   \<and> fst (getTransaction \<lparr> config = sample_config, signer = None \<rparr> pending_chain ''0xabc'')
       = Inr (Some (looked_up_transaction pending_tx None))
   \<and> t_status (looked_up_transaction pending_tx None) = failed
   \<and> failed \<noteq> pending"
  by (simp add: pending_chain_def getTransaction_def try_catch_def await_def rpc_def
      from_library_def resolve_def looked_up_transaction_def status_of_def)

section \<open>The codes that reach the caller\<close>

text \<open>
  Claim C5 says that every failure of a public manager operation carries one of the nine
  codes of the specification. It fails at the first operation of the DeFi manager:
  \<open>getPools\<close> rejects with the code \<open>GET_POOLS_ERROR\<close>, which is not among the nine.
\<close>

theorem getPools_code_outside_taxonomy:
  "getPools =
     (Inl (PolygonError
        ''Failed to get pools: Not implemented - requires Polygon-specific implementation''
        ''GET_POOLS_ERROR'' Undefined), [])
   \<and> rejects_with_code getPools ''GET_POOLS_ERROR''
   \<and> ''GET_POOLS_ERROR'' \<notin> set spec_taxonomy"
  by (simp add: getPools_def rejects_with_code_throw spec_taxonomy_def) (simp add: throw_def)

subsection \<open>The codes of the managers\<close>

text \<open>
  The codes that the six managers give to the errors they construct: the codes of the
  three subclasses of \<^verbatim>\<open>errors.ts\<close> that they throw, and the codes written out where a
  \<open>PolygonError\<close> is constructed.
\<close>

definition manager_codes :: "string list" where
  "manager_codes =
     [''INVALID_AMOUNT'', ''LICENSE_NOT_FOUND'', ''NFT_NOT_FOUND'',
      ''GET_POOLS_ERROR'', ''GET_POOL_ERROR'', ''ADD_LIQUIDITY_ERROR'',
      ''REMOVE_LIQUIDITY_ERROR'', ''SWAP_ERROR'', ''QUOTE_ERROR'', ''RESERVES_ERROR'',
      ''PRICE_ERROR'', ''LIQUIDITY_ERROR'',
      ''CREATE_LICENSE_ERROR'', ''UPDATE_LICENSE_ERROR'', ''REVOKE_LICENSE_ERROR'',
      ''GET_LICENSES_ERROR'', ''LICENSE_COUNT_ERROR'', ''LICENSE_VALIDITY_ERROR'',
      ''EXTEND_LICENSE_ERROR'',
      ''MINT_ERROR'', ''TRANSFER_ERROR'', ''GET_NFTS_ERROR'', ''TOTAL_SUPPLY_ERROR'',
      ''OWNER_ERROR'', ''APPROVE_ERROR'', ''GET_APPROVED_ERROR'',
      ''SET_APPROVAL_FOR_ALL_ERROR'', ''IS_APPROVED_FOR_ALL_ERROR'', ''TOKEN_URI_ERROR'',
      ''SET_TOKEN_URI_ERROR'',
      ''INVALID_ADDRESS'', ''SIGNER_REQUIRED'',
      ''WALLET_NOT_INITIALIZED'', ''INVALID_PRIVATE_KEY'', ''WALLET_CREATION_FAILED'',
      ''WALLET_SET_FAILED'', ''SIGNING_FAILED'', ''VERIFICATION_FAILED'']"

text \<open>
  An error is admitted by a set of codes when, being a typed error (a \<open>PolygonError\<close> or
  one of its subclasses), it carries one of the codes. An outcome fails within the set
  when its error, if it has one, is admitted; an operation rejects within the set when
  its outcome fails within it. Nothing is said of an error that is not typed.
\<close>

definition admitted :: "string list \<Rightarrow> exn \<Rightarrow> bool" where
  "admitted codes e = (instanceof_PolygonError e \<longrightarrow> code e \<in> Some ` set codes)"

definition fails_within :: "string list \<Rightarrow> exn + 'a \<Rightarrow> bool" where
  "fails_within codes outcome = (case outcome of Inl e \<Rightarrow> admitted codes e | Inr x \<Rightarrow> True)"

definition rejects_within :: "string list \<Rightarrow> 'a promise \<Rightarrow> bool" where
  "rejects_within codes p = fails_within codes (fst p)"

text \<open>
  The stronger property, of an outcome that is never an error that is not typed: its
  error, if it has one, is a typed error and carries one of the codes.
\<close>

definition fails_typed_within :: "string list \<Rightarrow> exn + 'a \<Rightarrow> bool" where
  "fails_typed_within codes outcome =
     (case outcome of
        Inl e \<Rightarrow> instanceof_PolygonError e \<and> code e \<in> Some ` set codes
      | Inr x \<Rightarrow> True)"

subsection \<open>Errors that are typed, and errors that are not\<close>

lemma admitted_PolygonError:
  "c \<in> set codes \<Longrightarrow> admitted codes (PolygonError msg c d)"
  by (simp add: admitted_def)

lemma admitted_untyped:
  "admitted codes (TypeError msg)" "admitted codes (SyntaxError msg)"
  "admitted codes (Error msg)" "admitted codes (raised e)"
  by (cases e; simp add: admitted_def instanceof_PolygonError_def TypeError_def
        SyntaxError_def Error_def)+

lemma fails_within_Inr: "fails_within codes (Inr x)"
  by (simp add: fails_within_def)

lemma fails_within_Inl: "admitted codes e \<Longrightarrow> fails_within codes (Inl e)"
  by (simp add: fails_within_def)

lemma fails_within_from_library: "fails_within codes (from_library outcome)"
  by (cases outcome) (simp_all add: from_library_def fails_within_def admitted_untyped)

lemma fails_within_bind:
  assumes "fails_within codes r" and "\<And>x. fails_within codes (f x)"
  shows "fails_within codes (case r of Inl e \<Rightarrow> Inl e | Inr x \<Rightarrow> f x)"
  using assms by (cases r) (simp_all add: fails_within_def)

text \<open>What the unit conversions throw is a plain \<open>Error\<close>.\<close>

lemma BigNumber_from_untyped: "BigNumber_from s = Inl e \<Longrightarrow> \<exists>msg. e = Error msg"
  by (auto simp add: BigNumber_from_def Let_def split: prod.splits if_splits)

lemma formatFixed_untyped: "formatFixed v d = Inl e \<Longrightarrow> \<exists>msg. e = Error msg"
  by (auto simp add: formatFixed_def Let_def split: if_splits)

lemma parseFixed_untyped: "parseFixed s d = Inl e \<Longrightarrow> \<exists>msg. e = Error msg"
  by (auto simp add: parseFixed_def Let_def split: prod.splits if_splits)

lemma fails_within_units:
  "fails_within codes (ethers_parseUnits v d)"
  "fails_within codes (parseUnits v d)"
  "fails_within codes (formatUnits v d)"
  "fails_within codes (parsed_if_given given d)"
proof -
  show parse: "fails_within codes (ethers_parseUnits v d)" for v
    by (cases "parseFixed v d")
       (auto simp add: ethers_parseUnits_def fails_within_def admitted_untyped
          dest: parseFixed_untyped)
  show "fails_within codes (parseUnits v d)"
    using parse [of v]
    by (cases "ethers_parseUnits v d") (simp_all add: parseUnits_def fails_within_def)
  show "fails_within codes (formatUnits v d)"
    by (cases "BigNumber_from v"; cases "formatFixed (projr (BigNumber_from v)) d")
       (auto simp add: formatUnits_def ethers_formatUnits_def fails_within_def admitted_untyped
          dest: BigNumber_from_untyped formatFixed_untyped)
  show "fails_within codes (parsed_if_given given d)"
  proof (cases given)
    case None
    then show ?thesis by (simp add: parsed_if_given_def fails_within_def)
  next
    case (Some s)
    with parse [of s] show ?thesis
      by (cases "ethers_parseUnits s d") (simp_all add: parsed_if_given_def fails_within_def)
  qed
qed

lemma fails_within_map_or_throw:
  assumes "\<And>x. fails_within codes (f x)"
  shows "fails_within codes (map_or_throw f xs)"
proof (induction xs)
  case Nil
  show ?case by (simp add: fails_within_def)
next
  case (Cons x xs)
  with assms [of x] show ?case
    by (auto simp add: fails_within_def split: sum.splits)
qed

lemma fails_within_transfer_of: "fails_within codes (transfer_of event)"
  by (auto simp add: transfer_of_def fails_within_def admitted_untyped split: option.splits)

lemma fails_within_BigInt: "fails_within codes (BigInt s)"
  by (auto simp add: BigInt_def fails_within_def admitted_untyped split: list.splits)

lemma fails_within_tally: "fails_within codes (tally transfers balances)"
proof (induction transfers arbitrary: balances)
  case Nil
  show ?case by (simp add: fails_within_def)
next
  case (Cons transfer transfers)
  show ?case
  proof (cases "BigInt (tt_value transfer)")
    case (Inl e)
    with fails_within_BigInt [of codes "tt_value transfer"] show ?thesis
      by (simp add: fails_within_def)
  next
    case (Inr v)
    then show ?thesis by (simp add: Let_def Cons.IH)
  qed
qed

subsection \<open>How operations are put together\<close>

lemma rejects_within_resolve: "rejects_within codes (resolve x)"
  by (simp add: rejects_within_def resolve_def fails_within_def)

lemma rejects_within_throw: "admitted codes e \<Longrightarrow> rejects_within codes (throw e)"
  by (simp add: rejects_within_def throw_def fails_within_def)

lemma rejects_within_library:
  "rejects_within codes (rpc name outcome)"
  "rejects_within codes (rpc_all names outcome)"
  "rejects_within codes (library outcome)"
  by (simp_all add: rejects_within_def rpc_def rpc_all_def library_def fails_within_from_library)

lemma rejects_within_sync: "fails_within codes outcome \<Longrightarrow> rejects_within codes (sync outcome)"
  by (simp add: rejects_within_def sync_def)

lemma rejects_within_await:
  assumes "rejects_within codes p" and "\<And>x. rejects_within codes (k x)"
  shows "rejects_within codes (await p k)"
proof (cases p)
  case (Pair r tr)
  show ?thesis
  proof (cases r)
    case (Inl e)
    with Pair assms(1) show ?thesis
      by (simp add: await_def rejects_within_def fails_within_def)
  next
    case (Inr x)
    with Pair assms(2) [of x] show ?thesis
      by (cases "k x") (simp add: await_def rejects_within_def)
  qed
qed

lemma rejects_within_try_catch:
  assumes "rejects_within codes body"
    and "\<And>e. admitted codes e \<Longrightarrow> rejects_within codes (handler e)"
  shows "rejects_within codes (try_catch body handler)"
proof (cases body)
  case (Pair r tr)
  show ?thesis
  proof (cases r)
    case (Inl e)
    with Pair assms(1) have "admitted codes e"
      by (simp add: rejects_within_def fails_within_def)
    from assms(2) [OF this] Pair Inl show ?thesis
      by (cases "handler e") (simp add: try_catch_def rejects_within_def)
  next
    case (Inr x)
    with Pair show ?thesis by (simp add: try_catch_def rejects_within_def fails_within_def)
  qed
qed

lemma rejects_within_handler:
  assumes "\<And>e. rejects_within codes (handler e)"
  shows "rejects_within codes (try_catch body handler)"
proof (cases body)
  case (Pair r tr)
  show ?thesis
  proof (cases r)
    case (Inl e)
    with Pair assms [of e] show ?thesis
      by (cases "handler e") (simp add: try_catch_def rejects_within_def)
  next
    case (Inr x)
    with Pair show ?thesis by (simp add: try_catch_def rejects_within_def fails_within_def)
  qed
qed

lemma rejects_within_throw_new_PolygonNetworkError:
  "rejects_within codes (throw_new_PolygonNetworkError msg e)"
  by (simp add: throw_new_PolygonNetworkError_def rejects_within_throw admitted_untyped)

lemma rejects_within_rethrow_or_wrap:
  "admitted codes e \<Longrightarrow> rejects_within codes (rethrow_or_wrap msg e)"
  by (simp add: rethrow_or_wrap_def rejects_within_throw
      rejects_within_throw_new_PolygonNetworkError)

lemma rejects_within_retry:
  assumes "\<And>k. fails_within codes (fn k)"
  shows "rejects_within codes (retry fn N D)"
proof -
  from attempt_outcome [of fn N D 0 0 "[]"]
  obtain k where "fst (retry fn N D) = fn k" unfolding retry_def by blast
  with assms [of k] show ?thesis by (simp add: rejects_within_def)
qed

lemma first_rejection_member:
  "first_rejection order outcomes = Some e \<Longrightarrow> Some e \<in> set outcomes"
proof (induction order)
  case Nil
  then have "filter (\<lambda>outcome. outcome \<noteq> None) outcomes \<noteq> []"
    by (auto split: list.splits)
  then obtain o1 rest where f: "filter (\<lambda>outcome. outcome \<noteq> None) outcomes = o1 # rest"
    by (cases "filter (\<lambda>outcome. outcome \<noteq> None) outcomes") auto
  with Nil have "o1 = Some e" by simp
  moreover have "o1 \<in> set (filter (\<lambda>outcome. outcome \<noteq> None) outcomes)"
    by (simp only: f list.set_intros)
  ultimately show ?case by auto
next
  case (Cons i order)
  then show ?case by (auto split: if_splits dest: nth_mem)
qed

lemma rejects_within_Promise_all3:
  assumes "rejects_within codes p1" and "rejects_within codes p2" and "rejects_within codes p3"
  shows "rejects_within codes (Promise_all3 order p1 p2 p3)"
proof (cases "first_rejection order [rejection p1, rejection p2, rejection p3]")
  case None
  with assms show ?thesis
    by (auto simp add: Promise_all3_def Let_def rejects_within_def fails_within_def
        split: sum.splits)
next
  case (Some e)
  from first_rejection_member [OF this]
  have "rejection p1 = Some e \<or> rejection p2 = Some e \<or> rejection p3 = Some e"
    by auto
  with assms have "admitted codes e"
    by (auto simp add: rejection_def rejects_within_def fails_within_def split: sum.splits)
  with Some show ?thesis
    by (simp add: Promise_all3_def Let_def rejects_within_def fails_within_def)
qed

lemma fails_typed_within_throw:
  "c \<in> set codes \<Longrightarrow> fails_typed_within codes (fst (throw (PolygonError msg c d)))"
  by (simp add: fails_typed_within_def throw_def)

lemma fails_typed_within_resolve: "fails_typed_within codes (fst (resolve x))"
  by (simp add: fails_typed_within_def resolve_def)

lemma fails_typed_within_handler:
  assumes "\<And>e. fails_typed_within codes (fst (handler e))"
  shows "fails_typed_within codes (fst (try_catch body handler))"
proof (cases body)
  case (Pair r tr)
  show ?thesis
  proof (cases r)
    case (Inl e)
    with Pair assms [of e] show ?thesis
      by (cases "handler e") (simp add: try_catch_def)
  next
    case (Inr x)
    with Pair show ?thesis by (simp add: try_catch_def fails_typed_within_def)
  qed
qed

lemma fails_typed_within_rethrow:
  assumes "rejects_within codes body"
    and "\<And>e. fails_typed_within codes (fst (handler e))"
  shows "fails_typed_within codes
           (fst (try_catch body
                   (\<lambda>error. if instanceof_PolygonError error then throw error
                            else handler error)))"
proof (cases body)
  case (Pair r tr)
  show ?thesis
  proof (cases r)
    case (Inl e)
    show ?thesis
    proof (cases "instanceof_PolygonError e")
      case True
      with Pair Inl assms(1) show ?thesis
        by (simp add: try_catch_def throw_def rejects_within_def fails_within_def admitted_def
            fails_typed_within_def)
    next
      case False
      with Pair Inl assms(2) [of e] show ?thesis
        by (cases "handler e") (simp add: try_catch_def)
    qed
  next
    case (Inr x)
    with Pair show ?thesis by (simp add: try_catch_def fails_typed_within_def)
  qed
qed

lemmas rejects_within_intros =
  rejects_within_resolve rejects_within_library rejects_within_sync rejects_within_await
  rejects_within_retry rejects_within_Promise_all3 rejects_within_throw
  rejects_within_throw_new_PolygonNetworkError rejects_within_rethrow_or_wrap
  fails_within_from_library fails_within_units fails_within_bind fails_within_map_or_throw
  fails_within_transfer_of fails_within_tally admitted_untyped

subsection \<open>The six managers\<close>

lemma rejects_with_code_within:
  "rejects_with_code p c \<Longrightarrow> c \<in> set codes \<Longrightarrow> rejects_within codes p"
  by (cases "fst p") (simp_all add: rejects_with_code_def rejects_within_def fails_within_def
      admitted_def)

lemma defi_within:
  "rejects_within manager_codes getPools"
  "rejects_within manager_codes (getPool tokenA tokenB)"
  "rejects_within manager_codes (addLiquidity tokenA tokenB amountA amountB)"
  "rejects_within manager_codes (removeLiquidity tokenA tokenB lpTokenAmount)"
  "rejects_within manager_codes (swap tokenIn tokenOut amountIn amountOutMin)"
  "rejects_within manager_codes (getQuote tokenIn tokenOut amountIn)"
  "rejects_within manager_codes (getReserves tokenA tokenB)"
  "rejects_within manager_codes (getPrice tokenA tokenB)"
  "rejects_within manager_codes (getLiquidity tokenA tokenB)"
  by (rule rejects_with_code_within, rule defi_codes, simp add: manager_codes_def)+

lemma license_within:
  "rejects_within manager_codes (createLicense productId licenseType metadata)"
  "rejects_within manager_codes (getLicense licenseId)"
  "rejects_within manager_codes (updateLicense licenseId updates)"
  "rejects_within manager_codes (revokeLicense licenseId)"
  "rejects_within manager_codes (getLicensesByOwner ownerAddress)"
  "rejects_within manager_codes getLicenseCount"
  "rejects_within manager_codes (isLicenseValid licenseId)"
  "rejects_within manager_codes (extendLicense licenseId additionalTime)"
  by (rule rejects_with_code_within, rule license_codes, simp add: manager_codes_def)+

lemma nft_within:
  "rejects_within manager_codes (mint contractAddress to metadata)"
  "rejects_within manager_codes (getNFT tokenId contractAddress)"
  "rejects_within manager_codes (nft_transfer contractAddress tokenId from to)"
  "rejects_within manager_codes (getNFTsByOwner contractAddress ownerAddress)"
  "rejects_within manager_codes (getTotalSupply contractAddress)"
  "rejects_within manager_codes (getOwner contractAddress tokenId)"
  "rejects_within manager_codes (nft_approve contractAddress tokenId to)"
  "rejects_within manager_codes (getApproved contractAddress tokenId)"
  "rejects_within manager_codes (setApprovalForAll contractAddress operator approved)"
  "rejects_within manager_codes (isApprovedForAll contractAddress owner operator)"
  "rejects_within manager_codes (getTokenURI contractAddress tokenId)"
  "rejects_within manager_codes (setTokenURI contractAddress tokenId uri)"
  by (rule rejects_with_code_within, rule nft_codes, simp add: manager_codes_def)+

lemma updateConfig_stores:
  "stub_config (PolygonDeFiManager_updateConfig this newConfig) = newConfig"
  "stub_config (PolygonLicenseManager_updateConfig this newConfig) = newConfig"
  "stub_config (PolygonNFTManager_updateConfig this newConfig) = newConfig"
  by (simp_all add: PolygonDeFiManager_updateConfig_def PolygonLicenseManager_updateConfig_def
      PolygonNFTManager_updateConfig_def)

lemma constructors_within:
  "fails_within codes (new_PolygonTokenManager c cfg)"
  "fails_within codes (new_PolygonContractManager c cfg)"
  "fails_within codes (new_PolygonWalletManager c cfg)"
  by (auto simp add: new_PolygonTokenManager_def new_PolygonContractManager_def new_manager_def
      new_PolygonWalletManager_def fails_within_def admitted_untyped
      split: option.splits sum.splits)

lemma manager_codes_member:
  "''INVALID_ADDRESS'' \<in> set manager_codes"
  "''SIGNER_REQUIRED'' \<in> set manager_codes"
  "''WALLET_NOT_INITIALIZED'' \<in> set manager_codes"
  "''INVALID_PRIVATE_KEY'' \<in> set manager_codes"
  "''WALLET_CREATION_FAILED'' \<in> set manager_codes"
  "''WALLET_SET_FAILED'' \<in> set manager_codes"
  "''SIGNING_FAILED'' \<in> set manager_codes"
  "''VERIFICATION_FAILED'' \<in> set manager_codes"
  by (simp_all add: manager_codes_def)

lemma token_within:
  "rejects_within manager_codes (getTokenInfo this c tokenAddress)"
  "rejects_within manager_codes (getTokenBalance this c tokenAddress ownerAddress)"
  "rejects_within manager_codes (getTokenAllowance this c tokenAddress ownerAddress spenderAddress)"
  "rejects_within manager_codes (transferToken this c tokenAddress toAddress amount gasLimit)"
  "rejects_within manager_codes (approveToken this c tokenAddress spenderAddress amount gasLimit)"
  "rejects_within manager_codes
     (transferFromToken this c tokenAddress fromAddress toAddress amount gasLimit)"
  "rejects_within manager_codes (getTokenTransfers this c tokenAddress fromBlock toBlock)"
  "rejects_within manager_codes
     (getTokenTransfersByAddress this c tokenAddress address fromBlock toBlock)"
  "rejects_within manager_codes (getTokenHolders this c tokenAddress fromBlock toBlock)"
  "rejects_within manager_codes (getTokenSupply this c tokenAddress)"
  "rejects_within manager_codes (getTokenDecimals this c tokenAddress)"
  "rejects_within manager_codes (formatTokenAmount this c tokenAddress amount)"
  "rejects_within manager_codes (parseTokenAmount this c tokenAddress amount)"
  "rejects_within manager_codes (getTokenSymbol this c tokenAddress)"
  "rejects_within manager_codes (getTokenName this c tokenAddress)"
  "rejects_within manager_codes (PolygonTokenManager_disconnect this)"
  unfolding getTokenInfo_def getTokenBalance_def getTokenAllowance_def transferToken_def
    approveToken_def transferFromToken_def getTokenTransfers_def getTokenTransfersByAddress_def
    getTokenHolders_def getTokenSupply_def getTokenDecimals_def formatTokenAmount_def
    parseTokenAmount_def getTokenSymbol_def getTokenName_def PolygonTokenManager_disconnect_def
  by (intro rejects_within_try_catch rejects_within_intros admitted_PolygonError
      | simp add: manager_codes_member split: prod.splits option.splits
      | rule conjI impI allI)+

lemma getContract_within: "rejects_within manager_codes (getContract this c address abi)"
  unfolding getContract_def
  by (intro rejects_within_try_catch rejects_within_intros admitted_PolygonError
      | simp add: manager_codes_member
      | rule conjI impI allI)+

lemma contract_within:
  "rejects_within manager_codes
     (deployContract this c now bytecode abi constructorArgs gasLimit)"
  "rejects_within manager_codes (callContractMethod this c contractAddress abi methodName args)"
  "rejects_within manager_codes
     (sendContractTransaction this c contractAddress abi methodName args options)"
  "rejects_within manager_codes
     (getContractEvents this c contractAddress abi eventName fromBlock toBlock)"
  "rejects_within manager_codes (getContractBalance this c address)"
  "rejects_within manager_codes (getContractCode this c address)"
  "rejects_within manager_codes (isContract this c address)"
  "rejects_within manager_codes (getContractStorageAt this c address position)"
  "rejects_within manager_codes (PolygonContractManager_estimateGas this c to calldata v)"
  "rejects_within manager_codes (getTransactionCount this c address)"
  "rejects_within manager_codes (getTransaction this c txHash)"
  "rejects_within manager_codes (waitForTransaction this c txHash confirmations)"
  "rejects_within manager_codes (getCurrentBlockNumber this c)"
  "rejects_within manager_codes (getBlock this c blockNumber)"
  "rejects_within manager_codes (getNetwork this c)"
  "rejects_within manager_codes (PolygonContractManager_getGasPrice this c)"
  "rejects_within manager_codes (PolygonContractManager_getFeeData this c)"
  "rejects_within manager_codes (PolygonContractManager_disconnect this)"
  unfolding deployContract_def callContractMethod_def sendContractTransaction_def
    getContractEvents_def getContractBalance_def getContractCode_def isContract_def
    getContractStorageAt_def PolygonContractManager_estimateGas_def getTransactionCount_def
    getTransaction_def waitForTransaction_def getCurrentBlockNumber_def getBlock_def
    getNetwork_def PolygonContractManager_getGasPrice_def PolygonContractManager_getFeeData_def
    PolygonContractManager_disconnect_def
  by (intro rejects_within_try_catch rejects_within_intros admitted_PolygonError
        getContract_within
      | simp add: manager_codes_member split: prod.splits option.splits
      | rule conjI impI allI)+

lemma wallet_creation_within:
  "fails_within manager_codes (createWallet this c)"
  "fails_within manager_codes (createWalletFromMnemonic this c mnemonic index)"
  "fails_within manager_codes (createWalletFromPrivateKey this c privateKey)"
  unfolding createWallet_def createWalletFromMnemonic_def createWalletFromPrivateKey_def
    rejects_within_def [symmetric] Let_def
  by (intro rejects_within_try_catch rejects_within_intros admitted_PolygonError
      | simp add: manager_codes_member split: prod.splits option.splits
      | rule conjI impI allI)+

lemma wallet_within:
  "rejects_within manager_codes (getWalletBalance this c address)"
  "rejects_within manager_codes (getWalletTransactionCount this c address)"
  "rejects_within manager_codes (sendTransaction this c to v gasLimit gasPrice)"
  "rejects_within manager_codes (signMessage this c text)"
  "rejects_within manager_codes (signTransaction this c transaction)"
  "rejects_within manager_codes (verifyMessage this c text signature)"
  "rejects_within manager_codes (getWalletInfo this c address)"
  "rejects_within manager_codes (PolygonWalletManager_estimateGas this c to given calldata)"
  "rejects_within manager_codes (PolygonWalletManager_getGasPrice this c)"
  "rejects_within manager_codes (PolygonWalletManager_getFeeData this c)"
  "rejects_within manager_codes (getCurrentWallet this)"
  "rejects_within manager_codes (setWallet this c privateKey)"
  "rejects_within manager_codes (PolygonWalletManager_disconnect this)"
  unfolding getWalletBalance_def getWalletTransactionCount_def sendTransaction_def
    signMessage_def signTransaction_def verifyMessage_def getWalletInfo_def
    PolygonWalletManager_estimateGas_def PolygonWalletManager_getGasPrice_def
    PolygonWalletManager_getFeeData_def getCurrentWallet_def setWallet_def
    PolygonWalletManager_disconnect_def
  by (intro rejects_within_try_catch rejects_within_intros admitted_PolygonError
      | simp add: manager_codes_member split: prod.splits option.splits
      | rule conjI impI allI)+

text \<open>Operations whose catch block makes a typed error of whatever it catches.\<close>

lemma wallet_typed_within:
  "fails_typed_within manager_codes (createWallet this c)"
  "fails_typed_within manager_codes (createWalletFromMnemonic this c mnemonic index)"
  "fails_typed_within manager_codes (fst (signMessage this c text))"
  "fails_typed_within manager_codes (fst (signTransaction this c transaction))"
  "fails_typed_within manager_codes (fst (verifyMessage this c text signature))"
  unfolding createWallet_def createWalletFromMnemonic_def signMessage_def signTransaction_def
    verifyMessage_def Let_def
  by (intro fails_typed_within_handler fails_typed_within_throw manager_codes_member)+

lemma wallet_key_typed_within:
  "fails_typed_within manager_codes (createWalletFromPrivateKey this c privateKey)"
  "fails_typed_within manager_codes (fst (setWallet this c privateKey))"
  unfolding createWalletFromPrivateKey_def setWallet_def
  by (intro fails_typed_within_rethrow fails_typed_within_throw manager_codes_member
        rejects_within_intros admitted_PolygonError
      | simp add: manager_codes_member
      | rule conjI impI allI)+

lemma never_failing:
  "fails_typed_within codes (fst (getCurrentWallet wm))"
  "fails_typed_within codes (fst (PolygonWalletManager_disconnect wm))"
  "fails_typed_within codes (fst (PolygonTokenManager_disconnect tm))"
  "fails_typed_within codes (fst (PolygonContractManager_disconnect cm))"
  by (simp_all add: getCurrentWallet_def PolygonWalletManager_disconnect_def
      PolygonTokenManager_disconnect_def PolygonContractManager_disconnect_def
      fails_typed_within_def resolve_def split: option.splits)

text \<open>
  The other half of the claim, that no error which is not typed crosses the boundary of
  a manager, is not met where a catch block ends with \<^verbatim>\<open>new PolygonNetworkError\<close>: when
  the node cannot be reached, \<open>getContractCode\<close> rejects with the \<^verbatim>\<open>TypeError\<close> of the
  runtime, which is not a \<open>PolygonError\<close>.
\<close>

lemma transport_failure_surfaces_TypeError:
  "getContractCode \<lparr> config = sample_config, signer = None \<rparr> unreachable ''0x01''
     = (Inl (TypeError ''PolygonNetworkError is not a constructor''), [Rpc ''getCode''])"
  "\<not> instanceof_PolygonError (TypeError ''PolygonNetworkError is not a constructor'')"
  by (simp_all add: getContractCode_def unreachable_def try_catch_def rpc_def from_library_def
      throw_new_PolygonNetworkError_def throw_def TypeError_def instanceof_PolygonError_def)

text \<open>
  Claim C5, amended. The closed set of codes is the managers' own, \<open>manager_codes\<close>, not
  the nine of the specification: whenever a public operation of one of the six managers
  (DeFi, license, NFT, token, contract, wallet) fails with a typed error, a \<open>PolygonError\<close>
  or one of its subclasses, the code of that error is in \<open>manager_codes\<close>. This holds for
  every operation, every state of the manager, every argument and every answer of the
  chain, and for the constructors as well.

  For the DeFi, license and NFT managers more is true: each asynchronous operation rejects
  on every call, with a typed error that carries the operation's own code
  (\<open>INVALID_AMOUNT\<close> where an amount check fails, \<open>LICENSE_NOT_FOUND\<close> for \<open>getLicense\<close>,
  \<open>NFT_NOT_FOUND\<close> for \<open>getNFT\<close>, and else one code for each operation), while their
  \<open>updateConfig\<close> stores the configuration and cannot fail.

  In the wallet manager, the operations that make, set or use a key (\<open>createWallet\<close>,
  \<open>createWalletFromMnemonic\<close>, \<open>createWalletFromPrivateKey\<close>, \<open>setWallet\<close>, \<open>signMessage\<close>,
  \<open>signTransaction\<close>, \<open>verifyMessage\<close>) fail with a typed error only, whose code is in the
  set; \<open>getCurrentWallet\<close> and the three \<open>disconnect\<close> cannot fail.

  Nothing is stated about the failures of the other operations of the token, contract and
  wallet managers that are not typed errors.
\<close>

theorem managers_fail_with_their_own_codes:
  "(rejects_within manager_codes getPools
    \<and> rejects_within manager_codes (getPool tokenA tokenB)
    \<and> rejects_within manager_codes (addLiquidity tokenA tokenB amountA amountB)
    \<and> rejects_within manager_codes (removeLiquidity tokenA tokenB lpTokenAmount)
    \<and> rejects_within manager_codes (swap tokenIn tokenOut amountIn amountOutMin)
    \<and> rejects_within manager_codes (getQuote tokenIn tokenOut amountIn)
    \<and> rejects_within manager_codes (getReserves tokenA tokenB)
    \<and> rejects_within manager_codes (getPrice tokenA tokenB)
    \<and> rejects_within manager_codes (getLiquidity tokenA tokenB))
   \<and> (rejects_within manager_codes (createLicense productId licenseType metadata)
    \<and> rejects_within manager_codes (getLicense licenseId)
    \<and> rejects_within manager_codes (updateLicense licenseId updates)
    \<and> rejects_within manager_codes (revokeLicense licenseId)
    \<and> rejects_within manager_codes (getLicensesByOwner ownerAddress)
    \<and> rejects_within manager_codes getLicenseCount
    \<and> rejects_within manager_codes (isLicenseValid licenseId)
    \<and> rejects_within manager_codes (extendLicense licenseId additionalTime))
   \<and> (rejects_within manager_codes (mint contractAddress to metadata)
    \<and> rejects_within manager_codes (getNFT tokenId contractAddress)
    \<and> rejects_within manager_codes (nft_transfer contractAddress tokenId from to)
    \<and> rejects_within manager_codes (getNFTsByOwner contractAddress ownerAddress)
    \<and> rejects_within manager_codes (getTotalSupply contractAddress)
    \<and> rejects_within manager_codes (getOwner contractAddress tokenId)
    \<and> rejects_within manager_codes (nft_approve contractAddress tokenId to)
    \<and> rejects_within manager_codes (getApproved contractAddress tokenId)
    \<and> rejects_within manager_codes (setApprovalForAll contractAddress operator approved)
    \<and> rejects_within manager_codes (isApprovedForAll contractAddress owner operator)
    \<and> rejects_within manager_codes (getTokenURI contractAddress tokenId)
    \<and> rejects_within manager_codes (setTokenURI contractAddress tokenId uri))
   \<and> (fails_within manager_codes (new_PolygonTokenManager c cfg)
    \<and> rejects_within manager_codes (getTokenInfo tm c tokenAddress)
    \<and> rejects_within manager_codes (getTokenBalance tm c tokenAddress ownerAddress)
    \<and> rejects_within manager_codes (getTokenAllowance tm c tokenAddress ownerAddress spenderAddress)
    \<and> rejects_within manager_codes (transferToken tm c tokenAddress toAddress amount gasLimit)
    \<and> rejects_within manager_codes (approveToken tm c tokenAddress spenderAddress amount gasLimit)
    \<and> rejects_within manager_codes
         (transferFromToken tm c tokenAddress fromAddress toAddress amount gasLimit)
    \<and> rejects_within manager_codes (getTokenTransfers tm c tokenAddress fromBlock toBlock)
    \<and> rejects_within manager_codes
         (getTokenTransfersByAddress tm c tokenAddress address fromBlock toBlock)
    \<and> rejects_within manager_codes (getTokenHolders tm c tokenAddress fromBlock toBlock)
    \<and> rejects_within manager_codes (getTokenSupply tm c tokenAddress)
    \<and> rejects_within manager_codes (getTokenDecimals tm c tokenAddress)
    \<and> rejects_within manager_codes (formatTokenAmount tm c tokenAddress amount)
    \<and> rejects_within manager_codes (parseTokenAmount tm c tokenAddress amount)
    \<and> rejects_within manager_codes (getTokenSymbol tm c tokenAddress)
    \<and> rejects_within manager_codes (getTokenName tm c tokenAddress)
    \<and> rejects_within manager_codes (PolygonTokenManager_disconnect tm))
   \<and> (fails_within manager_codes (new_PolygonContractManager c cfg)
    \<and> rejects_within manager_codes
         (deployContract cm c now bytecode abi constructorArgs gasLimit)
    \<and> rejects_within manager_codes (getContract cm c address abi)
    \<and> rejects_within manager_codes (callContractMethod cm c contractAddress abi methodName args)
    \<and> rejects_within manager_codes
         (sendContractTransaction cm c contractAddress abi methodName args options)
    \<and> rejects_within manager_codes
         (getContractEvents cm c contractAddress abi eventName fromBlock toBlock)
    \<and> rejects_within manager_codes (getContractBalance cm c address)
    \<and> rejects_within manager_codes (getContractCode cm c address)
    \<and> rejects_within manager_codes (isContract cm c address)
    \<and> rejects_within manager_codes (getContractStorageAt cm c address position)
    \<and> rejects_within manager_codes (PolygonContractManager_estimateGas cm c to calldata given)
    \<and> rejects_within manager_codes (getTransactionCount cm c address)
    \<and> rejects_within manager_codes (getTransaction cm c txHash)
    \<and> rejects_within manager_codes (waitForTransaction cm c txHash confirmations)
    \<and> rejects_within manager_codes (getCurrentBlockNumber cm c)
    \<and> rejects_within manager_codes (getBlock cm c blockNumber)
    \<and> rejects_within manager_codes (getNetwork cm c)
    \<and> rejects_within manager_codes (PolygonContractManager_getGasPrice cm c)
    \<and> rejects_within manager_codes (PolygonContractManager_getFeeData cm c)
    \<and> rejects_within manager_codes (PolygonContractManager_disconnect cm))
   \<and> (fails_within manager_codes (new_PolygonWalletManager c cfg)
    \<and> fails_within manager_codes (createWallet wm c)
    \<and> fails_within manager_codes (createWalletFromMnemonic wm c mnemonic index)
    \<and> fails_within manager_codes (createWalletFromPrivateKey wm c privateKey)
    \<and> rejects_within manager_codes (getWalletBalance wm c address)
    \<and> rejects_within manager_codes (getWalletTransactionCount wm c address)
    \<and> rejects_within manager_codes (sendTransaction wm c to v gasLimit gasPrice)
    \<and> rejects_within manager_codes (signMessage wm c text)
    \<and> rejects_within manager_codes (signTransaction wm c transaction)
    \<and> rejects_within manager_codes (verifyMessage wm c text signature)
    \<and> rejects_within manager_codes (getWalletInfo wm c address)
    \<and> rejects_within manager_codes (PolygonWalletManager_estimateGas wm c to given calldata_given)
    \<and> rejects_within manager_codes (PolygonWalletManager_getGasPrice wm c)
    \<and> rejects_within manager_codes (PolygonWalletManager_getFeeData wm c)
    \<and> rejects_within manager_codes (getCurrentWallet wm)
    \<and> rejects_within manager_codes (setWallet wm c privateKey)
    \<and> rejects_within manager_codes (PolygonWalletManager_disconnect wm))
   \<and> (rejects_with_code getPools ''GET_POOLS_ERROR''
    \<and> rejects_with_code (getPool tokenA tokenB) ''GET_POOL_ERROR''
    \<and> rejects_with_code (addLiquidity tokenA tokenB amountA amountB)
         (if amountA = [] \<or> amountA = ''0'' \<or> amountB = [] \<or> amountB = ''0''
          then ''INVALID_AMOUNT'' else ''ADD_LIQUIDITY_ERROR'')
    \<and> rejects_with_code (removeLiquidity tokenA tokenB lpTokenAmount)
         (if lpTokenAmount = [] \<or> lpTokenAmount = ''0''
          then ''INVALID_AMOUNT'' else ''REMOVE_LIQUIDITY_ERROR'')
    \<and> rejects_with_code (swap tokenIn tokenOut amountIn amountOutMin)
         (if amountIn = [] \<or> amountIn = ''0'' \<or> amountOutMin = [] \<or> amountOutMin = ''0''
          then ''INVALID_AMOUNT'' else ''SWAP_ERROR'')
    \<and> rejects_with_code (getQuote tokenIn tokenOut amountIn)
         (if amountIn = [] \<or> amountIn = ''0'' then ''INVALID_AMOUNT'' else ''QUOTE_ERROR'')
    \<and> rejects_with_code (getReserves tokenA tokenB) ''RESERVES_ERROR''
    \<and> rejects_with_code (getPrice tokenA tokenB) ''PRICE_ERROR''
    \<and> rejects_with_code (getLiquidity tokenA tokenB) ''LIQUIDITY_ERROR''
    \<and> rejects_with_code (createLicense productId licenseType metadata) ''CREATE_LICENSE_ERROR''
    \<and> rejects_with_code (getLicense licenseId) ''LICENSE_NOT_FOUND''
    \<and> rejects_with_code (updateLicense licenseId updates) ''UPDATE_LICENSE_ERROR''
    \<and> rejects_with_code (revokeLicense licenseId) ''REVOKE_LICENSE_ERROR''
    \<and> rejects_with_code (getLicensesByOwner ownerAddress) ''GET_LICENSES_ERROR''
    \<and> rejects_with_code getLicenseCount ''LICENSE_COUNT_ERROR''
    \<and> rejects_with_code (isLicenseValid licenseId) ''LICENSE_VALIDITY_ERROR''
    \<and> rejects_with_code (extendLicense licenseId additionalTime)
         (if additionalTime \<le> 0 then ''INVALID_AMOUNT'' else ''EXTEND_LICENSE_ERROR'')
    \<and> rejects_with_code (mint contractAddress to metadata) ''MINT_ERROR''
    \<and> rejects_with_code (getNFT tokenId contractAddress) ''NFT_NOT_FOUND''
    \<and> rejects_with_code (nft_transfer contractAddress tokenId from to) ''TRANSFER_ERROR''
    \<and> rejects_with_code (getNFTsByOwner contractAddress ownerAddress) ''GET_NFTS_ERROR''
    \<and> rejects_with_code (getTotalSupply contractAddress) ''TOTAL_SUPPLY_ERROR''
    \<and> rejects_with_code (getOwner contractAddress tokenId) ''OWNER_ERROR''
    \<and> rejects_with_code (nft_approve contractAddress tokenId to) ''APPROVE_ERROR''
    \<and> rejects_with_code (getApproved contractAddress tokenId) ''GET_APPROVED_ERROR''
    \<and> rejects_with_code (setApprovalForAll contractAddress operator approved)
         ''SET_APPROVAL_FOR_ALL_ERROR''
    \<and> rejects_with_code (isApprovedForAll contractAddress owner operator)
         ''IS_APPROVED_FOR_ALL_ERROR''
    \<and> rejects_with_code (getTokenURI contractAddress tokenId) ''TOKEN_URI_ERROR''
    \<and> rejects_with_code (setTokenURI contractAddress tokenId uri) ''SET_TOKEN_URI_ERROR''
    \<and> stub_config (PolygonDeFiManager_updateConfig stub newConfig) = newConfig
    \<and> stub_config (PolygonLicenseManager_updateConfig stub newConfig) = newConfig
    \<and> stub_config (PolygonNFTManager_updateConfig stub newConfig) = newConfig)
   \<and> (fails_typed_within manager_codes (createWallet wm c)
    \<and> fails_typed_within manager_codes (createWalletFromMnemonic wm c mnemonic index)
    \<and> fails_typed_within manager_codes (createWalletFromPrivateKey wm c privateKey)
    \<and> fails_typed_within manager_codes (fst (setWallet wm c privateKey))
    \<and> fails_typed_within manager_codes (fst (signMessage wm c text))
    \<and> fails_typed_within manager_codes (fst (signTransaction wm c transaction))
    \<and> fails_typed_within manager_codes (fst (verifyMessage wm c text signature))
    \<and> fails_typed_within manager_codes (fst (getCurrentWallet wm))
    \<and> fails_typed_within manager_codes (fst (PolygonWalletManager_disconnect wm))
    \<and> fails_typed_within manager_codes (fst (PolygonTokenManager_disconnect tm))
    \<and> fails_typed_within manager_codes (fst (PolygonContractManager_disconnect cm)))"
  by (intro conjI defi_codes license_codes nft_codes updateConfig_stores defi_within
      license_within nft_within constructors_within token_within getContract_within
      contract_within wallet_creation_within wallet_within wallet_typed_within
      wallet_key_typed_within never_failing)

theorem managers_fail_with_their_own_codes_witness:
  "fst (sendTransaction \<lparr> wconfig = sample_config, wallet = None \<rparr> unreachable ''0xTo'' ''1.0''
          None None)
     = Inl (PolygonError ''Wallet not initialized'' ''WALLET_NOT_INITIALIZED'' Undefined)
   \<and> instanceof_PolygonError
        (PolygonError ''Wallet not initialized'' ''WALLET_NOT_INITIALIZED'' Undefined)
   \<and> code (PolygonError ''Wallet not initialized'' ''WALLET_NOT_INITIALIZED'' Undefined)
        \<in> Some ` set manager_codes"
proof -
  have run: "fst (sendTransaction \<lparr> wconfig = sample_config, wallet = None \<rparr> unreachable
                    ''0xTo'' ''1.0'' None None)
               = Inl (PolygonError ''Wallet not initialized'' ''WALLET_NOT_INITIALIZED''
                        Undefined)"
    by (simp add: sendTransaction_def rethrow_or_wrap_typed) (simp add: throw_def)
  have typed: "instanceof_PolygonError
                 (PolygonError ''Wallet not initialized'' ''WALLET_NOT_INITIALIZED'' Undefined)"
    by simp
  have "rejects_within manager_codes
          (sendTransaction \<lparr> wconfig = sample_config, wallet = None \<rparr> unreachable ''0xTo''
             ''1.0'' None None)"
    by (rule managers_fail_with_their_own_codes
          [where wm = "\<lparr> wconfig = sample_config, wallet = None \<rparr>" and c = unreachable
             and to = "''0xTo''" and v = "''1.0''" and gasLimit = None and gasPrice = None,
           THEN conjunct2, THEN conjunct2, THEN conjunct2, THEN conjunct2, THEN conjunct2,
           THEN conjunct1,
           THEN conjunct2, THEN conjunct2, THEN conjunct2, THEN conjunct2, THEN conjunct2,
           THEN conjunct2, THEN conjunct1])
  with run typed show ?thesis
    by (simp add: rejects_within_def fails_within_def admitted_def)
qed

end
